theory Spec2Isabelle
  imports Main "HOL-Library.Word" "HOL-Library.AList" "HOL-Library.Multiset"
begin

section \<open>Checkpoint/restore extension of the container runtime\<close>

text \<open>
  The development embeds the Go sources of the checkpoint/restore extension:
  the job handlers of the daemon (\<open>ContainerCheckpoint\<close>, \<open>ContainerRestore\<close>,
  \<open>ContainerInspect\<close>), the checkpoint methods \<open>clone\<close> and \<open>patchImage\<close>, the
  native driver's \<open>Checkpoint\<close> and \<open>execRestore\<close>, and the image rewriter
  \<open>patch-criu\<close>.  Calls that leave the repository (the operating system, the
  freezer tool, library decoders) are parameters of the model: their outcomes are fields
  of an environment record, and the calls the code makes are recorded as a trace.
\<close>

subsection \<open>Formatting helpers\<close>

text \<open>\<open>fmt.Sprintf("%d", n)\<close>: decimal rendering of an integer.\<close>

definition digit_char :: "nat \<Rightarrow> char" where
  "digit_char n = char_of (48 + n)"

function showNat :: "nat \<Rightarrow> string" where
  "showNat n = (if n < 10 then [digit_char n] else showNat (n div 10) @ [digit_char (n mod 10)])"
  by pat_completeness auto
termination
  by (relation "measure id") auto

declare showNat.simps [simp del]

definition showInt :: "int \<Rightarrow> string" where
  "showInt i = (if i < 0 then CHR ''-'' # showNat (nat (- i)) else showNat (nat i))"

subsection \<open>The checkpoint job handler\<close>

text \<open>
  \<open>engine.Job\<close> carries the job name and its arguments; \<open>engine.Status\<close> is
  \<open>StatusOK\<close> or the status returned by \<open>job.Errorf\<close>, which carries the message.
\<close>

record Job =
  Name :: string
  Args :: "string list"

datatype Status = StatusOK | StatusErr string

text \<open>
  The daemon's container table and the container's \<open>Checkpoint\<close> method live in
  parts of the daemon that the handler only calls: \<open>daemonGet\<close> is \<open>daemon.Get\<close>
  (\<open>None\<close> for \<open>nil\<close>), \<open>containerCheckpoint\<close> is \<open>container.Checkpoint\<close>, returning
  the text of its error, if any.  The handler's calls on the container are recorded.
\<close>

datatype 'c call = CallCheckpoint 'c bool | CallLogEvent 'c string

record 'c daemon_env =
  daemonGet :: "string \<Rightarrow> 'c option"
  containerCheckpoint :: "'c \<Rightarrow> bool \<Rightarrow> string option"

definition ContainerCheckpoint :: "'c daemon_env \<Rightarrow> Job \<Rightarrow> Status \<times> 'c call list" where
  "ContainerCheckpoint d job =
     (if length (Args job) \<noteq> 2 then (StatusErr (''Usage: '' @ Name job @ '' CONTAINER''), [])
      else
        let name = Args job ! 0 in
        case daemonGet d name of
          None \<Rightarrow> (StatusErr (''No such container: '' @ name), [])
        | Some container \<Rightarrow>
            (case containerCheckpoint d container (Args job ! 1 = ''1'') of
               Some err \<Rightarrow>
                 (StatusErr (''Cannot checkpoint container '' @ name @ '': '' @ err),
                  [CallCheckpoint container (Args job ! 1 = ''1'')])
             | None \<Rightarrow>
                 (StatusOK,
                  [CallCheckpoint container (Args job ! 1 = ''1''),
                   CallLogEvent container ''checkpoint''])))"

text \<open>The stop-after-dump flags that a trace of calls passed to \<open>container.Checkpoint\<close>.\<close>

fun stopFlags :: "'c call list \<Rightarrow> bool list" where
  "stopFlags [] = []"
| "stopFlags (CallCheckpoint c b # cs) = b # stopFlags cs"
| "stopFlags (CallLogEvent c s # cs) = stopFlags cs"

subsection \<open>The native driver: dumping a container\<close>

text \<open>
  The fields of \<open>execdriver.Command\<close> and \<open>execdriver.Checkpoint\<close> that the driver
  reads.  \<open>Volumes\<close> is a Go map from host path to guest path; the driver ranges over
  it, and Go leaves the order of that iteration open, so the model takes the volumes as
  the list of pairs in the order the iteration yields them.
\<close>

record Command =
  ID :: string
  Rootfs :: string
  ContainerPid :: int

record Checkpoint =
  Command :: Command
  ImagePath :: string
  Volumes :: "(string \<times> string) list"

text \<open>
  Calls that leave the process, with what they returned where the code can see it.
  \<open>EvRun path argv\<close> is the execution of a command; \<open>EvKill\<close> is \<open>syscall.Kill\<close>.
\<close>

datatype event =
    EvRun string "string list"
  | EvStat string bool
  | EvRemove string bool
  | EvSetInterfaceMaster string string
  | EvInterfaceUp string
  | EvCloseWaitForStart
  | EvReadFile string
  | EvFindProcess int
  | EvStartCallback int
  | EvWait int
  | EvKill int int

datatype error = ExitError int | OtherError string | Panic

text \<open>The argument list that \<open>Checkpoint\<close> builds: a literal slice, then one
  \<open>append\<close> per volume.\<close>

definition dumpArgs :: "Checkpoint \<Rightarrow> string list" where
  "dumpArgs checkpoint =
     foldl (\<lambda>cmdArgs (hostPath, guestPath).
              cmdArgs @ [''--ext-mount-map'', hostPath @ '':'' @ guestPath])
       [''dump'',
        ''-v4'',
        ''-o'', ''/dev/stdout'',
        ''--manage-cgroups'',
        ''--evasive-devices'',
        ''--ext-mount-map'', ''/etc/resolv.conf:/etc/resolv.conf'',
        ''--ext-mount-map'', ''/etc/hosts:/etc/hosts'',
        ''--ext-mount-map'', ''/etc/hostname:/etc/hostname'',
        ''--ext-mount-map'', ''/.dockerinit:/.dockerinit'',
        ''-D'', ImagePath checkpoint,
        ''-t'', showInt (ContainerPid (Command checkpoint)),
        ''--root'', Rootfs (Command checkpoint)]
       (Volumes checkpoint)"

text \<open>
  \<open>(d *driver) Checkpoint\<close>.  \<open>active\<close> tells whether \<open>d.activeContainers\<close> has an
  entry for an id; \<open>criu\<close> is the outcome of running the tool on an argument list: the
  error of \<open>CombinedOutput\<close>, if any, and the captured output.
\<close>

definition DriverCheckpoint ::
  "(string \<Rightarrow> bool) \<Rightarrow> (string list \<Rightarrow> string option \<times> string) \<Rightarrow> Checkpoint \<Rightarrow> bool
     \<Rightarrow> error option \<times> event list" where
  "DriverCheckpoint active criu checkpoint stop =
     (let c = Command checkpoint in
      if \<not> active (ID c) then
        (Some (OtherError (''active container for '' @ ID c @ '' does not exist'')), [])
      else
        let cmdArgs = dumpArgs checkpoint;
            (err, output) = criu cmdArgs
        in (case err of
              Some e \<Rightarrow>
                Some (OtherError (''failed checkpointing container '' @ ID c @ '': '' @ e
                                   @ ''; '' @ output))
            | None \<Rightarrow> None,
            [EvRun ''criu'' (''criu'' # cmdArgs)]))"

text \<open>
  What the interface description asks of a dump command line: no \<open>--ext-mount-map\<close>
  option at or after the \<open>-D\<close> option.
\<close>

definition extMapsBeforeImageDir :: "string list \<Rightarrow> bool" where
  "extMapsBeforeImageDir args =
     (''--ext-mount-map'' \<notin> set (dropWhile (\<lambda>a. a \<noteq> ''-D'') args))"

subsection \<open>The native driver: restoring a container\<close>

text \<open>\<open>filepath.Join\<close> of a clean, non-empty directory path and a file name.\<close>

definition joinPath :: "string \<Rightarrow> string \<Rightarrow> string" where
  "joinPath dir name = dir @ ''/'' @ name"

text \<open>
  \<open>strconv.Atoi\<close> on a platform with 64-bit \<open>int\<close>: an optional sign and at least one
  decimal digit; a syntax error yields 0, a value out of range yields the nearest bound,
  each with an error.
\<close>

datatype atoi_error = ErrSyntax | ErrRange

definition isDigit :: "char \<Rightarrow> bool" where
  "isDigit c = (48 \<le> (of_char c :: nat) \<and> (of_char c :: nat) \<le> 57)"

definition digitsValue :: "string \<Rightarrow> int" where
  "digitsValue ds = foldl (\<lambda>n c. 10 * n + ((of_char c :: int) - 48)) 0 ds"

definition decimalInteger :: "string \<Rightarrow> bool" where
  "decimalInteger s =
     (case s of
        [] \<Rightarrow> False
      | c # r \<Rightarrow>
          if c = CHR ''+'' \<or> c = CHR ''-'' then r \<noteq> [] \<and> list_all isDigit r
          else list_all isDigit s)"

definition Atoi :: "string \<Rightarrow> int \<times> atoi_error option" where
  "Atoi s =
     (if \<not> decimalInteger s then (0, Some ErrSyntax)
      else
        let neg = (hd s = CHR ''-'');
            ds = (if hd s = CHR ''+'' \<or> hd s = CHR ''-'' then tl s else s);
            un = digitsValue ds
        in if \<not> neg \<and> un \<ge> 2 ^ 63 then (2 ^ 63 - 1, Some ErrRange)
           else if neg \<and> un > 2 ^ 63 then (- (2 ^ 63), Some ErrRange)
           else (if neg then - un else un, None))"

text \<open>
  What the host answers while \<open>execRestore\<close> runs.  \<open>randomName\<close> is the name that
  \<open>utils.GenerateRandomName("veth", 7)\<close> returns (its error is dropped by the code);
  \<open>stdinPipe\<close>, \<open>stdoutPipe\<close>, \<open>stderrPipe\<close> give the inode of the pipe when
  \<open>StdinPipe()\<close> and its siblings return one; \<open>runErr\<close> is the error of
  \<open>c.ProcessConfig.Run()\<close>; \<open>statOk\<close> and \<open>removeOk\<close> tell whether \<open>os.Stat\<close> and
  \<open>os.Remove\<close> succeed on a path; \<open>setMasterErr\<close> and \<open>interfaceUpErr\<close> are the errors
  of the two network calls; \<open>readPidFile\<close> is the result of \<open>ioutil.ReadFile\<close> on the
  pidfile; \<open>findProcessErr\<close> and \<open>waitResult\<close> are the results of \<open>os.FindProcess\<close> and
  \<open>proc.Wait\<close> for a PID.
\<close>

datatype wait_result = Exited int | WaitExitError | WaitError string

record host =
  randomName :: string
  stdinPipe :: "nat option"
  stdoutPipe :: "nat option"
  stderrPipe :: "nat option"
  runErr :: "error option"
  statOk :: "string \<Rightarrow> bool"
  removeOk :: "string \<Rightarrow> bool"
  setMasterErr :: "string option"
  interfaceUpErr :: "string option"
  readPidFile :: "string + string"
  findProcessErr :: "int \<Rightarrow> string option"
  waitResult :: "int \<Rightarrow> wait_result"

definition inheritFd :: "nat \<Rightarrow> nat option \<Rightarrow> string list" where
  "inheritFd n pipe =
     (case pipe of
        None \<Rightarrow> []
      | Some ino \<Rightarrow> [''--inherit-fd'', ''fd['' @ showNat n @ '']:pipe:['' @ showNat ino @ '']''])"

definition restoreArgs :: "host \<Rightarrow> Checkpoint \<Rightarrow> string list" where
  "restoreArgs h checkpoint =
     (let c = Command checkpoint;
          pidFile = joinPath (ImagePath checkpoint) ''restore.pid'';
          vethName = randomName h
      in [''criu'', ''restore'', ''-v4'',
          ''-o'', ''/tmp/restore.log'',
          ''--restore-detached'',
          ''--restore-sibling'',
          ''--manage-cgroups'',
          ''--evasive-devices'',
          ''--ext-mount-map'', ''/etc/resolv.conf:/var/lib/docker/containers/'' @ ID c @ ''/resolv.conf'',
          ''--ext-mount-map'', ''/etc/hosts:/var/lib/docker/containers/'' @ ID c @ ''/hosts'',
          ''--ext-mount-map'', ''/etc/hostname:/var/lib/docker/containers/'' @ ID c @ ''/hostname'',
          ''--ext-mount-map'', ''/.dockerinit:/var/lib/docker/init/dockerinit-1.0.1'',
          ''--veth-pair'', ''eth0='' @ vethName,
          ''--pidfile'', pidFile,
          ''-D'', ImagePath checkpoint,
          ''--root'', Rootfs c]
         @ inheritFd 0 (stdinPipe h) @ inheritFd 1 (stdoutPipe h) @ inheritFd 2 (stderrPipe h))"

text \<open>
  The body of \<open>execRestore\<close> from the call of \<open>c.ProcessConfig.Run()\<close> to its
  \<open>return\<close>: the exit code, the error and the calls made, in order.
\<close>

definition execRestoreBody :: "host \<Rightarrow> Checkpoint \<Rightarrow> bool \<Rightarrow> (int \<times> error option) \<times> event list" where
  "execRestoreBody h checkpoint hasStartCallback =
     (let pidFile = joinPath (ImagePath checkpoint) ''restore.pid'';
          vethName = randomName h;
          run = [EvRun ''/usr/local/sbin/criu'' (restoreArgs h checkpoint)]
      in case runErr h of
           Some (ExitError status) \<Rightarrow> ((status, Some (ExitError status)), run)
         | Some err \<Rightarrow> ((- 1, Some err), run)
         | None \<Rightarrow>
      (case setMasterErr h of
           Some err \<Rightarrow> ((- 1, Some (OtherError err)), run @ [EvSetInterfaceMaster vethName ''docker0''])
         | None \<Rightarrow>
      (case interfaceUpErr h of
           Some err \<Rightarrow>
             ((- 1, Some (OtherError err)),
              run @ [EvSetInterfaceMaster vethName ''docker0'', EvInterfaceUp vethName])
         | None \<Rightarrow>
      (let net = run @ [EvSetInterfaceMaster vethName ''docker0'', EvInterfaceUp vethName,
                        EvCloseWaitForStart, EvReadFile pidFile]
       in case readPidFile h of
           Inl err \<Rightarrow> ((- 1, Some (OtherError err)), net)
         | Inr sPid \<Rightarrow>
      (let pid = fst (Atoi sPid) in
       case findProcessErr h pid of
           Some err \<Rightarrow> ((- 1, Some (OtherError err)), net @ [EvFindProcess pid])
         | None \<Rightarrow>
      (let started = net @ [EvFindProcess pid]
                       @ (if hasStartCallback then [EvStartCallback pid] else [])
                       @ [EvWait pid]
       in case waitResult h pid of
            WaitError err \<Rightarrow> ((- 1, Some (OtherError err)), started)
          | WaitExitError \<Rightarrow> ((- 1, Some Panic), started)
          | Exited exitCode \<Rightarrow> ((exitCode, None), started)))))))"

text \<open>
  The two deferred calls.  The closure deferred last runs first: for each subsystem it
  stats the container's cgroup directory and removes it when the stat succeeds, dropping
  the result of the removal.  Then the pidfile is removed.
\<close>

definition cgroupSubsystems :: "string list" where
  "cgroupSubsystems =
     [''devices'', ''memory'', ''cpu'', ''cpuset'', ''cpuacct'', ''blkio'', ''perf_event'', ''freezer'']"

definition cgroupPath :: "string \<Rightarrow> string \<Rightarrow> string" where
  "cgroupPath subsys cid = ''/sys/fs/cgroup/'' @ subsys @ ''/docker/'' @ cid"

definition cgroupCleanup :: "host \<Rightarrow> string \<Rightarrow> event list" where
  "cgroupCleanup h cid =
     concat (map (\<lambda>subsys.
               let path = cgroupPath subsys cid in
               if statOk h path then [EvStat path True, EvRemove path (removeOk h path)]
               else [EvStat path False])
             cgroupSubsystems)"

definition execRestore :: "host \<Rightarrow> Checkpoint \<Rightarrow> bool \<Rightarrow> (int \<times> error option) \<times> event list" where
  "execRestore h checkpoint hasStartCallback =
     (let pidFile = joinPath (ImagePath checkpoint) ''restore.pid'';
          (result, calls) = execRestoreBody h checkpoint hasStartCallback
      in (result,
          calls @ cgroupCleanup h (ID (Command checkpoint)) @ [EvRemove pidFile (removeOk h pidFile)]))"

text \<open>\<open>(d *driver) Kill\<close>: the one place of the driver's restore and run paths that
  signals a process by PID.\<close>

definition DriverKill :: "int \<Rightarrow> int \<Rightarrow> event list" where
  "DriverKill pid sig = [EvKill pid sig]"

fun isKill :: "event \<Rightarrow> bool" where
  "isKill (EvKill p s) = True"
| "isKill _ = False"

fun isWait :: "event \<Rightarrow> bool" where
  "isWait (EvWait p) = True"
| "isWait _ = False"

fun isRun :: "event \<Rightarrow> bool" where
  "isRun (EvRun p a) = True"
| "isRun _ = False"

fun isRemove :: "event \<Rightarrow> bool" where
  "isRemove (EvRemove p ok) = True"
| "isRemove _ = False"

fun isStatOrRemove :: "event \<Rightarrow> bool" where
  "isStatOrRemove (EvStat p ok) = True"
| "isStatOrRemove (EvRemove p ok) = True"
| "isStatOrRemove _ = False"

text \<open>The paths on which a trace calls \<open>os.Remove\<close>, and the PIDs it locates, hands to
  the start callback or waits on.\<close>

fun removedPaths :: "event list \<Rightarrow> string list" where
  "removedPaths [] = []"
| "removedPaths (EvRemove p ok # es) = p # removedPaths es"
| "removedPaths (e # es) = removedPaths es"

fun pidsUsed :: "event list \<Rightarrow> int list" where
  "pidsUsed [] = []"
| "pidsUsed (EvFindProcess p # es) = p # pidsUsed es"
| "pidsUsed (EvStartCallback p # es) = p # pidsUsed es"
| "pidsUsed (EvWait p # es) = p # pidsUsed es"
| "pidsUsed (e # es) = pidsUsed es"

text \<open>
  The restore preparation as the specification words it: every cgroup directory of the
  container that exists is removed before the freezer tool is run, and a removal that
  fails makes the restore fail.
\<close>

definition cgroupPreCleanupClaim ::
  "host \<Rightarrow> Checkpoint \<Rightarrow> (int \<times> error option) \<times> event list \<Rightarrow> bool" where
  "cgroupPreCleanupClaim h checkpoint r =
     list_all (\<lambda>subsys.
        let path = cgroupPath subsys (ID (Command checkpoint)) in
        (statOk h path \<longrightarrow> path \<in> set (removedPaths (takeWhile (\<lambda>e. \<not> isRun e) (snd r))))
        \<and> (statOk h path \<and> \<not> removeOk h path \<longrightarrow> snd (fst r) \<noteq> None))
       cgroupSubsystems"

text \<open>The teardown that the specification asks for when the network attachment fails:
  the restored process is signalled and reaped.\<close>

definition tornDown :: "event list \<Rightarrow> bool" where
  "tornDown calls = (list_ex isKill calls \<and> list_ex isWait calls)"

subsection \<open>Files of an image directory\<close>

text \<open>
  A file system holds directories, named by their path, and in each directory regular
  files with their contents, in directory order.  Operations fail for structural reasons
  only (a missing directory or file, a name already taken); permissions and device errors
  are outside the model.  A file is addressed by its directory and its name, as the code
  builds every file path with \<open>filepath.Join(dir, name)\<close>.
\<close>

type_synonym byte = "8 word"

type_synonym fs = "string \<rightharpoonup> (string \<times> byte list) list"

datatype rw_error =
    FileError string
  | EOF
  | UnexpectedEOF
  | CommandError
  | OldInetNotFound
  | CannotParseIP string
  | OldAddressNotInIfaddr
  | OldAddressNotInRoute
  | HexError
  | DecodeError
  | EncodeError
  | InvalidCgroupParameter
  | UnknownKey string
  | Usage
  | GoPanic

text \<open>\<open>ioutil.ReadFile\<close> and \<open>os.Open\<close> followed by reading: the contents, if the file exists.\<close>

definition readFile :: "fs \<Rightarrow> string \<Rightarrow> string \<Rightarrow> byte list option" where
  "readFile fs dir name = (case fs dir of None \<Rightarrow> None | Some entries \<Rightarrow> map_of entries name)"

text \<open>\<open>os.Remove\<close> of a file, for callers that drop its result.\<close>

definition removeFile :: "fs \<Rightarrow> string \<Rightarrow> string \<Rightarrow> fs" where
  "removeFile fs dir name =
     (case fs dir of None \<Rightarrow> fs | Some entries \<Rightarrow> fs(dir \<mapsto> AList.delete name entries))"

text \<open>Creating or truncating a file and writing its contents; the directory must exist.\<close>

definition writeFile :: "fs \<Rightarrow> string \<Rightarrow> string \<Rightarrow> byte list \<Rightarrow> fs option" where
  "writeFile fs dir name data =
     (case fs dir of
        None \<Rightarrow> None
      | Some entries \<Rightarrow> Some (fs(dir \<mapsto> AList.update name data entries)))"

text \<open>Writing through an open descriptor: the contents of an existing file are replaced.\<close>

definition putFile :: "fs \<Rightarrow> string \<Rightarrow> string \<Rightarrow> byte list \<Rightarrow> fs" where
  "putFile fs dir name data =
     (case fs dir of None \<Rightarrow> fs | Some entries \<Rightarrow> fs(dir \<mapsto> AList.update name data entries))"

definition replaceWrite :: "fs \<Rightarrow> string \<Rightarrow> string \<Rightarrow> byte list \<Rightarrow> fs \<times> rw_error option" where
  "replaceWrite fs dir name data =
     (let fs1 = removeFile fs dir name in
      case writeFile fs1 dir name data of
        None \<Rightarrow> (fs1, Some (FileError (joinPath dir name)))
      | Some fs2 \<Rightarrow> (fs2, None))"

subsection \<open>The image rewriter: byte substitution\<close>

text \<open>
  \<open>bytes.Index\<close> (and \<open>strings.Index\<close>): the position of the first occurrence of \<open>sep\<close>,
  0 for an empty \<open>sep\<close>, \<open>None\<close> for -1.
\<close>

fun bytesIndex :: "'a list \<Rightarrow> 'a list \<Rightarrow> nat option" where
  "bytesIndex [] sep = (if sep = [] then Some 0 else None)"
| "bytesIndex (b # bs) sep =
     (if take (length sep) (b # bs) = sep then Some 0 else map_option Suc (bytesIndex bs sep))"

text \<open>
  \<open>copy(data[pos:pos+len(to)], to)\<close> as seen through \<open>data\<close>: the slice expression is
  legal up to the capacity of \<open>data\<close>, and bytes copied beyond its length do not show
  in it.
\<close>

definition copyAt :: "byte list \<Rightarrow> nat \<Rightarrow> byte list \<Rightarrow> byte list" where
  "copyAt data pos to = take pos data @ take (length data - pos) to @ drop (pos + length to) data"

text \<open>
  \<open>rewriteBytes\<close>.  The loop searches from the start of \<open>data\<close> each time round; it
  returns when \<open>from\<close> no longer occurs.  \<open>None\<close> is a loop that never returns;
  \<open>cp\<close> is the capacity of \<open>data\<close>, beyond which the slice expression panics.
\<close>

partial_function (option) rewriteBytesLoop ::
  "nat \<Rightarrow> byte list \<Rightarrow> byte list \<Rightarrow> byte list \<Rightarrow> int \<Rightarrow> (rw_error + byte list \<times> int) option" where
  "rewriteBytesLoop cp data from to replaced =
     (case bytesIndex data from of
        None \<Rightarrow> Some (Inr (data, replaced))
      | Some pos \<Rightarrow>
          if pos + length to > cp then Some (Inl GoPanic)
          else rewriteBytesLoop cp (copyAt data pos to) from to (replaced + 1))"

definition rewriteBytes ::
  "nat \<Rightarrow> byte list \<Rightarrow> byte list \<Rightarrow> byte list \<Rightarrow> (rw_error + byte list \<times> int) option" where
  "rewriteBytes cp data from to = rewriteBytesLoop cp data from to 0"

subsection \<open>The image rewriter: the \<open>ip=\<close> directive\<close>

text \<open>
  What the rewriter calls outside the repository.  \<open>bigEndian\<close> is the host byte order
  found by \<open>init\<close>; \<open>ipAddrShowdump\<close> is the output of \<open>ip addr showdump\<close> on the
  given standard input, \<open>None\<close> when the command fails; \<open>findInet\<close> is the first
  submatch of the regular expression for \<open>inet <address>/<prefix> scope global eth0\<close>
  in a dump; \<open>netParseIP\<close> is \<open>net.ParseIP\<close>; \<open>readCap\<close> is the capacity of the slice
  that \<open>ioutil.ReadFile\<close> returns for a file of the given contents;
  \<open>unmarshalNetDev\<close>, \<open>marshalNetDev\<close>, \<open>unmarshalCgroup\<close> and \<open>marshalCgroup\<close> are
  \<open>proto.Unmarshal\<close> and \<open>proto.Marshal\<close> on the two message types.
\<close>

record NetDeviceEntry =
  devName :: "string option"
  devAddress :: "byte list option"
  devRest :: "byte list"

datatype CgMemberEntry = CgMemberEntry (ctlName: string) (ctlPath: string)

datatype CgSetEntry = CgSetEntry (setId: nat) (Ctls: "CgMemberEntry list")

datatype CgroupDirEntry = CgroupDirEntry (DirName: string) (Children: "CgroupDirEntry list")

datatype CgControllerEntry = CgControllerEntry (Cnames: "string list") (Dirs: "CgroupDirEntry list")

record CgroupEntry =
  Sets :: "CgSetEntry list"
  Controllers :: "CgControllerEntry list"

record externals =
  bigEndian :: bool
  ipAddrShowdump :: "byte list \<Rightarrow> string option"
  findInet :: "string \<Rightarrow> string option"
  netParseIP :: "string \<Rightarrow> byte list option"
  readCap :: "byte list \<Rightarrow> nat"
  unmarshalNetDev :: "byte list \<Rightarrow> NetDeviceEntry option"
  marshalNetDev :: "NetDeviceEntry \<Rightarrow> byte list option"
  unmarshalCgroup :: "byte list \<Rightarrow> CgroupEntry option"
  marshalCgroup :: "CgroupEntry \<Rightarrow> byte list option"

text \<open>\<open>IP.To4\<close>: a 4-byte address as it is, an IPv4-mapped 16-byte address shortened,
  anything else (\<open>nil\<close> included) \<open>nil\<close>, the empty slice.\<close>

definition To4 :: "byte list \<Rightarrow> byte list" where
  "To4 ip =
     (if length ip = 4 then ip
      else if length ip = 16 \<and> take 10 ip = replicate 10 0 \<and> ip ! 10 = 0xff \<and> ip ! 11 = 0xff
        then drop 12 ip
      else [])"

definition rewriteIPAddress ::
  "externals \<Rightarrow> fs \<Rightarrow> string \<Rightarrow> string \<Rightarrow> string \<Rightarrow> (fs \<times> rw_error option) option" where
  "rewriteIPAddress x fs srcPath destPath ip =
     (case readFile fs srcPath ''ifaddr-8.img'' of
        None \<Rightarrow> Some (fs, Some (FileError (joinPath srcPath ''ifaddr-8.img'')))
      | Some data \<Rightarrow>
     (case ipAddrShowdump x data of
        None \<Rightarrow> Some (fs, Some CommandError)
      | Some dump \<Rightarrow>
     (case findInet x dump of
        None \<Rightarrow> Some (fs, Some OldInetNotFound)
      | Some found \<Rightarrow>
     (let oldAddress = To4 (case netParseIP x found of None \<Rightarrow> [] | Some a \<Rightarrow> a) in
      case netParseIP x ip of
        None \<Rightarrow> Some (fs, Some (CannotParseIP ip))
      | Some parsed \<Rightarrow>
     (let newAddress = To4 parsed in
      case rewriteBytes (readCap x data) data oldAddress newAddress of
        None \<Rightarrow> None
      | Some (Inl e) \<Rightarrow> Some (fs, Some e)
      | Some (Inr (data1, replaced)) \<Rightarrow>
          if replaced < 1 then Some (fs, Some OldAddressNotInIfaddr)
          else
     (case replaceWrite fs destPath ''ifaddr-8.img'' data1 of
        (fs1, Some e) \<Rightarrow> Some (fs1, Some e)
      | (fs1, None) \<Rightarrow>
     (case readFile fs1 srcPath ''route-8.img'' of
        None \<Rightarrow> Some (fs1, Some (FileError (joinPath srcPath ''route-8.img'')))
      | Some routeData \<Rightarrow>
     (case rewriteBytes (readCap x routeData) routeData oldAddress newAddress of
        None \<Rightarrow> None
      | Some (Inl e) \<Rightarrow> Some (fs1, Some e)
      | Some (Inr (routeData1, replaced1)) \<Rightarrow>
          if replaced1 < 1 then Some (fs1, Some OldAddressNotInRoute)
          else Some (replaceWrite fs1 destPath ''route-8.img'' routeData1)))))))))"

subsection \<open>The image rewriter: the \<open>mac=\<close> directive\<close>

text \<open>\<open>hex.DecodeString\<close>; \<open>None\<close> for an odd length or a character that is no hex digit.\<close>

definition fromHexChar :: "char \<Rightarrow> nat option" where
  "fromHexChar c =
     (let n = (of_char c :: nat) in
      if 48 \<le> n \<and> n \<le> 57 then Some (n - 48)
      else if 97 \<le> n \<and> n \<le> 102 then Some (n - 87)
      else if 65 \<le> n \<and> n \<le> 70 then Some (n - 55)
      else None)"

fun hexDecodeString :: "string \<Rightarrow> byte list option" where
  "hexDecodeString [] = Some []"
| "hexDecodeString [c] = None"
| "hexDecodeString (a # b # cs) =
     (case fromHexChar a of
        None \<Rightarrow> None
      | Some hi \<Rightarrow>
     (case fromHexChar b of
        None \<Rightarrow> None
      | Some lo \<Rightarrow> map_option ((#) (of_nat (16 * hi + lo))) (hexDecodeString cs)))"

text \<open>The 32-bit record length in host byte order.\<close>

definition decodeU32 :: "bool \<Rightarrow> byte list \<Rightarrow> nat" where
  "decodeU32 be bs = foldl (\<lambda>n b. 256 * n + unat b) 0 (if be then bs else rev bs)"

definition encodeU32 :: "bool \<Rightarrow> nat \<Rightarrow> byte list" where
  "encodeU32 be n =
     (let le = map (\<lambda>i. of_nat ((n div 256 ^ i) mod 256)) [0, 1, 2, 3]
      in if be then rev le else le)"

text \<open>
  The record loop that \<open>rewriteMacAddress\<close> and \<open>rewriteCgroupPaths\<close> share: read a
  length and that many bytes, transform the record with \<open>step\<close>, write the new length and
  the new record.  \<open>input\<close> is what is left of the source file, \<open>out\<close> what has been
  written to the destination file so far; an error leaves the destination file with
  what was written before it.
\<close>

function copyRecords ::
  "(byte list \<Rightarrow> rw_error + byte list) \<Rightarrow> bool \<Rightarrow> byte list \<Rightarrow> byte list
     \<Rightarrow> byte list \<times> rw_error option" where
  "copyRecords step be input out =
     (if input = [] then (out, None)
      else if length input < 4 then (out, Some UnexpectedEOF)
      else
        let size = decodeU32 be (take 4 input);
            rest = drop 4 input
        in if length rest < size then (out, Some (if rest = [] then EOF else UnexpectedEOF))
           else (case step (take size rest) of
                   Inl e \<Rightarrow> (out, Some e)
                 | Inr data \<Rightarrow>
                     copyRecords step be (drop size rest)
                       (out @ encodeU32 be (length data) @ data)))"
  by pat_completeness auto
termination
  by (relation "measure (\<lambda>(step, be, input, out). length input)") auto

declare copyRecords.simps [simp del]

definition macStep :: "externals \<Rightarrow> string \<Rightarrow> byte list \<Rightarrow> rw_error + byte list" where
  "macStep x mac buf =
     (case unmarshalNetDev x buf of
        None \<Rightarrow> Inl DecodeError
      | Some device \<Rightarrow>
     (case (if devName device = Some ''eth0''
            then (case hexDecodeString mac of
                    None \<Rightarrow> Inl HexError
                  | Some macHex \<Rightarrow> Inr (device\<lparr>devAddress := Some macHex\<rparr>))
            else Inr device) of
        Inl e \<Rightarrow> Inl e
      | Inr device1 \<Rightarrow>
     (case marshalNetDev x device1 of
        None \<Rightarrow> Inl EncodeError
      | Some data \<Rightarrow> Inr data)))"

text \<open>
  Opening the source, removing and recreating the destination, copying the 4-byte magic
  header and running the record loop.  The source is read through the descriptor opened
  first, so its contents are those before the destination was removed, also when both
  are the same file.
\<close>

definition rewriteRecords ::
  "(byte list \<Rightarrow> rw_error + byte list) \<Rightarrow> bool \<Rightarrow> fs \<Rightarrow> string \<Rightarrow> string \<Rightarrow> string
     \<Rightarrow> fs \<times> rw_error option" where
  "rewriteRecords step be fs srcPath destPath name =
     (case readFile fs srcPath name of
        None \<Rightarrow> (fs, Some (FileError (joinPath srcPath name)))
      | Some src \<Rightarrow>
     (let fs1 = removeFile fs destPath name in
      case writeFile fs1 destPath name [] of
        None \<Rightarrow> (fs1, Some (FileError (joinPath destPath name)))
      | Some fs2 \<Rightarrow>
          if length src < 4 then (putFile fs2 destPath name src, Some EOF)
          else
            let (out, err) = copyRecords step be (drop 4 src) (take 4 src)
            in (putFile fs2 destPath name out, err)))"

definition rewriteMacAddress ::
  "externals \<Rightarrow> fs \<Rightarrow> string \<Rightarrow> string \<Rightarrow> string \<Rightarrow> fs \<times> rw_error option" where
  "rewriteMacAddress x fs srcPath destPath mac =
     rewriteRecords (macStep x mac) (bigEndian x) fs srcPath destPath ''netdev-8.img''"

subsection \<open>The image rewriter: the \<open>cgroup=\<close> directive\<close>

text \<open>
  \<open>strings.Replace(s, old, new, -1)\<close>: every non-overlapping occurrence of \<open>old\<close>, from
  the left; an empty \<open>old\<close> matches before every character and at the end.  \<open>skip\<close>
  counts the characters of a replaced occurrence that are still to be passed over.
\<close>

fun replaceFrom :: "nat \<Rightarrow> string \<Rightarrow> string \<Rightarrow> string \<Rightarrow> string" where
  "replaceFrom skip [] old new = []"
| "replaceFrom skip (c # cs) old new =
     (if skip > 0 then replaceFrom (skip - 1) cs old new
      else if take (length old) (c # cs) = old then new @ replaceFrom (length old - 1) cs old new
      else c # replaceFrom 0 cs old new)"

definition stringsReplace :: "string \<Rightarrow> string \<Rightarrow> string \<Rightarrow> string" where
  "stringsReplace s old new =
     (if old = [] then new @ concat (map (\<lambda>c. c # new) s) else replaceFrom 0 s old new)"

fun rewriteCgroupDirEntry :: "string \<Rightarrow> string \<Rightarrow> CgroupDirEntry \<Rightarrow> CgroupDirEntry" where
  "rewriteCgroupDirEntry fromPattern toPattern (CgroupDirEntry name children) =
     CgroupDirEntry (stringsReplace name fromPattern toPattern)
       (map (rewriteCgroupDirEntry fromPattern toPattern) children)"

definition rewriteCgroupEntry :: "string \<Rightarrow> string \<Rightarrow> CgroupEntry \<Rightarrow> CgroupEntry" where
  "rewriteCgroupEntry fromPattern toPattern cgroupEntry =
     \<lparr>Sets = map (\<lambda>set. CgSetEntry (setId set)
                   (map (\<lambda>ctl. CgMemberEntry (ctlName ctl)
                                 (stringsReplace (ctlPath ctl) fromPattern toPattern))
                      (Ctls set)))
              (Sets cgroupEntry),
      Controllers = map (\<lambda>controller. CgControllerEntry (Cnames controller)
                          (map (rewriteCgroupDirEntry fromPattern toPattern) (Dirs controller)))
                      (Controllers cgroupEntry)\<rparr>"

definition cgroupStep :: "externals \<Rightarrow> string \<Rightarrow> string \<Rightarrow> byte list \<Rightarrow> rw_error + byte list" where
  "cgroupStep x fromPattern toPattern buf =
     (case unmarshalCgroup x buf of
        None \<Rightarrow> Inl DecodeError
      | Some cgroupEntry \<Rightarrow>
          (case marshalCgroup x (rewriteCgroupEntry fromPattern toPattern cgroupEntry) of
             None \<Rightarrow> Inl EncodeError
           | Some data \<Rightarrow> Inr data))"

definition rewriteCgroupPaths ::
  "externals \<Rightarrow> fs \<Rightarrow> string \<Rightarrow> string \<Rightarrow> string \<Rightarrow> string \<Rightarrow> fs \<times> rw_error option" where
  "rewriteCgroupPaths x fs srcPath destPath fromPattern toPattern =
     rewriteRecords (cgroupStep x fromPattern toPattern) (bigEndian x) fs srcPath destPath
       ''cgroup.img''"

subsection \<open>The image rewriter: \<open>main\<close>\<close>

text \<open>\<open>strings.SplitN(s, sep, 2)\<close> for a non-empty separator.\<close>

definition splitN2 :: "string \<Rightarrow> string \<Rightarrow> string list" where
  "splitN2 s sep =
     (case bytesIndex s sep of
        None \<Rightarrow> [s]
      | Some i \<Rightarrow> [take i s, drop (i + length sep) s])"

text \<open>
  One round of the loop over the directives.  \<open>kv[1]\<close> is out of range, and the program
  panics, when a directive with a known key has no \<open>=\<close>.
\<close>

definition applyDirective ::
  "externals \<Rightarrow> fs \<Rightarrow> string \<Rightarrow> string \<Rightarrow> string \<Rightarrow> (fs \<times> rw_error option) option" where
  "applyDirective x fs srcPath destPath spec =
     (let kv = splitN2 spec ''='' in
      if kv ! 0 = ''ip'' then
        (if length kv < 2 then Some (fs, Some GoPanic)
         else rewriteIPAddress x fs srcPath destPath (kv ! 1))
      else if kv ! 0 = ''mac'' then
        (if length kv < 2 then Some (fs, Some GoPanic)
         else Some (rewriteMacAddress x fs srcPath destPath (kv ! 1)))
      else if kv ! 0 = ''cgroup'' then
        (if length kv < 2 then Some (fs, Some GoPanic)
         else
           let oldAndNew = splitN2 (kv ! 1) '':'' in
           if length oldAndNew < 2 then Some (fs, Some InvalidCgroupParameter)
           else Some (rewriteCgroupPaths x fs srcPath destPath (oldAndNew ! 0) (oldAndNew ! 1)))
      else Some (fs, Some (UnknownKey (kv ! 0))))"

fun applyDirectives ::
  "externals \<Rightarrow> fs \<Rightarrow> string \<Rightarrow> string \<Rightarrow> string list \<Rightarrow> (fs \<times> rw_error option) option" where
  "applyDirectives x fs srcPath destPath [] = Some (fs, None)"
| "applyDirectives x fs srcPath destPath (spec # specs) =
     (case applyDirective x fs srcPath destPath spec of
        None \<Rightarrow> None
      | Some (fs1, Some e) \<Rightarrow> Some (fs1, Some e)
      | Some (fs1, None) \<Rightarrow> applyDirectives x fs1 srcPath destPath specs)"

text \<open>\<open>main\<close> on the arguments after the program name; an error ends the program with
  exit status 1.\<close>

definition patchCriu :: "externals \<Rightarrow> fs \<Rightarrow> string list \<Rightarrow> (fs \<times> rw_error option) option" where
  "patchCriu x fs args =
     (if length args < 2 then Some (fs, Some Usage)
      else applyDirectives x fs (args ! 0) (args ! 1) (drop 2 args))"

subsection \<open>Checkpoints of the daemon\<close>

text \<open>
  The fields of \<open>NetworkSettings\<close>, \<open>Container\<close> and \<open>ContainerCheckpoint\<close> that the
  checkpoint code reads.  \<open>containerID\<close> and \<open>checkpointID\<close> are the two \<open>ID\<close> fields,
  \<open>containerNetworkSettings\<close> is the container's \<open>NetworkSettings\<close>; \<open>CreatedAt\<close> is an
  instant, in nanoseconds.
\<close>

record NetworkSettings =
  IPAddress :: string
  MacAddress :: string

record Container =
  containerID :: string
  root :: string
  containerNetworkSettings :: NetworkSettings

record ContainerCheckpoint =
  checkpointID :: string
  NetworkSettings :: NetworkSettings
  CreatedAt :: int
  container :: Container

definition imagePath :: "ContainerCheckpoint \<Rightarrow> string" where
  "imagePath cp = joinPath (joinPath (root (container cp)) ''checkpoints'') (checkpointID cp)"

text \<open>
  \<open>os.MkdirAll\<close> of \<open>dir/name1/.../namek\<close>: directories that exist are kept, missing
  ones are created, and a component that is a regular file is an error.
\<close>

definition ensureDir :: "fs \<Rightarrow> string \<Rightarrow> fs" where
  "ensureDir fs dir = (if fs dir = None then fs(dir \<mapsto> []) else fs)"

fun mkdirAll :: "fs \<Rightarrow> string \<Rightarrow> string list \<Rightarrow> fs option" where
  "mkdirAll fs dir [] = Some (ensureDir fs dir)"
| "mkdirAll fs dir (name # names) =
     (let fs1 = ensureDir fs dir in
      if readFile fs1 dir name \<noteq> None then None
      else mkdirAll fs1 (joinPath dir name) names)"

text \<open>
  \<open>os.Link\<close>: the source file must exist, the destination directory must exist and the
  name must be free in it.  No modelled operation writes into an existing file, so a link
  is a second entry with the same contents.
\<close>

definition link :: "fs \<Rightarrow> string \<Rightarrow> string \<Rightarrow> string \<Rightarrow> fs option" where
  "link fs srcDir destDir name =
     (case readFile fs srcDir name of
        None \<Rightarrow> None
      | Some data \<Rightarrow>
          (case fs destDir of
             None \<Rightarrow> None
           | Some entries \<Rightarrow>
               if map_of entries name \<noteq> None then None
               else Some (fs(destDir \<mapsto> entries @ [(name, data)]))))"

fun linkAll :: "fs \<Rightarrow> string \<Rightarrow> string \<Rightarrow> string list \<Rightarrow> fs \<times> rw_error option" where
  "linkAll fs imgPath newImagePath [] = (fs, None)"
| "linkAll fs imgPath newImagePath (name # dirents) =
     (if name = ''restore.pid'' then linkAll fs imgPath newImagePath dirents
      else case link fs imgPath newImagePath name of
             None \<Rightarrow> (fs, Some (FileError (joinPath newImagePath name)))
           | Some fs1 \<Rightarrow> linkAll fs1 imgPath newImagePath dirents)"

definition clone ::
  "fs \<Rightarrow> ContainerCheckpoint \<Rightarrow> Container \<Rightarrow> fs \<times> (rw_error + ContainerCheckpoint)" where
  "clone fs cp forContainer =
     (let newCheckpoint = cp\<lparr>container := forContainer\<rparr>;
          newImagePath = imagePath newCheckpoint
      in case mkdirAll fs (root forContainer) [''checkpoints'', checkpointID cp] of
           None \<Rightarrow> (fs, Inl (FileError newImagePath))
         | Some fs1 \<Rightarrow>
             (case fs1 (imagePath cp) of
                None \<Rightarrow> (fs1, Inl (FileError (imagePath cp)))
              | Some entries \<Rightarrow>
                  (case linkAll fs1 (imagePath cp) newImagePath (map fst entries) of
                     (fs2, Some e) \<Rightarrow> (fs2, Inl e)
                   | (fs2, None) \<Rightarrow> (fs2, Inr newCheckpoint))))"

text \<open>The command line of the rewriter that \<open>patchImage\<close> builds, after the program name.\<close>

definition patchImageArgs :: "ContainerCheckpoint \<Rightarrow> string \<Rightarrow> string list" where
  "patchImageArgs cp tmpdir =
     [imagePath cp, tmpdir,
      ''ip='' @ IPAddress (containerNetworkSettings (container cp)),
      ''mac='' @ stringsReplace (MacAddress (containerNetworkSettings (container cp))) '':'' '''']"

text \<open>\<open>os.Remove\<close> of a directory, which succeeds on an empty directory only, and
  \<open>os.Rename\<close> of a file into another directory.\<close>

definition removeDir :: "fs \<Rightarrow> string \<Rightarrow> fs" where
  "removeDir fs dir = (if fs dir = Some [] then fs(dir := None) else fs)"

definition rename :: "fs \<Rightarrow> string \<Rightarrow> string \<Rightarrow> string \<Rightarrow> fs option" where
  "rename fs srcDir destDir name =
     (case readFile fs srcDir name of
        None \<Rightarrow> None
      | Some data \<Rightarrow>
          if fs destDir = None then None
          else if srcDir = destDir then Some fs
          else Some (putFile (removeFile fs srcDir name) destDir name data))"

fun renameAll :: "fs \<Rightarrow> string \<Rightarrow> string \<Rightarrow> string list \<Rightarrow> fs \<times> rw_error option" where
  "renameAll fs tmpdir imgPath [] = (fs, None)"
| "renameAll fs tmpdir imgPath (name # dirents) =
     (case rename fs tmpdir imgPath name of
        None \<Rightarrow> (fs, Some (FileError (joinPath tmpdir name)))
      | Some fs1 \<Rightarrow> renameAll fs1 tmpdir imgPath dirents)"

text \<open>
  \<open>patchImage\<close>.  \<open>tempDir\<close> is the fresh directory that \<open>ioutil.TempDir\<close> creates, or
  \<open>None\<close> when it fails; the rewriter runs as modelled above; the removal of the temporary
  directory is deferred and its result dropped.
\<close>

definition patchImage ::
  "externals \<Rightarrow> string option \<Rightarrow> fs \<Rightarrow> ContainerCheckpoint \<Rightarrow> (fs \<times> rw_error option) option" where
  "patchImage x tempDir fs cp =
     (case tempDir of
        None \<Rightarrow> Some (fs, Some (FileError ''docker-patchcriu-''))
      | Some tmpdir \<Rightarrow>
          (case patchCriu x (fs(tmpdir \<mapsto> [])) (patchImageArgs cp tmpdir) of
             None \<Rightarrow> None
           | Some (fs1, Some e) \<Rightarrow> Some (removeDir fs1 tmpdir, Some e)
           | Some (fs1, None) \<Rightarrow>
               (case fs1 tmpdir of
                  None \<Rightarrow> Some (fs1, Some (FileError tmpdir))
                | Some entries \<Rightarrow>
                    (case renameAll fs1 tmpdir (imagePath cp) (map fst entries) of
                       (fs2, err) \<Rightarrow> Some (removeDir fs2 tmpdir, err)))))"

subsection \<open>The restore job handler\<close>

text \<open>
  The parts of the daemon that \<open>ContainerRestore\<close> calls: \<open>getContainer\<close> is
  \<open>daemon.Get\<close>, \<open>checkpointsOf\<close> the container's \<open>Checkpoints\<close> map, \<open>daemonCreate\<close>
  the creation of a container from the copied configuration in \<open>cloneContainer\<close>,
  \<open>containerRestore\<close> the container's \<open>Restore\<close> method, and \<open>errorText\<close> the text of
  an error.  \<open>cloneFlag\<close> is the job's \<open>clone\<close> setting.  The handler returns the
  file system it leaves and the status of the job; the event it logs after a successful
  restore is not recorded.
\<close>

record restore_env =
  getContainer :: "string \<Rightarrow> Container option"
  checkpointsOf :: "Container \<Rightarrow> string \<Rightarrow> ContainerCheckpoint option"
  daemonCreate :: "Container \<Rightarrow> string + Container"
  containerRestore :: "fs \<Rightarrow> Container \<Rightarrow> ContainerCheckpoint \<Rightarrow> bool \<Rightarrow> fs \<times> string option"
  errorText :: "rw_error \<Rightarrow> string"

definition cloneContainer :: "restore_env \<Rightarrow> Container \<Rightarrow> string + Container" where
  "cloneContainer d c =
     (case daemonCreate d c of
        Inl err \<Rightarrow> Inl (''Failed to create cloned container of '' @ containerID c @ '': '' @ err)
      | Inr clonedContainer \<Rightarrow> Inr clonedContainer)"

definition finishRestore ::
  "restore_env \<Rightarrow> fs \<Rightarrow> string \<Rightarrow> Container \<Rightarrow> ContainerCheckpoint \<Rightarrow> bool \<Rightarrow> fs \<times> Status" where
  "finishRestore d fs name c checkpoint cloneFlag =
     (case containerRestore d fs c checkpoint cloneFlag of
        (fs1, Some err) \<Rightarrow> (fs1, StatusErr (''Cannot restore container '' @ name @ '': '' @ err))
      | (fs1, None) \<Rightarrow> (fs1, StatusOK))"

definition ContainerRestore :: "restore_env \<Rightarrow> fs \<Rightarrow> Job \<Rightarrow> bool \<Rightarrow> fs \<times> Status" where
  "ContainerRestore d fs job cloneFlag =
     (if length (Args job) \<noteq> 2
      then (fs, StatusErr (''Usage: '' @ Name job @ '' CONTAINER CHECKPOINT_ID''))
      else
        let name = Args job ! 0 in
        case getContainer d name of
          None \<Rightarrow> (fs, StatusErr (''No such container: '' @ name))
        | Some c \<Rightarrow>
            let checkpointID = Args job ! 1 in
            (case checkpointsOf d c checkpointID of
               None \<Rightarrow>
                 (fs, StatusErr (''No such checkpoint '' @ checkpointID @ '' for container ''
                                  @ containerID c))
             | Some checkpoint \<Rightarrow>
                 if cloneFlag then
                   (case cloneContainer d c of
                      Inl err \<Rightarrow> (fs, StatusErr err)
                    | Inr cloned \<Rightarrow>
                        (case clone fs checkpoint cloned of
                           (fs1, Inl err) \<Rightarrow> (fs1, StatusErr (errorText d err))
                         | (fs1, Inr clonedCheckpoint) \<Rightarrow>
                             finishRestore d fs1 name cloned clonedCheckpoint cloneFlag))
                 else finishRestore d fs name c checkpoint cloneFlag))"

subsection \<open>Container inspection: the list of checkpoints\<close>

text \<open>
  The inner loop of \<open>ContainerInspect\<close>, entered with the new checkpoint appended at
  index \<open>i = Suc j\<close>: it stops when the checkpoint before index \<open>i\<close> was created strictly
  before the new one, and otherwise moves the new checkpoint one place to the front.
\<close>

fun insertLoop ::
  "ContainerCheckpoint list \<Rightarrow> ContainerCheckpoint \<Rightarrow> nat \<Rightarrow> ContainerCheckpoint list" where
  "insertLoop checkpoints checkpoint 0 = checkpoints"
| "insertLoop checkpoints checkpoint (Suc j) =
     (if CreatedAt (checkpoints ! j) < CreatedAt checkpoint then checkpoints
      else insertLoop (checkpoints[Suc j := checkpoints ! j, j := checkpoint]) checkpoint j)"

text \<open>
  The outer loop ranges over the map \<open>container.Checkpoints\<close>.  Go leaves the order of
  that iteration open, so the model takes the checkpoints as the list \<open>iteration\<close>, in the
  order the range yields them.
\<close>

definition inspectCheckpoints :: "ContainerCheckpoint list \<Rightarrow> ContainerCheckpoint list" where
  "inspectCheckpoints iteration =
     foldl (\<lambda>checkpoints checkpoint.
              insertLoop (checkpoints @ [checkpoint]) checkpoint
                (length (checkpoints @ [checkpoint]) - 1))
       [] iteration"

text \<open>The order that the specification gives for an enumeration: most recent first.\<close>

definition mostRecentFirst :: "ContainerCheckpoint list \<Rightarrow> bool" where
  "mostRecentFirst checkpoints = sorted (rev (map CreatedAt checkpoints))"

subsection \<open>Example hosts\<close>

text \<open>
  A host on which every step of a restore succeeds, every cgroup directory of the
  container exists and none of them can be removed; the same host with a bridge that
  refuses the interface; the same host with a pidfile that holds a PID and a newline; and
  the same host with a pidfile that holds a number one above the largest \<open>int\<close>.
\<close>

definition hostA :: host where
  "hostA =
     \<lparr>randomName = ''veth0a1b2c3'', stdinPipe = None, stdoutPipe = None, stderrPipe = None,
      runErr = None, statOk = (\<lambda>p. True), removeOk = (\<lambda>p. False),
      setMasterErr = None, interfaceUpErr = None, readPidFile = Inr ''42'',
      findProcessErr = (\<lambda>p. None), waitResult = (\<lambda>p. Exited 0)\<rparr>"

definition hostB :: host where
  "hostB = hostA\<lparr>setMasterErr := Some ''no such device''\<rparr>"

definition hostC :: host where
  "hostC = hostA\<lparr>readPidFile := Inr [CHR ''4'', CHR ''2'', CHR 0x0A],
                  waitResult := (\<lambda>p. if p = 0 then WaitError ''wait: no child processes''
                                      else Exited 0)\<rparr>"

definition hostD :: host where
  "hostD = hostA\<lparr>readPidFile := Inr ''9223372036854775808''\<rparr>"

definition checkpointA :: Checkpoint where
  "checkpointA =
     \<lparr>Command = \<lparr>ID = ''abcd'', Rootfs = ''/rootfs/abcd'', ContainerPid = 0\<rparr>,
      ImagePath = ''/cp1'', Volumes = []\<rparr>"


subsection \<open>Example containers and checkpoints\<close>

text \<open>
  The source container \<open>abcd\<close> with a checkpoint \<open>cp1\<close>, a later checkpoint \<open>cp2\<close>, a
  checkpoint \<open>cp3\<close> created at the same instant as \<open>cp1\<close>, and the freshly created
  target container \<open>ef01\<close> of a clone.
\<close>

definition containerS :: Container where
  "containerS =
     \<lparr>containerID = ''abcd'', root = ''/c/abcd'',
      containerNetworkSettings = \<lparr>IPAddress = ''172.17.0.2'', MacAddress = ''02:42:ac:11:00:02''\<rparr>\<rparr>"

definition containerT :: Container where
  "containerT =
     \<lparr>containerID = ''ef01'', root = ''/c/ef01'',
      containerNetworkSettings = \<lparr>IPAddress = ''172.17.0.3'', MacAddress = ''02:42:ac:11:00:03''\<rparr>\<rparr>"

definition checkpoint1 :: ContainerCheckpoint where
  "checkpoint1 =
     \<lparr>checkpointID = ''cp1'',
      NetworkSettings = \<lparr>IPAddress = ''172.17.0.2'', MacAddress = ''02:42:ac:11:00:02''\<rparr>,
      CreatedAt = 1000, container = containerS\<rparr>"

definition checkpoint2 :: ContainerCheckpoint where
  "checkpoint2 = checkpoint1\<lparr>checkpointID := ''cp2'', CreatedAt := 2000\<rparr>"

definition checkpoint3 :: ContainerCheckpoint where
  "checkpoint3 = checkpoint1\<lparr>checkpointID := ''cp3''\<rparr>"

text \<open>The directives that the specification lists for a clone from \<open>S\<close> into \<open>T\<close>.\<close>

definition cloneDirectivesSpec :: "Container \<Rightarrow> Container \<Rightarrow> string list" where
  "cloneDirectivesSpec S T =
     [''mac='' @ filter (\<lambda>c. c \<noteq> CHR '':'') (MacAddress (containerNetworkSettings T)),
      ''ip='' @ IPAddress (containerNetworkSettings T),
      ''cgroup=/docker/'' @ containerID S @ '':/docker/'' @ containerID T]"

text \<open>
  Whether two file systems have the same directories, and what the specification asks of a
  failed directive: the files it targets at the destination read as before.
\<close>

definition sameDirs :: "fs \<Rightarrow> fs \<Rightarrow> bool" where
  "sameDirs fs fs1 = (dom fs1 = dom fs)"

text \<open>Whether two file systems agree on every directory other than \<open>d\<close>.\<close>

definition sameOutside :: "fs \<Rightarrow> fs \<Rightarrow> string \<Rightarrow> bool" where
  "sameOutside fs fs1 d = (\<forall>dir. dir \<noteq> d \<longrightarrow> fs1 dir = fs dir)"

definition destinationUntouched :: "fs \<Rightarrow> fs \<Rightarrow> string \<Rightarrow> string list \<Rightarrow> bool" where
  "destinationUntouched fs fs1 destPath names =
     list_all (\<lambda>name. readFile fs1 destPath name = readFile fs destPath name) names"

text \<open>What the specification asks of a failed clone: the target image directory is gone.\<close>

definition targetImageDirRemoved :: "fs \<Rightarrow> ContainerCheckpoint \<Rightarrow> Container \<Rightarrow> bool" where
  "targetImageDirRemoved fs cp T = (fs (imagePath (cp\<lparr>container := T\<rparr>)) = None)"

subsection \<open>Example images\<close>

text \<open>
  Image files of a container with address 172.17.0.2: a magic header and length-prefixed
  records.  \<open>ifaddrNew\<close> and \<open>routeNew\<close> are \<open>ifaddrOld\<close> and \<open>routeOld\<close> with the
  address replaced by 10.0.0.5; \<open>routeNoAddr\<close> is a route file in which the address does
  not occur.
\<close>

definition ifaddrOld :: "byte list" where
  "ifaddrOld = [0x54, 0x4d, 0x49, 0x00, 8, 0, 0, 0, 172, 17, 0, 2, 16, 0, 0, 0]"

definition ifaddrNew :: "byte list" where
  "ifaddrNew = [0x54, 0x4d, 0x49, 0x00, 8, 0, 0, 0, 10, 0, 0, 5, 16, 0, 0, 0]"

definition routeOld :: "byte list" where
  "routeOld = [0x54, 0x4d, 0x49, 0x00, 8, 0, 0, 0, 172, 17, 0, 0, 172, 17, 0, 2]"

definition routeNew :: "byte list" where
  "routeNew = [0x54, 0x4d, 0x49, 0x00, 8, 0, 0, 0, 172, 17, 0, 0, 10, 0, 0, 5]"

definition routeNoAddr :: "byte list" where
  "routeNoAddr = [0x54, 0x4d, 0x49, 0x00, 4, 0, 0, 0, 172, 17, 0, 0]"

definition netdevOld :: "byte list" where
  "netdevOld = [0x54, 0x4d, 0x49, 0x00, 7, 0, 0, 0, 1, 2, 0x42, 0xac, 0x11, 0, 1]"

text \<open>
  A little-endian host whose \<open>ip addr showdump\<close> reports the address held by the two
  \<open>ifaddr\<close> files above, with a decoder for network-device records that reads one tag
  byte (1 for \<open>eth0\<close>) followed by the hardware address.
\<close>

definition extA :: externals where
  "extA =
     \<lparr>bigEndian = False,
      ipAddrShowdump =
        (\<lambda>data. if data = ifaddrOld then Some ''    inet 172.17.0.2/16 scope global eth0''
                 else if data = ifaddrNew then Some ''    inet 10.0.0.5/16 scope global eth0''
                 else None),
      findInet =
        (\<lambda>dump. if dump = ''    inet 172.17.0.2/16 scope global eth0'' then Some ''172.17.0.2''
                 else if dump = ''    inet 10.0.0.5/16 scope global eth0'' then Some ''10.0.0.5''
                 else None),
      netParseIP =
        (\<lambda>s. if s = ''172.17.0.2'' then Some [172, 17, 0, 2]
              else if s = ''10.0.0.5'' then Some [10, 0, 0, 5]
              else None),
      readCap = length,
      unmarshalNetDev =
        (\<lambda>buf. case buf of
                  [] \<Rightarrow> None
                | tag # address \<Rightarrow>
                    Some \<lparr>devName = Some (if tag = 1 then ''eth0'' else ''lo''),
                          devAddress = Some address, devRest = [tag]\<rparr>),
      marshalNetDev =
        (\<lambda>device. Some (devRest device
                          @ (case devAddress device of None \<Rightarrow> [] | Some address \<Rightarrow> address))),
      unmarshalCgroup = (\<lambda>buf. None),
      marshalCgroup = (\<lambda>cgroupEntry. None)\<rparr>"

text \<open>
  \<open>fsA\<close>: a source directory whose route file lacks the address, and a destination
  directory with earlier files.  \<open>fsA1\<close> and \<open>fsA2\<close>: \<open>fsA\<close> after the destination's
  \<open>ifaddr-8.img\<close>, respectively \<open>netdev-8.img\<close>, was replaced.  \<open>fsImg\<close>: an image
  directory to be rewritten in place, and \<open>fsImg1\<close> the same after \<open>ip=10.0.0.5\<close>.
\<close>

definition fsA :: fs where
  "fsA = [''/img'' \<mapsto> [(''ifaddr-8.img'', ifaddrOld), (''route-8.img'', routeNoAddr),
                          (''netdev-8.img'', netdevOld)],
          ''/out'' \<mapsto> [(''ifaddr-8.img'', [1]), (''route-8.img'', [2]), (''netdev-8.img'', [3])]]"

definition fsA1 :: fs where
  "fsA1 = [''/img'' \<mapsto> [(''ifaddr-8.img'', ifaddrOld), (''route-8.img'', routeNoAddr),
                           (''netdev-8.img'', netdevOld)],
           ''/out'' \<mapsto> [(''route-8.img'', [2]), (''netdev-8.img'', [3]),
                           (''ifaddr-8.img'', ifaddrNew)]]"

definition fsA2 :: fs where
  "fsA2 = [''/img'' \<mapsto> [(''ifaddr-8.img'', ifaddrOld), (''route-8.img'', routeNoAddr),
                           (''netdev-8.img'', netdevOld)],
           ''/out'' \<mapsto> [(''ifaddr-8.img'', [1]), (''route-8.img'', [2]),
                           (''netdev-8.img'', [0x54, 0x4d, 0x49, 0x00])]]"

definition fsImg :: fs where
  "fsImg = [''/img'' \<mapsto> [(''ifaddr-8.img'', ifaddrOld), (''route-8.img'', routeOld)]]"

definition fsImg1 :: fs where
  "fsImg1 = [''/img'' \<mapsto> [(''ifaddr-8.img'', ifaddrNew), (''route-8.img'', routeNew)]]"

text \<open>
  \<open>fsLost\<close>: the root of the target container exists, the image directory of checkpoint
  \<open>cp1\<close> of the source container does not.  \<open>fsLost1\<close>: the same after the target
  image directory was created.
\<close>

definition fsLost :: fs where
  "fsLost = [''/c/ef01'' \<mapsto> []]"

definition fsLost1 :: fs where
  "fsLost1 = [''/c/ef01'' \<mapsto> [], ''/c/ef01/checkpoints'' \<mapsto> [],
              ''/c/ef01/checkpoints/cp1'' \<mapsto> []]"

text \<open>
  \<open>fsStale\<close>: the image directory of checkpoint \<open>cp1\<close> of the source container holds two
  image files and the pidfile, and the target image directory exists already and holds a
  file \<open>core-1.img\<close>.  \<open>fsStale1\<close>: the same after \<open>pages-1.img\<close> was linked into the
  target image directory.  \<open>fsFresh\<close> and \<open>fsFresh1\<close>: a source image directory and the
  root of the target container, before and after a clone.  \<open>fsLinked\<close>: a target image
  directory that holds a linked file and no network image.
\<close>

definition fsStale :: fs where
  "fsStale = [''/c/abcd/checkpoints/cp1'' \<mapsto>
                 [(''pages-1.img'', [1]), (''restore.pid'', [52, 50]), (''core-1.img'', [2])],
              ''/c/ef01'' \<mapsto> [], ''/c/ef01/checkpoints'' \<mapsto> [],
              ''/c/ef01/checkpoints/cp1'' \<mapsto> [(''core-1.img'', [9])]]"

definition fsStale1 :: fs where
  "fsStale1 = [''/c/abcd/checkpoints/cp1'' \<mapsto>
                  [(''pages-1.img'', [1]), (''restore.pid'', [52, 50]), (''core-1.img'', [2])],
               ''/c/ef01'' \<mapsto> [], ''/c/ef01/checkpoints'' \<mapsto> [],
               ''/c/ef01/checkpoints/cp1'' \<mapsto> [(''core-1.img'', [9]), (''pages-1.img'', [1])]]"

definition fsFresh :: fs where
  "fsFresh = [''/c/abcd/checkpoints/cp1'' \<mapsto> [(''pages-1.img'', [1]), (''restore.pid'', [52, 50])],
              ''/c/ef01'' \<mapsto> []]"

definition fsFresh1 :: fs where
  "fsFresh1 = [''/c/abcd/checkpoints/cp1'' \<mapsto> [(''pages-1.img'', [1]), (''restore.pid'', [52, 50])],
               ''/c/ef01'' \<mapsto> [], ''/c/ef01/checkpoints'' \<mapsto> [],
               ''/c/ef01/checkpoints/cp1'' \<mapsto> [(''pages-1.img'', [1])]]"

definition fsLinked :: fs where
  "fsLinked = [''/c/ef01/checkpoints/cp1'' \<mapsto> [(''pages-1.img'', [1])]]"

definition restoreEnv :: restore_env where
  "restoreEnv =
     \<lparr>getContainer = (\<lambda>name. if name = ''abcd'' then Some containerS else None),
      checkpointsOf = (\<lambda>c checkpointID. if checkpointID = ''cp1'' then Some checkpoint1 else None),
      daemonCreate = (\<lambda>c. Inr containerT),
      containerRestore = (\<lambda>fs c checkpoint cloneFlag. (fs, None)),
      errorText = (\<lambda>e. case e of FileError path \<Rightarrow> ''open '' @ path | _ \<Rightarrow> ''error'')\<rparr>"

text \<open>A daemon in which the restore of a container fails, and which reports a failed link.\<close>

definition restoreEnvF :: restore_env where
  "restoreEnvF =
     restoreEnv\<lparr>containerRestore := (\<lambda>fs c checkpoint cloneFlag. (fs, Some ''exit status 1'')),
                errorText := (\<lambda>e. case e of FileError path \<Rightarrow> ''link '' @ path | _ \<Rightarrow> ''error'')\<rparr>"

text \<open>The same host with an address dump that reports 10.0.0.5 whatever the file holds.\<close>

definition extB :: externals where
  "extB = extA\<lparr>ipAddrShowdump := (\<lambda>data. Some ''    inet 10.0.0.5/16 scope global eth0'')\<rparr>"

text \<open>
  \<open>netdevTwo\<close>: a \<open>netdev-8.img\<close> with two records, the first (3 bytes) for the loopback
  device, the second (7 bytes) for \<open>eth0\<close>.  \<open>fsN\<close>: a source directory holding it and a
  destination directory with earlier files.
\<close>

definition netdevTwo :: "byte list" where
  "netdevTwo = [0x54, 0x4d, 0x49, 0x00, 3, 0, 0, 0, 0, 0, 0,
                7, 0, 0, 0, 1, 2, 0x42, 0xac, 0x11, 0, 1]"

definition fsN :: fs where
  "fsN = [''/img'' \<mapsto> [(''netdev-8.img'', netdevTwo)],
          ''/out'' \<mapsto> [(''ifaddr-8.img'', [1]), (''netdev-8.img'', [3])]]"

section \<open>Properties\<close>

text \<open>
  Claim C9.  A checkpoint job with exactly two arguments, naming a container the daemon
  knows, calls the container's Checkpoint operation exactly once, with the
  stop-after-dump flag true if and only if the second argument is the string "1".
  No other string is rejected: the job's status is decided by the outcome of the
  Checkpoint operation alone.
\<close>

theorem ContainerCheckpoint_stop_flag:
  assumes "length (Args job) = 2"
    and "daemonGet d (Args job ! 0) = Some c"
  shows "stopFlags (snd (ContainerCheckpoint d job)) = [Args job ! 1 = ''1'']
       \<and> fst (ContainerCheckpoint d job) =
           (case containerCheckpoint d c (Args job ! 1 = ''1'') of
              None \<Rightarrow> StatusOK
            | Some err \<Rightarrow>
                StatusErr (''Cannot checkpoint container '' @ Args job ! 0 @ '': '' @ err))"
  using assms by (auto simp: ContainerCheckpoint_def Let_def split: option.splits)

theorem ContainerCheckpoint_stop_flag_witness:
  "stopFlags (snd (ContainerCheckpoint
      \<lparr>daemonGet = (\<lambda>n. if n = ''c1'' then Some (7::nat) else None),
       containerCheckpoint = (\<lambda>c b. None)\<rparr>
      \<lparr>Name = ''checkpoint'', Args = [''c1'', ''true'']\<rparr>)) = [False]
   \<and> stopFlags (snd (ContainerCheckpoint
      \<lparr>daemonGet = (\<lambda>n. if n = ''c1'' then Some (7::nat) else None),
       containerCheckpoint = (\<lambda>c b. None)\<rparr>
      \<lparr>Name = ''checkpoint'', Args = [''c1'', ''1'']\<rparr>)) = [True]"
  using ContainerCheckpoint_stop_flag
      [of "\<lparr>Name = ''checkpoint'', Args = [''c1'', ''true'']\<rparr>"
          "\<lparr>daemonGet = (\<lambda>n. if n = ''c1'' then Some (7::nat) else None),
            containerCheckpoint = (\<lambda>c b. None)\<rparr>" 7]
    ContainerCheckpoint_stop_flag
      [of "\<lparr>Name = ''checkpoint'', Args = [''c1'', ''1'']\<rparr>"
          "\<lparr>daemonGet = (\<lambda>n. if n = ''c1'' then Some (7::nat) else None),
            containerCheckpoint = (\<lambda>c b. None)\<rparr>" 7]
  by simp

text \<open>
  Claim C8, as stated: in every dump command line all \<open>--ext-mount-map\<close> pairs, those of the
  volumes included, come before \<open>-D\<close>, \<open>-t\<close> and \<open>--root\<close>.  It fails as soon as the
  container has a volume: the driver appends the volume pairs to the finished list.
\<close>

theorem dumpArgs_volume_after_root_counterexample:
  "\<not> extMapsBeforeImageDir
       (dumpArgs \<lparr>Command = \<lparr>ID = ''abcd'', Rootfs = ''/rootfs/abcd'', ContainerPid = 1234\<rparr>,
                  ImagePath = ''/cp1'', Volumes = [(''/data'', ''/mnt'')]\<rparr>)"
  by (simp add: extMapsBeforeImageDir_def dumpArgs_def)

text \<open>
  Claim C8, amended: the dump command line is the fixed options, the four system-file
  \<open>--ext-mount-map\<close> pairs, then \<open>-D <image-dir>\<close>, \<open>-t <pid>\<close>, \<open>--root <rootfs>\<close>, and
  after these one \<open>--ext-mount-map HOST:GUEST\<close> pair per volume, in the order in which
  the volume map is iterated.
\<close>

theorem dumpArgs_layout:
  "dumpArgs checkpoint =
     [''dump'', ''-v4'', ''-o'', ''/dev/stdout'', ''--manage-cgroups'', ''--evasive-devices'']
     @ [''--ext-mount-map'', ''/etc/resolv.conf:/etc/resolv.conf'',
        ''--ext-mount-map'', ''/etc/hosts:/etc/hosts'',
        ''--ext-mount-map'', ''/etc/hostname:/etc/hostname'',
        ''--ext-mount-map'', ''/.dockerinit:/.dockerinit'']
     @ [''-D'', ImagePath checkpoint,
        ''-t'', showInt (ContainerPid (Command checkpoint)),
        ''--root'', Rootfs (Command checkpoint)]
     @ concat (map (\<lambda>(hostPath, guestPath). [''--ext-mount-map'', hostPath @ '':'' @ guestPath])
                 (Volumes checkpoint))"
proof -
  have step: "foldl (\<lambda>cmdArgs (hostPath, guestPath).
                 cmdArgs @ [''--ext-mount-map'', hostPath @ '':'' @ guestPath]) base vs =
              base @ concat (map (\<lambda>(hostPath, guestPath).
                 [''--ext-mount-map'', hostPath @ '':'' @ guestPath]) vs)"
    for base :: "string list" and vs :: "(string \<times> string) list"
    by (induction vs arbitrary: base) (auto simp: case_prod_beta)
  show ?thesis
    unfolding dumpArgs_def step by simp
qed

theorem dumpArgs_layout_witness:
  "dumpArgs \<lparr>Command = \<lparr>ID = ''abcd'', Rootfs = ''/rootfs/abcd'', ContainerPid = 1234\<rparr>,
             ImagePath = ''/cp1'', Volumes = [(''/data'', ''/mnt'')]\<rparr> =
     [''dump'', ''-v4'', ''-o'', ''/dev/stdout'', ''--manage-cgroups'', ''--evasive-devices'',
      ''--ext-mount-map'', ''/etc/resolv.conf:/etc/resolv.conf'',
      ''--ext-mount-map'', ''/etc/hosts:/etc/hosts'',
      ''--ext-mount-map'', ''/etc/hostname:/etc/hostname'',
      ''--ext-mount-map'', ''/.dockerinit:/.dockerinit'',
      ''-D'', ''/cp1'', ''-t'', ''1234'', ''--root'', ''/rootfs/abcd'',
      ''--ext-mount-map'', ''/data:/mnt'']"
proof -
  have pid: "showInt 1234 = ''1234''"
    by code_simp
  show ?thesis
    using dumpArgs_layout
      [of "\<lparr>Command = \<lparr>ID = ''abcd'', Rootfs = ''/rootfs/abcd'', ContainerPid = 1234\<rparr>,
            ImagePath = ''/cp1'', Volumes = [(''/data'', ''/mnt'')]\<rparr>"]
    by (simp add: pid)
qed

subsection \<open>Restore: facts about the trace\<close>

lemma execRestoreBody_head:
  "\<exists>calls. snd (execRestoreBody h ck cb) = EvRun ''/usr/local/sbin/criu'' (restoreArgs h ck) # calls
           \<and> \<not> list_ex isStatOrRemove calls \<and> \<not> list_ex isKill calls"
  by (simp add: execRestoreBody_def Let_def
      split: option.split error.split sum.split wait_result.split)

lemma restoreArgs_stat_remove:
  "restoreArgs (h\<lparr>statOk := s, removeOk := r\<rparr>) ck = restoreArgs h ck"
  by (simp add: restoreArgs_def)

lemma execRestoreBody_stat_remove:
  "fst (execRestoreBody (h\<lparr>statOk := s, removeOk := r\<rparr>) ck cb) = fst (execRestoreBody h ck cb)"
  by (simp add: execRestoreBody_def Let_def restoreArgs_stat_remove
      split: option.split error.split sum.split wait_result.split)

lemma pidsUsed_append: "pidsUsed (xs @ ys) = pidsUsed xs @ pidsUsed ys"
  by (induction xs rule: pidsUsed.induct) simp_all

lemma cgroupCleanup_no_kill: "\<not> list_ex isKill (cgroupCleanup h cid)"
  by (simp add: cgroupCleanup_def cgroupSubsystems_def Let_def)

lemma cgroupCleanup_no_pid: "pidsUsed (cgroupCleanup h cid) = []"
  by (simp add: cgroupCleanup_def cgroupSubsystems_def Let_def)

lemma cgroupCleanup_removed:
  "removedPaths (cgroupCleanup h cid) =
     filter (statOk h) (map (\<lambda>subsys. cgroupPath subsys cid) cgroupSubsystems)"
  by (simp add: cgroupCleanup_def cgroupSubsystems_def Let_def)

lemma execRestore_fst: "fst (execRestore h ck cb) = fst (execRestoreBody h ck cb)"
  by (simp add: execRestore_def Let_def case_prod_beta)

lemma execRestore_snd:
  "snd (execRestore h ck cb) =
     snd (execRestoreBody h ck cb) @ cgroupCleanup h (ID (Command ck))
       @ [EvRemove (joinPath (ImagePath ck) ''restore.pid'')
            (removeOk h (joinPath (ImagePath ck) ''restore.pid''))]"
  by (simp add: execRestore_def Let_def case_prod_beta)

lemma Atoi_zero: "Atoi ''0'' = (0, None)"
  by (simp add: Atoi_def decimalInteger_def isDigit_def digitsValue_def)

lemma hostA_result: "fst (execRestore hostA checkpointA False) = (0, None)"
  by (simp add: execRestore_fst execRestoreBody_def hostA_def Let_def Atoi_def
      decimalInteger_def isDigit_def digitsValue_def)

text \<open>
  Claim C3, as stated: the cgroup directories are removed before the freezer tool is run,
  and a removal that fails with EPERM fails the restore.  On a host where the eight
  directories exist and cannot be removed the restore returns without error, and no
  removal precedes the run of the tool.
\<close>

theorem execRestore_pre_cleanup_counterexample:
  "\<not> cgroupPreCleanupClaim hostA checkpointA (execRestore hostA checkpointA False)"
proof -
  have "snd (fst (execRestore hostA checkpointA False)) = None"
    by (simp add: hostA_result)
  moreover have "statOk hostA p" and "\<not> removeOk hostA p" for p
    by (simp_all add: hostA_def)
  ultimately show ?thesis
    by (simp add: cgroupPreCleanupClaim_def cgroupSubsystems_def Let_def)
qed

text \<open>
  Claim C3, amended: the cleanup of the cgroup directories is deferred.  In every run of
  \<open>execRestore\<close> the first call is the run of the freezer tool, and no stat or removal
  happens until the body has returned; then, whatever the outcome, the driver stats the
  directory \<open>/sys/fs/cgroup/<subsystem>/docker/<container id>\<close> of each of the eight
  subsystems in the listed order and removes exactly those whose stat succeeds, and last
  it removes the pidfile.  A missing directory is skipped, and the outcome of a removal is
  dropped: the exit code and the error of the restore do not depend on which stats and
  removals succeed.
\<close>

theorem execRestore_cgroup_cleanup_deferred:
  "(\<exists>calls. snd (execRestore h ck cb) =
        EvRun ''/usr/local/sbin/criu'' (restoreArgs h ck) # calls
          @ cgroupCleanup h (ID (Command ck))
          @ [EvRemove (joinPath (ImagePath ck) ''restore.pid'')
               (removeOk h (joinPath (ImagePath ck) ''restore.pid''))]
      \<and> \<not> list_ex isStatOrRemove calls)
   \<and> removedPaths (cgroupCleanup h (ID (Command ck))) =
       filter (statOk h) (map (\<lambda>subsys. cgroupPath subsys (ID (Command ck)))
         [''devices'', ''memory'', ''cpu'', ''cpuset'', ''cpuacct'', ''blkio'', ''perf_event'',
          ''freezer''])
   \<and> fst (execRestore (h\<lparr>statOk := s, removeOk := r\<rparr>) ck cb) = fst (execRestore h ck cb)"
proof -
  obtain calls where
    "snd (execRestoreBody h ck cb) = EvRun ''/usr/local/sbin/criu'' (restoreArgs h ck) # calls"
    and "\<not> list_ex isStatOrRemove calls"
    using execRestoreBody_head [of h ck cb] by blast
  then have first: "\<exists>calls. snd (execRestore h ck cb) =
        EvRun ''/usr/local/sbin/criu'' (restoreArgs h ck) # calls
          @ cgroupCleanup h (ID (Command ck))
          @ [EvRemove (joinPath (ImagePath ck) ''restore.pid'')
               (removeOk h (joinPath (ImagePath ck) ''restore.pid''))]
      \<and> \<not> list_ex isStatOrRemove calls"
    by (simp add: execRestore_snd)
  have second: "removedPaths (cgroupCleanup h (ID (Command ck))) =
       filter (statOk h) (map (\<lambda>subsys. cgroupPath subsys (ID (Command ck)))
         [''devices'', ''memory'', ''cpu'', ''cpuset'', ''cpuacct'', ''blkio'', ''perf_event'',
          ''freezer''])"
    using cgroupCleanup_removed [of h "ID (Command ck)"]
    by (simp only: cgroupSubsystems_def)
  have third: "fst (execRestore (h\<lparr>statOk := s, removeOk := r\<rparr>) ck cb) = fst (execRestore h ck cb)"
    by (simp only: execRestore_fst execRestoreBody_stat_remove)
  from first second third show ?thesis
    by (intro conjI)
qed

theorem execRestore_cgroup_cleanup_deferred_witness:
  "fst (execRestore (hostA\<lparr>statOk := (\<lambda>p. False), removeOk := (\<lambda>p. True)\<rparr>) checkpointA False)
     = (0, None)
   \<and> removedPaths (cgroupCleanup hostA ''abcd'') =
       [''/sys/fs/cgroup/devices/docker/abcd'', ''/sys/fs/cgroup/memory/docker/abcd'',
        ''/sys/fs/cgroup/cpu/docker/abcd'', ''/sys/fs/cgroup/cpuset/docker/abcd'',
        ''/sys/fs/cgroup/cpuacct/docker/abcd'', ''/sys/fs/cgroup/blkio/docker/abcd'',
        ''/sys/fs/cgroup/perf_event/docker/abcd'', ''/sys/fs/cgroup/freezer/docker/abcd'']"
proof -
  have ok: "statOk hostA p" for p
    by (simp add: hostA_def)
  have cid: "ID (Command checkpointA) = ''abcd''"
    by (simp add: checkpointA_def)
  show ?thesis
    using execRestore_cgroup_cleanup_deferred
      [where h = hostA and ck = checkpointA and cb = False
         and s = "\<lambda>p. False" and r = "\<lambda>p. True"]
    by (simp add: hostA_result ok cid cgroupPath_def)
qed

text \<open>
  Claim C7, as stated: when the host-side veth endpoint cannot be attached to the bridge,
  the restore fails and the restored process is signalled and reaped.  On a host whose
  bridge refuses the interface the restore does fail, but the driver neither signals nor
  waits on any process.
\<close>

theorem execRestore_bridge_failure_counterexample:
  "snd (fst (execRestore hostB checkpointA False)) = Some (OtherError ''no such device'')
   \<and> \<not> tornDown (snd (execRestore hostB checkpointA False))"
proof -
  have body: "execRestoreBody hostB checkpointA False =
      ((- 1, Some (OtherError ''no such device'')),
       [EvRun ''/usr/local/sbin/criu'' (restoreArgs hostB checkpointA),
        EvSetInterfaceMaster ''veth0a1b2c3'' ''docker0''])"
    by (simp add: execRestoreBody_def hostB_def hostA_def Let_def)
  show ?thesis
    using cgroupCleanup_no_kill [of hostB "ID (Command checkpointA)"]
    by (simp add: execRestore_fst execRestore_snd body tornDown_def)
qed

text \<open>
  Claim C7, amended: when the freezer tool has run without error and attaching the
  host-side veth endpoint to the bridge \<open>docker0\<close>, or bringing it up, fails, the
  restore returns exit code -1 with that error.  Its calls are then exactly: the run of
  the freezer tool, the attachment to the bridge, the bringing up of the interface if the
  attachment succeeded, the deferred cgroup cleanup, and the removal of the pidfile.  In
  particular the driver sends no signal, locates and waits on no process and does not read
  the pidfile.
\<close>

theorem execRestore_bridge_failure:
  assumes "runErr h = None"
    and "setMasterErr h = Some err \<or> (setMasterErr h = None \<and> interfaceUpErr h = Some err)"
  shows "fst (execRestore h ck cb) = (- 1, Some (OtherError err))
     \<and> snd (execRestore h ck cb) =
         [EvRun ''/usr/local/sbin/criu'' (restoreArgs h ck),
          EvSetInterfaceMaster (randomName h) ''docker0'']
         @ (if setMasterErr h = None then [EvInterfaceUp (randomName h)] else [])
         @ cgroupCleanup h (ID (Command ck))
         @ [EvRemove (joinPath (ImagePath ck) ''restore.pid'')
              (removeOk h (joinPath (ImagePath ck) ''restore.pid''))]
     \<and> \<not> list_ex isKill (snd (execRestore h ck cb))
     \<and> pidsUsed (snd (execRestore h ck cb)) = []
     \<and> EvReadFile (joinPath (ImagePath ck) ''restore.pid'') \<notin> set (snd (execRestore h ck cb))"
proof -
  have noread: "EvReadFile f \<notin> set (cgroupCleanup h cid)" for f cid
    by (simp add: cgroupCleanup_def cgroupSubsystems_def Let_def)
  have body: "execRestoreBody h ck cb =
     ((- 1, Some (OtherError err)),
      [EvRun ''/usr/local/sbin/criu'' (restoreArgs h ck),
       EvSetInterfaceMaster (randomName h) ''docker0'']
      @ (if setMasterErr h = None then [EvInterfaceUp (randomName h)] else []))"
    using assms by (auto simp: execRestoreBody_def Let_def)
  show ?thesis
    using cgroupCleanup_no_kill [of h "ID (Command ck)"]
    by (simp add: execRestore_fst execRestore_snd body pidsUsed_append cgroupCleanup_no_pid
        noread)
qed

theorem execRestore_bridge_failure_witness:
  "fst (execRestore (hostA\<lparr>interfaceUpErr := Some ''link down''\<rparr>) checkpointA True)
     = (- 1, Some (OtherError ''link down''))
   \<and> snd (execRestore (hostA\<lparr>interfaceUpErr := Some ''link down''\<rparr>) checkpointA True)
     = [EvRun ''/usr/local/sbin/criu''
          (restoreArgs (hostA\<lparr>interfaceUpErr := Some ''link down''\<rparr>) checkpointA),
        EvSetInterfaceMaster ''veth0a1b2c3'' ''docker0'',
        EvInterfaceUp ''veth0a1b2c3'']
       @ cgroupCleanup (hostA\<lparr>interfaceUpErr := Some ''link down''\<rparr>) ''abcd''
       @ [EvRemove ''/cp1/restore.pid'' False]
   \<and> pidsUsed (snd (execRestore (hostA\<lparr>interfaceUpErr := Some ''link down''\<rparr>) checkpointA True))
     = []"
proof -
  have h1: "runErr (hostA\<lparr>interfaceUpErr := Some ''link down''\<rparr>) = None"
    by (simp add: hostA_def)
  have h2: "setMasterErr (hostA\<lparr>interfaceUpErr := Some ''link down''\<rparr>) = Some ''link down''
      \<or> (setMasterErr (hostA\<lparr>interfaceUpErr := Some ''link down''\<rparr>) = None
          \<and> interfaceUpErr (hostA\<lparr>interfaceUpErr := Some ''link down''\<rparr>) = Some ''link down'')"
    by (simp add: hostA_def)
  have fields: "setMasterErr (hostA\<lparr>interfaceUpErr := Some ''link down''\<rparr>) = None"
    "randomName (hostA\<lparr>interfaceUpErr := Some ''link down''\<rparr>) = ''veth0a1b2c3''"
    "ID (Command checkpointA) = ''abcd''"
    "joinPath (ImagePath checkpointA) ''restore.pid'' = ''/cp1/restore.pid''"
    by (simp_all add: hostA_def checkpointA_def joinPath_def)
  have rm: "removeOk hostA p = False" for p
    by (simp add: hostA_def)
  note run = execRestore_bridge_failure [OF h1 h2, of checkpointA True]
  from run have res:
    "fst (execRestore (hostA\<lparr>interfaceUpErr := Some ''link down''\<rparr>) checkpointA True)
       = (- 1, Some (OtherError ''link down''))"
    by blast
  from run have pids:
    "pidsUsed (snd (execRestore (hostA\<lparr>interfaceUpErr := Some ''link down''\<rparr>) checkpointA True))
       = []"
    by blast
  from run have
    "snd (execRestore (hostA\<lparr>interfaceUpErr := Some ''link down''\<rparr>) checkpointA True)
       = [EvRun ''/usr/local/sbin/criu''
            (restoreArgs (hostA\<lparr>interfaceUpErr := Some ''link down''\<rparr>) checkpointA),
          EvSetInterfaceMaster (randomName (hostA\<lparr>interfaceUpErr := Some ''link down''\<rparr>))
            ''docker0'']
         @ (if setMasterErr (hostA\<lparr>interfaceUpErr := Some ''link down''\<rparr>) = None
            then [EvInterfaceUp (randomName (hostA\<lparr>interfaceUpErr := Some ''link down''\<rparr>))]
            else [])
         @ cgroupCleanup (hostA\<lparr>interfaceUpErr := Some ''link down''\<rparr>)
             (ID (Command checkpointA))
         @ [EvRemove (joinPath (ImagePath checkpointA) ''restore.pid'')
              (removeOk (hostA\<lparr>interfaceUpErr := Some ''link down''\<rparr>)
                 (joinPath (ImagePath checkpointA) ''restore.pid''))]"
    by blast
  then have calls:
    "snd (execRestore (hostA\<lparr>interfaceUpErr := Some ''link down''\<rparr>) checkpointA True)
       = [EvRun ''/usr/local/sbin/criu''
            (restoreArgs (hostA\<lparr>interfaceUpErr := Some ''link down''\<rparr>) checkpointA),
          EvSetInterfaceMaster ''veth0a1b2c3'' ''docker0'',
          EvInterfaceUp ''veth0a1b2c3'']
         @ cgroupCleanup (hostA\<lparr>interfaceUpErr := Some ''link down''\<rparr>) ''abcd''
         @ [EvRemove ''/cp1/restore.pid'' False]"
    by (simp add: fields rm)
  from res calls pids show ?thesis
    by (intro conjI)
qed

subsection \<open>Restore: the PID read from the pidfile\<close>

lemma Atoi_error:
  "snd (Atoi s) = Some e \<Longrightarrow>
   fst (Atoi s) = (if \<not> decimalInteger s then 0
                   else if hd s = CHR ''-'' then - (2 ^ 63) else 2 ^ 63 - 1)"
  by (auto simp: Atoi_def Let_def split: if_splits)

lemma Atoi_bounds:
  "Atoi ''9223372036854775807'' = (2 ^ 63 - 1, None)"
  "Atoi ''-9223372036854775808'' = (- (2 ^ 63), None)"
  by (simp_all add: Atoi_def decimalInteger_def isDigit_def digitsValue_def)

lemma Atoi_over: "Atoi ''9223372036854775808'' = (9223372036854775807, Some ErrRange)"
  by (simp add: Atoi_def decimalInteger_def isDigit_def digitsValue_def)

lemma execRestoreBody_pid_only:
  assumes "readPidFile h = Inr s" and "fst (Atoi s') = fst (Atoi s)"
  shows "execRestoreBody h ck cb = execRestoreBody (h\<lparr>readPidFile := Inr s'\<rparr>) ck cb"
proof -
  have args: "restoreArgs (h\<lparr>readPidFile := Inr s'\<rparr>) ck = restoreArgs h ck"
    by (simp add: restoreArgs_def)
  show ?thesis
    using assms
    by (simp add: execRestoreBody_def Let_def args
        split: option.split error.split wait_result.split)
qed

lemma execRestore_pid_only:
  assumes "readPidFile h = Inr s" and "fst (Atoi s') = fst (Atoi s)"
  shows "execRestore h ck cb = execRestore (h\<lparr>readPidFile := Inr s'\<rparr>) ck cb"
proof -
  have cleanup: "cgroupCleanup (h\<lparr>readPidFile := Inr s'\<rparr>) cid = cgroupCleanup h cid" for cid
    by (simp add: cgroupCleanup_def Let_def cong: if_cong)
  show ?thesis
    by (simp add: execRestore_def execRestoreBody_pid_only [OF assms] cleanup)
qed

lemma execRestoreBody_pids:
  assumes "readPidFile h = Inr s"
  shows "set (pidsUsed (snd (execRestoreBody h ck cb))) \<subseteq> {fst (Atoi s)}"
  using assms
  by (simp add: execRestoreBody_def Let_def split: option.split error.split wait_result.split)

lemma execRestoreBody_located:
  assumes "readPidFile h = Inr s" and "runErr h = None" and "setMasterErr h = None"
    and "interfaceUpErr h = None"
  shows "EvFindProcess (fst (Atoi s)) \<in> set (snd (execRestoreBody h ck cb))"
  using assms
  by (simp add: execRestoreBody_def Let_def split: option.split wait_result.split)

lemma execRestoreBody_waited:
  assumes "readPidFile h = Inr s" and "runErr h = None" and "setMasterErr h = None"
    and "interfaceUpErr h = None" and "findProcessErr h (fst (Atoi s)) = None"
  shows "EvWait (fst (Atoi s)) \<in> set (snd (execRestoreBody h ck cb))
     \<and> fst (execRestoreBody h ck cb) =
         (case waitResult h (fst (Atoi s)) of
            Exited exitCode \<Rightarrow> (exitCode, None)
          | WaitExitError \<Rightarrow> (- 1, Some Panic)
          | WaitError e \<Rightarrow> (- 1, Some (OtherError e)))"
  using assms
  by (simp add: execRestoreBody_def Let_def split: wait_result.split)

lemma hostD_run:
  "fst (execRestore hostD checkpointA False) = (0, None)"
  "pidsUsed (snd (execRestore hostD checkpointA False))
     = [9223372036854775807, 9223372036854775807]"
proof -
  have body: "execRestoreBody hostD checkpointA False =
      ((0, None),
       [EvRun ''/usr/local/sbin/criu'' (restoreArgs hostD checkpointA),
        EvSetInterfaceMaster ''veth0a1b2c3'' ''docker0'', EvInterfaceUp ''veth0a1b2c3'',
        EvCloseWaitForStart, EvReadFile (joinPath (ImagePath checkpointA) ''restore.pid''),
        EvFindProcess 9223372036854775807, EvWait 9223372036854775807])"
    by (simp add: execRestoreBody_def Let_def hostD_def hostA_def Atoi_over)
  show "fst (execRestore hostD checkpointA False) = (0, None)"
    by (simp add: execRestore_fst body)
  show "pidsUsed (snd (execRestore hostD checkpointA False))
     = [9223372036854775807, 9223372036854775807]"
    by (simp add: execRestore_snd body pidsUsed_append cgroupCleanup_no_pid)
qed

text \<open>
  Claim C10, as stated: whenever the contents of a readable pidfile do not parse as a
  decimal integer, the parse failure is discarded and PID 0 is used.  A pidfile that holds
  the digits 9223372036854775808 does not parse, since the number is out of the range of
  \<open>int\<close>; the failure is dropped and the restore succeeds, but the process located and
  waited on has PID 9223372036854775807, not 0.
\<close>

theorem execRestore_pidfile_counterexample:
  "readPidFile hostD = Inr ''9223372036854775808''
   \<and> snd (Atoi ''9223372036854775808'') = Some ErrRange
   \<and> fst (execRestore hostD checkpointA False) = (0, None)
   \<and> pidsUsed (snd (execRestore hostD checkpointA False))
       = [9223372036854775807, 9223372036854775807]
   \<and> \<not> set (pidsUsed (snd (execRestore hostD checkpointA False))) \<subseteq> {0}"
  by (simp add: hostD_run Atoi_over) (simp add: hostD_def hostA_def)

text \<open>
  Claim C10, amended: when the pidfile can be read but \<open>strconv.Atoi\<close> fails on its
  contents, no pidfile error is reported: the failure is dropped and the restore goes on
  with the number that \<open>Atoi\<close> returns beside its error.  That number is 0 when the
  contents are not an optionally signed sequence of decimal digits (a PID followed by a
  newline or garbage), and the nearest bound of \<open>int\<close> (9223372036854775807 or
  -9223372036854775808) when they are such a sequence out of range.  The restore runs
  exactly as it does on a pidfile holding that number, and every process the driver
  locates, announces or waits on has that number as its PID.
\<close>

theorem execRestore_pidfile_error_dropped:
  assumes "readPidFile h = Inr sPid"
    and "snd (Atoi sPid) = Some parseError"
  shows "fst (Atoi sPid) = (if \<not> decimalInteger sPid then 0
                            else if hd sPid = CHR ''-'' then - (2 ^ 63) else 2 ^ 63 - 1)
     \<and> execRestore h ck cb =
         execRestore
           (h\<lparr>readPidFile := Inr (if \<not> decimalInteger sPid then ''0''
                                   else if hd sPid = CHR ''-'' then ''-9223372036854775808''
                                   else ''9223372036854775807'')\<rparr>) ck cb
     \<and> set (pidsUsed (snd (execRestore h ck cb))) \<subseteq> {fst (Atoi sPid)}
     \<and> (runErr h = None \<and> setMasterErr h = None \<and> interfaceUpErr h = None
          \<longrightarrow> EvFindProcess (fst (Atoi sPid)) \<in> set (snd (execRestore h ck cb)))
     \<and> (runErr h = None \<and> setMasterErr h = None \<and> interfaceUpErr h = None
          \<and> findProcessErr h (fst (Atoi sPid)) = None
          \<longrightarrow> EvWait (fst (Atoi sPid)) \<in> set (snd (execRestore h ck cb))
              \<and> fst (execRestore h ck cb) =
                  (case waitResult h (fst (Atoi sPid)) of
                     Exited exitCode \<Rightarrow> (exitCode, None)
                   | WaitExitError \<Rightarrow> (- 1, Some Panic)
                   | WaitError e \<Rightarrow> (- 1, Some (OtherError e))))"
proof -
  have first: "fst (Atoi sPid) = (if \<not> decimalInteger sPid then 0
                            else if hd sPid = CHR ''-'' then - (2 ^ 63) else 2 ^ 63 - 1)"
    using assms(2) by (rule Atoi_error)
  have same: "fst (Atoi (if \<not> decimalInteger sPid then ''0''
                         else if hd sPid = CHR ''-'' then ''-9223372036854775808''
                         else ''9223372036854775807'')) = fst (Atoi sPid)"
    by (simp add: first Atoi_zero Atoi_bounds)
  have second: "execRestore h ck cb =
         execRestore
           (h\<lparr>readPidFile := Inr (if \<not> decimalInteger sPid then ''0''
                                   else if hd sPid = CHR ''-'' then ''-9223372036854775808''
                                   else ''9223372036854775807'')\<rparr>) ck cb"
    using assms(1) same by (rule execRestore_pid_only)
  have third: "set (pidsUsed (snd (execRestore h ck cb))) \<subseteq> {fst (Atoi sPid)}"
    using execRestoreBody_pids [OF assms(1), of ck cb]
    by (simp add: execRestore_snd pidsUsed_append cgroupCleanup_no_pid)
  have fourth: "runErr h = None \<and> setMasterErr h = None \<and> interfaceUpErr h = None
          \<longrightarrow> EvFindProcess (fst (Atoi sPid)) \<in> set (snd (execRestore h ck cb))"
    using execRestoreBody_located [OF assms(1), of ck cb]
    by (simp add: execRestore_snd)
  have fifth: "runErr h = None \<and> setMasterErr h = None \<and> interfaceUpErr h = None
          \<and> findProcessErr h (fst (Atoi sPid)) = None
          \<longrightarrow> EvWait (fst (Atoi sPid)) \<in> set (snd (execRestore h ck cb))
              \<and> fst (execRestore h ck cb) =
                  (case waitResult h (fst (Atoi sPid)) of
                     Exited exitCode \<Rightarrow> (exitCode, None)
                   | WaitExitError \<Rightarrow> (- 1, Some Panic)
                   | WaitError e \<Rightarrow> (- 1, Some (OtherError e)))"
    using execRestoreBody_waited [OF assms(1), of ck cb]
    by (simp add: execRestore_fst execRestore_snd)
  from first second third fourth fifth show ?thesis
    by (intro conjI)
qed

theorem execRestore_pidfile_error_dropped_witness:
  "fst (execRestore hostC checkpointA True) = (- 1, Some (OtherError ''wait: no child processes''))
   \<and> EvWait 0 \<in> set (snd (execRestore hostC checkpointA True))
   \<and> fst (execRestore hostD checkpointA False) = (0, None)
   \<and> EvWait 9223372036854775807 \<in> set (snd (execRestore hostD checkpointA False))"
proof -
  have c1: "readPidFile hostC = Inr [CHR ''4'', CHR ''2'', CHR 0x0A]"
    by (simp add: hostC_def)
  have c2: "snd (Atoi [CHR ''4'', CHR ''2'', CHR 0x0A]) = Some ErrSyntax"
    by (simp add: Atoi_def decimalInteger_def isDigit_def)
  have c3: "fst (Atoi [CHR ''4'', CHR ''2'', CHR 0x0A]) = 0"
    by (simp add: Atoi_def decimalInteger_def isDigit_def)
  have csteps: "runErr hostC = None \<and> setMasterErr hostC = None \<and> interfaceUpErr hostC = None
      \<and> findProcessErr hostC 0 = None"
    by (simp add: hostC_def hostA_def)
  have cw: "waitResult hostC 0 = WaitError ''wait: no child processes''"
    by (simp add: hostC_def hostA_def)
  have d1: "readPidFile hostD = Inr ''9223372036854775808''"
    by (simp add: hostD_def)
  have d2: "snd (Atoi ''9223372036854775808'') = Some ErrRange"
    by (simp add: Atoi_over)
  have d3: "fst (Atoi ''9223372036854775808'') = 9223372036854775807"
    by (simp add: Atoi_over)
  have dsteps: "runErr hostD = None \<and> setMasterErr hostD = None \<and> interfaceUpErr hostD = None
      \<and> findProcessErr hostD 9223372036854775807 = None"
    by (simp add: hostD_def hostA_def)
  have dw: "waitResult hostD 9223372036854775807 = Exited 0"
    by (simp add: hostD_def hostA_def)
  from execRestore_pidfile_error_dropped [OF c1 c2, of checkpointA True] csteps
  have "EvWait 0 \<in> set (snd (execRestore hostC checkpointA True))
      \<and> fst (execRestore hostC checkpointA True) =
          (case waitResult hostC 0 of
             Exited exitCode \<Rightarrow> (exitCode, None)
           | WaitExitError \<Rightarrow> (- 1, Some Panic)
           | WaitError e \<Rightarrow> (- 1, Some (OtherError e)))"
    unfolding c3 by blast
  moreover from execRestore_pidfile_error_dropped [OF d1 d2, of checkpointA False] dsteps
  have "EvWait 9223372036854775807 \<in> set (snd (execRestore hostD checkpointA False))
      \<and> fst (execRestore hostD checkpointA False) =
          (case waitResult hostD 9223372036854775807 of
             Exited exitCode \<Rightarrow> (exitCode, None)
           | WaitExitError \<Rightarrow> (- 1, Some Panic)
           | WaitError e \<Rightarrow> (- 1, Some (OtherError e)))"
    unfolding d3 by blast
  ultimately show ?thesis
    by (simp add: cw dw)
qed

subsection \<open>Inspection: the order of the checkpoints\<close>

lemma insort_key_snoc:
  "sorted (map f (xs @ [y])) \<Longrightarrow>
   insort_key f c (xs @ [y]) = (if f y < f c then xs @ [y, c] else insort_key f c xs @ [y])"
  by (induction xs) auto

lemma insertLoop_insort_key:
  "sorted (map CreatedAt pre) \<Longrightarrow>
   insertLoop (pre @ c # suf) c (length pre) = insort_key CreatedAt c pre @ suf"
proof (induction pre arbitrary: suf rule: rev_induct)
  case Nil
  then show ?case by simp
next
  case (snoc y pre)
  have sorted_pre: "sorted (map CreatedAt pre)"
    using snoc.prems by (simp add: sorted_append)
  show ?case
  proof (cases "CreatedAt y < CreatedAt c")
    case True
    then show ?thesis
      using snoc.prems by (simp add: insort_key_snoc nth_append)
  next
    case False
    have moved: "((pre @ [y]) @ c # suf)[Suc (length pre) := y, length pre := c] = pre @ c # y # suf"
      by (simp add: list_update_append)
    have "insertLoop ((pre @ [y]) @ c # suf) c (length (pre @ [y]))
        = insertLoop (pre @ c # y # suf) c (length pre)"
      using False moved by (simp add: nth_append)
    also have "\<dots> = insort_key CreatedAt c pre @ y # suf"
      using snoc.IH [OF sorted_pre] .
    finally show ?thesis
      using False snoc.prems by (simp add: insort_key_snoc)
  qed
qed

lemma inspectCheckpoints_snoc:
  "inspectCheckpoints (iteration @ [c]) =
     insertLoop (inspectCheckpoints iteration @ [c]) c (length (inspectCheckpoints iteration))"
  by (simp add: inspectCheckpoints_def)

lemma inspectCheckpoints_sort_key:
  "inspectCheckpoints iteration = sort_key CreatedAt (rev iteration)"
proof (induction iteration rule: rev_induct)
  case Nil
  then show ?case by (simp add: inspectCheckpoints_def)
next
  case (snoc c iteration)
  have "insertLoop (sort_key CreatedAt (rev iteration) @ c # []) c
          (length (sort_key CreatedAt (rev iteration)))
      = insort_key CreatedAt c (sort_key CreatedAt (rev iteration)) @ []"
    by (rule insertLoop_insort_key) simp
  then show ?case
    by (simp add: inspectCheckpoints_snoc snoc.IH)
qed

text \<open>
  Claim C2, as stated: the enumeration is sorted by creation time, most recent first.
  With an older and a newer checkpoint the older one comes first, in whichever order the
  map yields the two.
\<close>

theorem inspectCheckpoints_most_recent_first_counterexample:
  "\<not> mostRecentFirst (inspectCheckpoints [checkpoint1, checkpoint2])
   \<and> \<not> mostRecentFirst (inspectCheckpoints [checkpoint2, checkpoint1])"
  by (simp add: mostRecentFirst_def inspectCheckpoints_def checkpoint1_def checkpoint2_def)

text \<open>
  Claim C2, amended: the enumeration built during container inspection holds exactly the
  checkpoints of the container, sorted by creation time in ascending order (oldest
  first); checkpoints with equal creation times appear in the reverse of the order in
  which the iteration over the checkpoint map yields them, an order that Go leaves open
  and that does not record insertion.
\<close>

theorem inspectCheckpoints_oldest_first:
  "sorted (map CreatedAt (inspectCheckpoints iteration))
   \<and> mset (inspectCheckpoints iteration) = mset iteration
   \<and> filter (\<lambda>c. CreatedAt c = t) (inspectCheckpoints iteration)
       = rev (filter (\<lambda>c. CreatedAt c = t) iteration)"
  by (simp add: inspectCheckpoints_sort_key sort_key_stable rev_filter)

theorem inspectCheckpoints_oldest_first_witness:
  "sorted (map CreatedAt (inspectCheckpoints [checkpoint2, checkpoint1, checkpoint3]))
   \<and> filter (\<lambda>c. CreatedAt c = 1000) (inspectCheckpoints [checkpoint2, checkpoint1, checkpoint3])
       = [checkpoint3, checkpoint1]"
  using inspectCheckpoints_oldest_first [of "[checkpoint2, checkpoint1, checkpoint3]" 1000]
  by (simp add: checkpoint1_def checkpoint2_def checkpoint3_def)

subsection \<open>Clone: the command line of the rewriter\<close>

lemma replaceFrom_colon: "replaceFrom 0 s '':'' '''' = filter (\<lambda>c. c \<noteq> CHR '':'') s"
  by (induction s) auto

lemma stringsReplace_colon: "stringsReplace s '':'' '''' = filter (\<lambda>c. c \<noteq> CHR '':'') s"
  by (simp add: stringsReplace_def replaceFrom_colon)

text \<open>
  Claim C4, as stated: the rewriter is run with the three directives \<open>mac=\<close>, \<open>ip=\<close> and
  \<open>cgroup=/docker/<S id>:/docker/<T id>\<close>.  For the clone of \<open>cp1\<close> of container \<open>abcd\<close>
  into container \<open>ef01\<close> the command line has no \<open>cgroup=\<close> directive.
\<close>

theorem patchImageArgs_counterexample:
  "set (drop 2 (patchImageArgs (checkpoint1\<lparr>container := containerT\<rparr>) ''/tmp/docker-patchcriu-1''))
     \<noteq> set (cloneDirectivesSpec containerS containerT)"
proof -
  have "''cgroup=/docker/abcd:/docker/ef01'' \<in> set (cloneDirectivesSpec containerS containerT)"
    by (simp add: cloneDirectivesSpec_def containerS_def containerT_def)
  moreover have "''cgroup=/docker/abcd:/docker/ef01''
      \<notin> set (drop 2 (patchImageArgs (checkpoint1\<lparr>container := containerT\<rparr>)
                        ''/tmp/docker-patchcriu-1''))"
    by (simp add: patchImageArgs_def)
  ultimately show ?thesis
    by blast
qed

text \<open>
  Claim C4, amended: \<open>patchImage\<close> runs the rewriter with the image directory of the
  cloned checkpoint as source, a fresh temporary directory as destination, and exactly
  two directives, in this order: \<open>ip=<T's IPv4 address>\<close> and
  \<open>mac=<T's MAC address without colons>\<close>.  No directive has the key \<open>cgroup\<close>.
\<close>

theorem patchImageArgs_directives:
  "patchImageArgs cp tmpdir =
     [imagePath cp, tmpdir,
      ''ip='' @ IPAddress (containerNetworkSettings (container cp)),
      ''mac='' @ filter (\<lambda>c. c \<noteq> CHR '':'') (MacAddress (containerNetworkSettings (container cp)))]
   \<and> list_all (\<lambda>spec. splitN2 spec ''='' ! 0 \<noteq> ''cgroup'') (drop 2 (patchImageArgs cp tmpdir))"
  by (simp add: patchImageArgs_def stringsReplace_colon splitN2_def)

theorem patchImageArgs_directives_witness:
  "patchImageArgs (checkpoint1\<lparr>container := containerT\<rparr>) ''/tmp/docker-patchcriu-1'' =
     [''/c/ef01/checkpoints/cp1'', ''/tmp/docker-patchcriu-1'',
      ''ip=172.17.0.3'', ''mac=0242ac110003'']"
  using patchImageArgs_directives
    [of "checkpoint1\<lparr>container := containerT\<rparr>" "''/tmp/docker-patchcriu-1''"]
  by (simp add: checkpoint1_def containerT_def imagePath_def joinPath_def)

subsection \<open>The rewriter: reading back what was written\<close>

lemma readFile_removeFile:
  "readFile (removeFile fs dir name) dir' name' =
     (if dir' = dir \<and> name' = name then None else readFile fs dir' name')"
  by (cases "fs dir") (auto simp: readFile_def removeFile_def delete_conv)

lemma readFile_writeFile:
  "writeFile fs dir name data = Some fs1 \<Longrightarrow>
   readFile fs1 dir' name' =
     (if dir' = dir \<and> name' = name then Some data else readFile fs dir' name')"
  by (cases "fs dir") (auto simp: readFile_def writeFile_def update_conv)

lemma readFile_putFile_all:
  "readFile (putFile fs dir name data) dir' name' =
     (if dir' = dir \<and> name' = name \<and> fs dir \<noteq> None then Some data else readFile fs dir' name')"
  by (cases "fs dir") (auto simp: readFile_def putFile_def update_conv)

lemma replaceWrite_error:
  assumes "replaceWrite fs dir name data = (fs1, Some e)"
  shows "e = FileError (joinPath dir name) \<and> fs1 = fs"
proof -
  from assms have none: "writeFile (removeFile fs dir name) dir name data = None"
    and e: "e = FileError (joinPath dir name)" and fs1: "fs1 = removeFile fs dir name"
    by (auto simp: replaceWrite_def Let_def split: option.splits)
  from none have "removeFile fs dir name dir = None"
    by (simp add: writeFile_def split: option.splits)
  then have "fs dir = None"
    by (cases "fs dir") (simp_all add: removeFile_def)
  then have "removeFile fs dir name = fs"
    by (simp add: removeFile_def)
  with e fs1 show ?thesis
    by simp
qed

lemma replaceWrite_ok:
  assumes "replaceWrite fs dir name data = (fs1, None)"
  shows "readFile fs1 dir' name' =
     (if dir' = dir \<and> name' = name then Some data else readFile fs dir' name')"
proof -
  from assms have "writeFile (removeFile fs dir name) dir name data = Some fs1"
    by (auto simp: replaceWrite_def Let_def split: option.splits)
  from readFile_writeFile [OF this] show ?thesis
    by (simp add: readFile_removeFile)
qed

subsection \<open>Directories are never removed by the rewriter or by a clone\<close>

lemma sameDirs_refl: "sameDirs fs fs"
  by (simp add: sameDirs_def)

lemma sameDirs_trans: "sameDirs fs fs1 \<Longrightarrow> sameDirs fs1 fs2 \<Longrightarrow> sameDirs fs fs2"
  by (simp add: sameDirs_def)

lemma sameDirs_putFile: "sameDirs fs (putFile fs dir name data)"
  by (cases "fs dir") (simp_all add: sameDirs_def putFile_def insert_absorb domI)

lemma sameDirs_removeFile: "sameDirs fs (removeFile fs dir name)"
  by (cases "fs dir") (simp_all add: sameDirs_def removeFile_def insert_absorb domI)

lemma sameDirs_writeFile:
  assumes "writeFile fs dir name data = Some fs1"
  shows "sameDirs fs fs1"
proof (cases "fs dir")
  case None
  with assms show ?thesis by (simp add: writeFile_def)
next
  case (Some entries)
  with assms have "fs1 = fs(dir \<mapsto> AList.update name data entries)"
    by (simp add: writeFile_def)
  then show ?thesis
    using Some by (simp add: sameDirs_def insert_absorb domI)
qed

lemma sameDirs_replaceWrite: "replaceWrite fs dir name data = (fs1, r) \<Longrightarrow> sameDirs fs fs1"
proof (cases "writeFile (removeFile fs dir name) dir name data")
  case None
  assume "replaceWrite fs dir name data = (fs1, r)"
  with None have "fs1 = removeFile fs dir name"
    by (simp add: replaceWrite_def Let_def)
  then show ?thesis by (simp add: sameDirs_removeFile)
next
  case (Some fs2)
  assume "replaceWrite fs dir name data = (fs1, r)"
  with Some have "fs1 = fs2"
    by (simp add: replaceWrite_def Let_def)
  with sameDirs_trans [OF sameDirs_removeFile sameDirs_writeFile [OF Some]] show ?thesis
    by simp
qed

lemma sameDirs_rewriteRecords:
  assumes "rewriteRecords step be fs srcPath destPath name = (fs1, r)"
  shows "sameDirs fs fs1"
proof (cases "readFile fs srcPath name")
  case None
  with assms show ?thesis by (simp add: rewriteRecords_def sameDirs_refl)
next
  case (Some src)
  note src = Some
  show ?thesis
  proof (cases "writeFile (removeFile fs destPath name) destPath name []")
    case None
    with src assms have "fs1 = removeFile fs destPath name"
      by (simp add: rewriteRecords_def Let_def)
    then show ?thesis by (simp add: sameDirs_removeFile)
  next
    case (Some fs2)
    have two: "sameDirs fs fs2"
      using sameDirs_trans [OF sameDirs_removeFile sameDirs_writeFile [OF Some]] .
    from src Some assms have "\<exists>out. fs1 = putFile fs2 destPath name out"
      by (auto simp: rewriteRecords_def Let_def case_prod_beta split: if_splits)
    then show ?thesis
      using sameDirs_trans [OF two sameDirs_putFile] by auto
  qed
qed

lemma rewriteIPAddress_cases:
  assumes "rewriteIPAddress x fs srcPath destPath ip = Some (fs1, r)"
  shows "(fs1 = fs \<and> r \<noteq> None)
     \<or> (\<exists>data e. replaceWrite fs destPath ''ifaddr-8.img'' data = (fs1, Some e) \<and> r = Some e)
     \<or> (\<exists>data. replaceWrite fs destPath ''ifaddr-8.img'' data = (fs1, None) \<and> r \<noteq> None)
     \<or> (\<exists>data fs2 routeData. replaceWrite fs destPath ''ifaddr-8.img'' data = (fs2, None)
           \<and> replaceWrite fs2 destPath ''route-8.img'' routeData = (fs1, r))"
  using assms unfolding rewriteIPAddress_def Let_def
  by (auto split: option.splits sum.splits prod.splits if_splits)

lemma sameDirs_rewriteIPAddress:
  assumes "rewriteIPAddress x fs srcPath destPath ip = Some (fs1, r)"
  shows "sameDirs fs fs1"
  using rewriteIPAddress_cases [OF assms]
  by (auto intro: sameDirs_refl sameDirs_replaceWrite
      sameDirs_trans [OF sameDirs_replaceWrite sameDirs_replaceWrite])

lemma sameDirs_applyDirective:
  assumes "applyDirective x fs srcPath destPath spec = Some (fs1, r)"
  shows "sameDirs fs fs1"
  using assms unfolding applyDirective_def Let_def rewriteMacAddress_def rewriteCgroupPaths_def
  by (auto split: if_splits intro: sameDirs_refl sameDirs_rewriteIPAddress sameDirs_rewriteRecords)

lemma sameDirs_applyDirectives:
  "applyDirectives x fs srcPath destPath specs = Some (fs1, r) \<Longrightarrow> sameDirs fs fs1"
proof (induction specs arbitrary: fs)
  case Nil
  then show ?case by (simp add: sameDirs_refl)
next
  case (Cons spec specs)
  then show ?case
    by (auto split: option.splits prod.splits
        intro: sameDirs_applyDirective sameDirs_trans [OF sameDirs_applyDirective])
qed

lemma sameDirs_patchCriu: "patchCriu x fs args = Some (fs1, r) \<Longrightarrow> sameDirs fs fs1"
  by (auto simp: patchCriu_def split: if_splits intro: sameDirs_refl sameDirs_applyDirectives)

lemma sameDirs_rename: "rename fs s t n = Some fs1 \<Longrightarrow> sameDirs fs fs1"
  by (auto simp: rename_def split: option.splits if_splits
      intro: sameDirs_refl sameDirs_trans [OF sameDirs_removeFile sameDirs_putFile])

lemma sameDirs_renameAll: "renameAll fs s t names = (fs1, r) \<Longrightarrow> sameDirs fs fs1"
proof (induction names arbitrary: fs)
  case Nil
  then show ?case by (simp add: sameDirs_refl)
next
  case (Cons n names)
  then show ?case
    by (auto split: option.splits intro: sameDirs_refl sameDirs_trans [OF sameDirs_rename])
qed

lemma patchImage_keeps_image_dir:
  assumes "patchImage x tempDir fs cp = Some (fs1, r)"
    and "fs (imagePath cp) \<noteq> None"
    and "\<forall>tmpdir. tempDir = Some tmpdir \<longrightarrow> fs tmpdir = None"
  shows "fs1 (imagePath cp) \<noteq> None"
proof (cases tempDir)
  case None
  with assms show ?thesis by (simp add: patchImage_def)
next
  case (Some tmpdir)
  with assms(2,3) have ne: "tmpdir \<noteq> imagePath cp" by auto
  have keep: "g (imagePath cp) \<noteq> None"
    if "sameDirs (fs(tmpdir \<mapsto> [])) g" for g
    using that assms(2) by (auto simp: sameDirs_def)
  have rd: "removeDir g tmpdir (imagePath cp) = g (imagePath cp)" for g
    using ne by (simp add: removeDir_def)
  obtain fs2 r2 where
    run: "patchCriu x (fs(tmpdir \<mapsto> [])) (patchImageArgs cp tmpdir) = Some (fs2, r2)"
    using assms(1) Some by (auto simp: patchImage_def split: option.splits)
  have two: "sameDirs (fs(tmpdir \<mapsto> [])) fs2"
    using sameDirs_patchCriu [OF run] .
  show ?thesis
  proof (cases r2)
    case (Some e)
    with run assms(1) \<open>tempDir = Some tmpdir\<close> have "fs1 = removeDir fs2 tmpdir"
      by (simp add: patchImage_def)
    then show ?thesis using keep [OF two] by (simp add: rd)
  next
    case None
    show ?thesis
    proof (cases "fs2 tmpdir")
      case None
      with run \<open>r2 = None\<close> assms(1) \<open>tempDir = Some tmpdir\<close> have "fs1 = fs2"
        by (simp add: patchImage_def)
      then show ?thesis using keep [OF two] by simp
    next
      case (Some entries)
      obtain fs3 r3 where
        ra: "renameAll fs2 tmpdir (imagePath cp) (map fst entries) = (fs3, r3)"
        by (cases "renameAll fs2 tmpdir (imagePath cp) (map fst entries)")
      with Some run \<open>r2 = None\<close> assms(1) \<open>tempDir = Some tmpdir\<close>
      have "fs1 = removeDir fs3 tmpdir"
        by (simp add: patchImage_def)
      then show ?thesis
        using keep [OF sameDirs_trans [OF two sameDirs_renameAll [OF ra]]] by (simp add: rd)
    qed
  qed
qed

lemma ensureDir_keeps: "fs d \<noteq> None \<Longrightarrow> ensureDir fs dir d \<noteq> None"
  by (simp add: ensureDir_def)

lemma ensureDir_creates: "ensureDir fs dir dir \<noteq> None"
  by (simp add: ensureDir_def)

lemma mkdirAll_keeps:
  "mkdirAll fs dir names = Some fs1 \<Longrightarrow> fs d \<noteq> None \<Longrightarrow> fs1 d \<noteq> None"
proof (induction names arbitrary: fs dir)
  case Nil
  then show ?case using ensureDir_keeps [of fs d dir] by auto
next
  case (Cons name names)
  from Cons.prems(1) have step: "mkdirAll (ensureDir fs dir) (joinPath dir name) names = Some fs1"
    by (simp add: Let_def split: if_splits)
  have "ensureDir fs dir d \<noteq> None"
    using Cons.prems(2) by (rule ensureDir_keeps)
  with step show ?case by (rule Cons.IH)
qed

lemma mkdirAll_creates:
  "mkdirAll fs dir names = Some fs1 \<Longrightarrow> fs1 (foldl joinPath dir names) \<noteq> None"
proof (induction names arbitrary: fs dir)
  case Nil
  then show ?case using ensureDir_creates [of fs dir] by auto
next
  case (Cons name names)
  from Cons.prems(1) have step: "mkdirAll (ensureDir fs dir) (joinPath dir name) names = Some fs1"
    by (simp add: Let_def split: if_splits)
  from Cons.IH [OF step] show ?case by simp
qed

lemma link_keeps: "link fs s t n = Some fs1 \<Longrightarrow> fs d \<noteq> None \<Longrightarrow> fs1 d \<noteq> None"
  by (auto simp: link_def split: option.splits if_splits)

lemma linkAll_keeps: "linkAll fs s t names = (fs2, r) \<Longrightarrow> fs d \<noteq> None \<Longrightarrow> fs2 d \<noteq> None"
proof (induction names arbitrary: fs)
  case Nil
  then show ?case by simp
next
  case (Cons name names)
  show ?case
  proof (cases "name = ''restore.pid''")
    case True
    with Cons show ?thesis by simp
  next
    case False
    show ?thesis
    proof (cases "link fs s t name")
      case None
      with False Cons.prems show ?thesis by simp
    next
      case (Some fs1)
      with False Cons.prems(1) have "linkAll fs1 s t names = (fs2, r)" by simp
      moreover have "fs1 d \<noteq> None" using link_keeps [OF Some Cons.prems(2)] .
      ultimately show ?thesis by (rule Cons.IH)
    qed
  qed
qed

lemma imagePath_target:
  "imagePath (cp\<lparr>container := T\<rparr>) = foldl joinPath (root T) [''checkpoints'', checkpointID cp]"
  by (simp add: imagePath_def)

lemma clone_failure:
  assumes "clone fs cp T = (fs', Inl e)"
  shows "(\<forall>dir. fs dir \<noteq> None \<longrightarrow> fs' dir \<noteq> None)
     \<and> (case mkdirAll fs (root T) [''checkpoints'', checkpointID cp] of
          None \<Rightarrow> fs' = fs
        | Some fs1 \<Rightarrow> fs' (imagePath (cp\<lparr>container := T\<rparr>)) \<noteq> None)"
proof (cases "mkdirAll fs (root T) [''checkpoints'', checkpointID cp]")
  case None
  with assms show ?thesis by (simp add: clone_def Let_def del: mkdirAll.simps)
next
  case (Some fs1)
  note made_dirs = Some
  have made: "fs1 (imagePath (cp\<lparr>container := T\<rparr>)) \<noteq> None"
    unfolding imagePath_target by (rule mkdirAll_creates [OF Some])
  have kept: "fs d \<noteq> None \<Longrightarrow> fs1 d \<noteq> None" for d
    using mkdirAll_keeps [OF Some] .
  show ?thesis
  proof (cases "fs1 (imagePath cp)")
    case None
    with made_dirs assms have "fs' = fs1"
      by (simp add: clone_def Let_def del: mkdirAll.simps)
    with made kept made_dirs show ?thesis
      by (simp del: mkdirAll.simps)
  next
    case (Some entries)
    obtain fs2 r where
      la: "linkAll fs1 (imagePath cp) (imagePath (cp\<lparr>container := T\<rparr>)) (map fst entries) = (fs2, r)"
      by (cases "linkAll fs1 (imagePath cp) (imagePath (cp\<lparr>container := T\<rparr>)) (map fst entries)")
    with Some made_dirs assms have "fs' = fs2"
      by (simp add: clone_def Let_def del: mkdirAll.simps split: option.splits)
    with linkAll_keeps [OF la] made kept made_dirs show ?thesis
      by (auto simp del: mkdirAll.simps)
  qed
qed

lemma mkdirAll_fsLost:
  "mkdirAll fsLost ''/c/ef01'' [''checkpoints'', ''cp1''] = Some fsLost1"
  by (simp add: fsLost_def fsLost1_def joinPath_def readFile_def ensureDir_def)

lemma clone_fsLost:
  "clone fsLost checkpoint1 containerT = (fsLost1, Inl (FileError ''/c/abcd/checkpoints/cp1''))"
proof -
  have paths: "root containerT = ''/c/ef01''" "checkpointID checkpoint1 = ''cp1''"
    "imagePath checkpoint1 = ''/c/abcd/checkpoints/cp1''"
    by (simp_all add: containerT_def checkpoint1_def imagePath_def joinPath_def containerS_def)
  have gone: "fsLost1 ''/c/abcd/checkpoints/cp1'' = None"
    by (simp add: fsLost1_def)
  show ?thesis
    by (simp add: clone_def Let_def paths mkdirAll_fsLost gone del: mkdirAll.simps)
qed

lemma sameOutside_refl: "sameOutside fs fs d"
  by (simp add: sameOutside_def)

lemma sameOutside_trans: "sameOutside fs fs1 d \<Longrightarrow> sameOutside fs1 fs2 d \<Longrightarrow> sameOutside fs fs2 d"
  by (simp add: sameOutside_def)

lemma sameOutside_putFile: "sameOutside fs (putFile fs d name data) d"
  by (cases "fs d") (simp_all add: sameOutside_def putFile_def)

lemma sameOutside_removeFile: "sameOutside fs (removeFile fs d name) d"
  by (cases "fs d") (simp_all add: sameOutside_def removeFile_def)

lemma sameOutside_writeFile: "writeFile fs d name data = Some fs1 \<Longrightarrow> sameOutside fs fs1 d"
  by (cases "fs d") (auto simp: sameOutside_def writeFile_def)

lemma sameOutside_replaceWrite: "replaceWrite fs d name data = (fs1, r) \<Longrightarrow> sameOutside fs fs1 d"
proof (cases "writeFile (removeFile fs d name) d name data")
  case None
  assume "replaceWrite fs d name data = (fs1, r)"
  with None have "fs1 = removeFile fs d name"
    by (simp add: replaceWrite_def Let_def)
  then show ?thesis by (simp add: sameOutside_removeFile)
next
  case (Some fs2)
  assume "replaceWrite fs d name data = (fs1, r)"
  with Some have "fs1 = fs2"
    by (simp add: replaceWrite_def Let_def)
  with sameOutside_trans [OF sameOutside_removeFile sameOutside_writeFile [OF Some]] show ?thesis
    by simp
qed

lemma sameOutside_rewriteRecords:
  assumes "rewriteRecords step be fs srcPath destPath name = (fs1, r)"
  shows "sameOutside fs fs1 destPath"
proof (cases "readFile fs srcPath name")
  case None
  with assms show ?thesis by (simp add: rewriteRecords_def sameOutside_refl)
next
  case (Some src)
  note src = Some
  show ?thesis
  proof (cases "writeFile (removeFile fs destPath name) destPath name []")
    case None
    with src assms have "fs1 = removeFile fs destPath name"
      by (simp add: rewriteRecords_def Let_def)
    then show ?thesis by (simp add: sameOutside_removeFile)
  next
    case (Some fs2)
    have two: "sameOutside fs fs2 destPath"
      using sameOutside_trans [OF sameOutside_removeFile sameOutside_writeFile [OF Some]] .
    from src Some assms have "\<exists>out. fs1 = putFile fs2 destPath name out"
      by (auto simp: rewriteRecords_def Let_def case_prod_beta split: if_splits)
    then show ?thesis
      using sameOutside_trans [OF two sameOutside_putFile] by auto
  qed
qed

lemma sameOutside_rewriteIPAddress:
  assumes "rewriteIPAddress x fs srcPath destPath ip = Some (fs1, r)"
  shows "sameOutside fs fs1 destPath"
  using rewriteIPAddress_cases [OF assms]
  by (auto intro: sameOutside_refl sameOutside_replaceWrite
      sameOutside_trans [OF sameOutside_replaceWrite sameOutside_replaceWrite])

lemma sameOutside_applyDirective:
  assumes "applyDirective x fs srcPath destPath spec = Some (fs1, r)"
  shows "sameOutside fs fs1 destPath"
  using assms unfolding applyDirective_def Let_def rewriteMacAddress_def rewriteCgroupPaths_def
  by (auto split: if_splits
      intro: sameOutside_refl sameOutside_rewriteIPAddress sameOutside_rewriteRecords)

lemma sameOutside_applyDirectives:
  "applyDirectives x fs srcPath destPath specs = Some (fs1, r) \<Longrightarrow> sameOutside fs fs1 destPath"
proof (induction specs arbitrary: fs)
  case Nil
  then show ?case by (simp add: sameOutside_refl)
next
  case (Cons spec specs)
  then show ?case
    by (auto split: option.splits prod.splits
        intro: sameOutside_applyDirective sameOutside_trans [OF sameOutside_applyDirective])
qed

lemma sameOutside_patchCriu:
  "patchCriu x fs args = Some (fs1, r) \<Longrightarrow> sameOutside fs fs1 (args ! 1)"
  by (auto simp: patchCriu_def split: if_splits
      intro: sameOutside_refl sameOutside_applyDirectives)

lemma readFile_ensureDir: "readFile (ensureDir fs dir) d n = readFile fs d n"
  by (simp add: readFile_def ensureDir_def)

lemma mkdirAll_two:
  "mkdirAll fs r [a, b] = Some fs1 \<Longrightarrow>
   fs1 = ensureDir (ensureDir (ensureDir fs r) (joinPath r a)) (joinPath (joinPath r a) b)"
  by (simp add: Let_def split: if_splits)

lemma mkdirAll_two_reads:
  "mkdirAll fs r [a, b] = Some fs1 \<Longrightarrow> readFile fs1 d n = readFile fs d n"
  by (drule mkdirAll_two) (simp add: readFile_ensureDir)

lemma mkdirAll_two_dirs:
  "mkdirAll fs r [a, b] = Some fs1 \<Longrightarrow>
   (fs1 d \<noteq> None) =
     (fs d \<noteq> None \<or> d = r \<or> d = joinPath r a \<or> d = joinPath (joinPath r a) b)"
  by (drule mkdirAll_two) (auto simp: ensureDir_def)

lemma link_effect:
  assumes "link fs s t n = Some fs1"
  shows "readFile fs t n = None \<and> readFile fs s n \<noteq> None \<and> s \<noteq> t
     \<and> (\<forall>d m. readFile fs1 d m = (if d = t \<and> m = n then readFile fs s n else readFile fs d m))
     \<and> (\<forall>d. (fs1 d \<noteq> None) = (fs d \<noteq> None))"
proof -
  from assms obtain data entries where
    src: "readFile fs s n = Some data" and dest: "fs t = Some entries"
    and free: "map_of entries n = None"
    and fs1: "fs1 = fs(t \<mapsto> entries @ [(n, data)])"
    by (auto simp: link_def split: option.splits if_splits)
  from dest free have absent: "readFile fs t n = None"
    by (simp add: readFile_def)
  with src have "s \<noteq> t"
    by auto
  moreover have "readFile fs1 d m = (if d = t \<and> m = n then readFile fs s n else readFile fs d m)"
    for d m
    using dest free src by (auto simp: fs1 readFile_def map_add_def split: option.splits)
  moreover have "(fs1 d \<noteq> None) = (fs d \<noteq> None)" for d
    using dest by (auto simp: fs1)
  ultimately show ?thesis
    using absent src by simp
qed

lemma linkAll_failure:
  "linkAll fs s t names = (fs2, Some e) \<Longrightarrow>
   \<exists>pre bad post. names = pre @ bad # post \<and> bad \<noteq> ''restore.pid''
     \<and> e = FileError (joinPath t bad) \<and> link fs2 s t bad = None
     \<and> (\<forall>name \<in> set pre. name \<noteq> ''restore.pid''
           \<longrightarrow> readFile fs t name = None \<and> readFile fs s name \<noteq> None)
     \<and> (\<forall>d m. readFile fs2 d m =
           (if d = t \<and> m \<in> set pre \<and> m \<noteq> ''restore.pid'' then readFile fs s m
            else readFile fs d m))
     \<and> (\<forall>d. (fs2 d \<noteq> None) = (fs d \<noteq> None))"
proof (induction names arbitrary: fs)
  case Nil
  then show ?case by simp
next
  case (Cons name names)
  show ?case
  proof (cases "name = ''restore.pid''")
    case True
    with Cons.prems have "linkAll fs s t names = (fs2, Some e)"
      by simp
    from Cons.IH [OF this] obtain pre bad post where
      parts: "names = pre @ bad # post" "bad \<noteq> ''restore.pid''"
        "e = FileError (joinPath t bad)" "link fs2 s t bad = None"
      and linked: "\<forall>name \<in> set pre. name \<noteq> ''restore.pid''
           \<longrightarrow> readFile fs t name = None \<and> readFile fs s name \<noteq> None"
      and reads: "\<forall>d m. readFile fs2 d m =
           (if d = t \<and> m \<in> set pre \<and> m \<noteq> ''restore.pid'' then readFile fs s m
            else readFile fs d m)"
      and dirs: "\<forall>d. (fs2 d \<noteq> None) = (fs d \<noteq> None)"
      by blast
    show ?thesis
    proof (intro exI conjI)
      show "name # names = (name # pre) @ bad # post"
        using parts(1) by simp
      show "\<forall>n \<in> set (name # pre). n \<noteq> ''restore.pid''
           \<longrightarrow> readFile fs t n = None \<and> readFile fs s n \<noteq> None"
        using linked True by simp
      show "\<forall>d m. readFile fs2 d m =
           (if d = t \<and> m \<in> set (name # pre) \<and> m \<noteq> ''restore.pid'' then readFile fs s m
            else readFile fs d m)"
        using reads True by simp
    qed (rule parts dirs)+
  next
    case False
    show ?thesis
    proof (cases "link fs s t name")
      case None
      with False Cons.prems have "fs2 = fs" "e = FileError (joinPath t name)"
        by simp_all
      with None have failed: "link fs2 s t name = None"
        by simp
      show ?thesis
      proof (intro exI conjI)
        show "name # names = [] @ name # names"
          by simp
        show "\<forall>n \<in> set []. n \<noteq> ''restore.pid''
               \<longrightarrow> readFile fs t n = None \<and> readFile fs s n \<noteq> None"
          by simp
        show "\<forall>d m. readFile fs2 d m =
               (if d = t \<and> m \<in> set [] \<and> m \<noteq> ''restore.pid'' then readFile fs s m
                else readFile fs d m)"
          using \<open>fs2 = fs\<close> by simp
        show "\<forall>d. (fs2 d \<noteq> None) = (fs d \<noteq> None)"
          using \<open>fs2 = fs\<close> by simp
      qed (rule False \<open>e = FileError (joinPath t name)\<close> failed)+
    next
      case (Some fs1)
      from link_effect [OF Some] have
        free: "readFile fs t name = None" and there: "readFile fs s name \<noteq> None"
        and ne: "s \<noteq> t"
        and reads1: "\<And>d m. readFile fs1 d m =
              (if d = t \<and> m = name then readFile fs s name else readFile fs d m)"
        and dirs1: "\<And>d. (fs1 d \<noteq> None) = (fs d \<noteq> None)"
        by blast+
      from Some False Cons.prems have "linkAll fs1 s t names = (fs2, Some e)"
        by simp
      from Cons.IH [OF this] obtain pre bad post where
        parts: "names = pre @ bad # post" "bad \<noteq> ''restore.pid''"
          "e = FileError (joinPath t bad)" "link fs2 s t bad = None"
        and linked: "\<forall>n \<in> set pre. n \<noteq> ''restore.pid''
             \<longrightarrow> readFile fs1 t n = None \<and> readFile fs1 s n \<noteq> None"
        and reads: "\<forall>d m. readFile fs2 d m =
             (if d = t \<and> m \<in> set pre \<and> m \<noteq> ''restore.pid'' then readFile fs1 s m
              else readFile fs1 d m)"
        and dirs: "\<forall>d. (fs2 d \<noteq> None) = (fs1 d \<noteq> None)"
        by blast
      have source: "readFile fs1 s m = readFile fs s m" for m
        using reads1 [of s m] ne by simp
      have linked': "\<forall>n \<in> set (name # pre). n \<noteq> ''restore.pid''
             \<longrightarrow> readFile fs t n = None \<and> readFile fs s n \<noteq> None"
      proof (intro ballI impI)
        fix n
        assume n: "n \<in> set (name # pre)" and pid: "n \<noteq> ''restore.pid''"
        show "readFile fs t n = None \<and> readFile fs s n \<noteq> None"
        proof (cases "n = name")
          case True
          with free there show ?thesis by simp
        next
          case False
          with n pid linked have "readFile fs1 t n = None \<and> readFile fs1 s n \<noteq> None"
            by simp
          with False reads1 [of t n] source [of n] show ?thesis
            by simp
        qed
      qed
      have reads': "\<forall>d m. readFile fs2 d m =
             (if d = t \<and> m \<in> set (name # pre) \<and> m \<noteq> ''restore.pid'' then readFile fs s m
              else readFile fs d m)"
      proof (intro allI)
        fix d m
        show "readFile fs2 d m =
             (if d = t \<and> m \<in> set (name # pre) \<and> m \<noteq> ''restore.pid'' then readFile fs s m
              else readFile fs d m)"
          using reads [rule_format, of d m] reads1 [of d m] source [of m] False
          by auto
      qed
      have dirs': "\<forall>d. (fs2 d \<noteq> None) = (fs d \<noteq> None)"
        using dirs dirs1 by simp
      show ?thesis
      proof (intro exI conjI)
        show "name # names = (name # pre) @ bad # post"
          using parts(1) by simp
      qed (rule parts linked' reads' dirs')+
    qed
  qed
qed

lemma mkdirAll_two_entries:
  "mkdirAll fs r [a, b] = Some fs1 \<Longrightarrow> fs1 d = Some entries \<Longrightarrow> entries \<noteq> [] \<Longrightarrow>
   fs d = Some entries"
  by (drule mkdirAll_two) (auto simp: ensureDir_def split: if_splits)

lemma clone_failure_exact:
  assumes "clone fs cp T = (fs', Inl e)"
  shows "(mkdirAll fs (root T) [''checkpoints'', checkpointID cp] = None \<and> fs' = fs
          \<and> e = FileError (imagePath (cp\<lparr>container := T\<rparr>)))
     \<or> (mkdirAll fs (root T) [''checkpoints'', checkpointID cp] \<noteq> None
        \<and> (\<forall>dir. (fs' dir \<noteq> None) =
              (fs dir \<noteq> None \<or> dir = root T \<or> dir = joinPath (root T) ''checkpoints''
               \<or> dir = imagePath (cp\<lparr>container := T\<rparr>)))
        \<and> ((fs (imagePath cp) = None \<and> fs' (imagePath cp) = None
              \<and> e = FileError (imagePath cp)
              \<and> (\<forall>dir name. readFile fs' dir name = readFile fs dir name))
           \<or> (\<exists>entries pre bad post.
                 fs (imagePath cp) = Some entries \<and> map fst entries = pre @ bad # post
               \<and> bad \<noteq> ''restore.pid''
               \<and> e = FileError (joinPath (imagePath (cp\<lparr>container := T\<rparr>)) bad)
               \<and> link fs' (imagePath cp) (imagePath (cp\<lparr>container := T\<rparr>)) bad = None
               \<and> (\<forall>name \<in> set pre. name \<noteq> ''restore.pid''
                     \<longrightarrow> readFile fs (imagePath (cp\<lparr>container := T\<rparr>)) name = None
                       \<and> readFile fs (imagePath cp) name \<noteq> None)
               \<and> (\<forall>dir name. readFile fs' dir name =
                     (if dir = imagePath (cp\<lparr>container := T\<rparr>) \<and> name \<in> set pre
                         \<and> name \<noteq> ''restore.pid''
                      then readFile fs (imagePath cp) name else readFile fs dir name)))))"
proof (cases "mkdirAll fs (root T) [''checkpoints'', checkpointID cp]")
  case None
  with assms show ?thesis by (simp add: clone_def Let_def del: mkdirAll.simps)
next
  case (Some fs1)
  note made = Some
  have target: "imagePath (cp\<lparr>container := T\<rparr>)
      = joinPath (joinPath (root T) ''checkpoints'') (checkpointID cp)"
    by (simp add: imagePath_def)
  have dirs1: "(fs1 dir \<noteq> None) =
      (fs dir \<noteq> None \<or> dir = root T \<or> dir = joinPath (root T) ''checkpoints''
       \<or> dir = imagePath (cp\<lparr>container := T\<rparr>))" for dir
    unfolding target by (rule mkdirAll_two_dirs [OF made])
  have reads1: "readFile fs1 dir name = readFile fs dir name" for dir name
    by (rule mkdirAll_two_reads [OF made])
  show ?thesis
  proof (cases "fs1 (imagePath cp)")
    case None
    with made assms have result: "fs' = fs1" "e = FileError (imagePath cp)"
      by (simp_all add: clone_def Let_def del: mkdirAll.simps)
    from None dirs1 [of "imagePath cp"] have "fs (imagePath cp) = None"
      by simp
    with None result dirs1 reads1 made show ?thesis
      by (simp del: mkdirAll.simps)
  next
    case (Some entries)
    obtain fs2 r where
      la: "linkAll fs1 (imagePath cp) (imagePath (cp\<lparr>container := T\<rparr>)) (map fst entries) = (fs2, r)"
      by (cases "linkAll fs1 (imagePath cp) (imagePath (cp\<lparr>container := T\<rparr>)) (map fst entries)")
    with Some made assms have result: "fs' = fs2" "r = Some e"
      by (simp_all add: clone_def Let_def del: mkdirAll.simps split: option.splits)
    from la result have
      "linkAll fs1 (imagePath cp) (imagePath (cp\<lparr>container := T\<rparr>)) (map fst entries)
         = (fs', Some e)"
      by simp
    from linkAll_failure [OF this] obtain pre bad post where
      parts: "map fst entries = pre @ bad # post" "bad \<noteq> ''restore.pid''"
        "e = FileError (joinPath (imagePath (cp\<lparr>container := T\<rparr>)) bad)"
        "link fs' (imagePath cp) (imagePath (cp\<lparr>container := T\<rparr>)) bad = None"
      and linked: "\<forall>name \<in> set pre. name \<noteq> ''restore.pid''
           \<longrightarrow> readFile fs1 (imagePath (cp\<lparr>container := T\<rparr>)) name = None
             \<and> readFile fs1 (imagePath cp) name \<noteq> None"
      and reads: "\<forall>d m. readFile fs' d m =
           (if d = imagePath (cp\<lparr>container := T\<rparr>) \<and> m \<in> set pre \<and> m \<noteq> ''restore.pid''
            then readFile fs1 (imagePath cp) m else readFile fs1 d m)"
      and dirs: "\<forall>d. (fs' d \<noteq> None) = (fs1 d \<noteq> None)"
      by blast
    from parts(1) have "entries \<noteq> []"
      by auto
    from mkdirAll_two_entries [OF made Some this]
    have listed: "fs (imagePath cp) = Some entries" .
    have dirs': "\<forall>dir. (fs' dir \<noteq> None) =
              (fs dir \<noteq> None \<or> dir = root T \<or> dir = joinPath (root T) ''checkpoints''
               \<or> dir = imagePath (cp\<lparr>container := T\<rparr>))"
      using dirs dirs1 by simp
    have linked': "\<forall>name \<in> set pre. name \<noteq> ''restore.pid''
           \<longrightarrow> readFile fs (imagePath (cp\<lparr>container := T\<rparr>)) name = None
             \<and> readFile fs (imagePath cp) name \<noteq> None"
      using linked by (simp add: reads1)
    have reads': "\<forall>dir name. readFile fs' dir name =
           (if dir = imagePath (cp\<lparr>container := T\<rparr>) \<and> name \<in> set pre
               \<and> name \<noteq> ''restore.pid''
            then readFile fs (imagePath cp) name else readFile fs dir name)"
      using reads by (simp add: reads1)
    have third: "\<exists>entries pre bad post.
                 fs (imagePath cp) = Some entries \<and> map fst entries = pre @ bad # post
               \<and> bad \<noteq> ''restore.pid''
               \<and> e = FileError (joinPath (imagePath (cp\<lparr>container := T\<rparr>)) bad)
               \<and> link fs' (imagePath cp) (imagePath (cp\<lparr>container := T\<rparr>)) bad = None
               \<and> (\<forall>name \<in> set pre. name \<noteq> ''restore.pid''
                     \<longrightarrow> readFile fs (imagePath (cp\<lparr>container := T\<rparr>)) name = None
                       \<and> readFile fs (imagePath cp) name \<noteq> None)
               \<and> (\<forall>dir name. readFile fs' dir name =
                     (if dir = imagePath (cp\<lparr>container := T\<rparr>) \<and> name \<in> set pre
                         \<and> name \<noteq> ''restore.pid''
                      then readFile fs (imagePath cp) name else readFile fs dir name))"
      by (intro exI conjI) (rule listed parts linked' reads')+
    have "mkdirAll fs (root T) [''checkpoints'', checkpointID cp] \<noteq> None"
      using made by (simp del: mkdirAll.simps)
    with dirs' third show ?thesis
      by blast
  qed
qed

lemma rename_effect:
  assumes "rename fs s t n = Some fs1"
  shows "(\<forall>dir. dir \<noteq> s \<and> dir \<noteq> t \<longrightarrow> fs1 dir = fs dir)
     \<and> (\<forall>m. readFile fs t m \<noteq> None \<longrightarrow> readFile fs1 t m \<noteq> None)"
proof (cases "s = t")
  case True
  with assms have "fs1 = fs"
    by (auto simp: rename_def split: option.splits if_splits)
  then show ?thesis by simp
next
  case False
  from assms False obtain data where
    fs1: "fs1 = putFile (removeFile fs s n) t n data"
    by (auto simp: rename_def split: option.splits if_splits)
  have "fs1 dir = fs dir" if "dir \<noteq> s" "dir \<noteq> t" for dir
    using that sameOutside_putFile [of "removeFile fs s n" t n data]
      sameOutside_removeFile [of fs s n]
    by (simp add: fs1 sameOutside_def)
  moreover have "readFile fs1 t m \<noteq> None" if "readFile fs t m \<noteq> None" for m
    using that False by (simp add: fs1 readFile_putFile_all readFile_removeFile)
  ultimately show ?thesis
    by blast
qed

lemma renameAll_effect:
  "renameAll fs s t names = (fs1, r) \<Longrightarrow>
   (\<forall>dir. dir \<noteq> s \<and> dir \<noteq> t \<longrightarrow> fs1 dir = fs dir)
     \<and> (\<forall>m. readFile fs t m \<noteq> None \<longrightarrow> readFile fs1 t m \<noteq> None)"
proof (induction names arbitrary: fs)
  case Nil
  then show ?case by simp
next
  case (Cons n names)
  show ?case
  proof (cases "rename fs s t n")
    case None
    with Cons.prems have "fs1 = fs" by simp
    then show ?thesis by simp
  next
    case (Some fs2)
    with Cons.prems have "renameAll fs2 s t names = (fs1, r)" by simp
    from Cons.IH [OF this] rename_effect [OF Some] show ?thesis
      by simp
  qed
qed

lemma removeDir_outside: "dir \<noteq> d \<Longrightarrow> removeDir fs d dir = fs dir"
  by (simp add: removeDir_def)

lemma patchImage_failure:
  assumes run: "patchImage x tempDir fs cp = Some (fs1, Some e1)"
    and img: "fs (imagePath cp) \<noteq> None"
    and fresh: "\<forall>tmpdir. tempDir = Some tmpdir \<longrightarrow> fs tmpdir = None"
  shows "fs1 (imagePath cp) \<noteq> None
     \<and> (\<forall>name. readFile fs (imagePath cp) name \<noteq> None
           \<longrightarrow> readFile fs1 (imagePath cp) name \<noteq> None)
     \<and> (\<forall>dir. dir \<noteq> imagePath cp \<and> tempDir \<noteq> Some dir \<longrightarrow> fs1 dir = fs dir)
     \<and> (tempDir = None \<longrightarrow> fs1 = fs)
     \<and> (\<forall>tmpdir fsr e2. tempDir = Some tmpdir
           \<and> patchCriu x (fs(tmpdir \<mapsto> [])) (patchImageArgs cp tmpdir) = Some (fsr, Some e2)
         \<longrightarrow> e1 = e2 \<and> fs1 = removeDir fsr tmpdir
           \<and> (\<forall>dir. dir \<noteq> tmpdir \<longrightarrow> fs1 dir = fs dir))"
proof (cases tempDir)
  case None
  with run have "fs1 = fs" by (simp add: patchImage_def)
  with None img show ?thesis by simp
next
  case (Some tmpdir)
  note tmp = Some
  with img fresh have ne: "tmpdir \<noteq> imagePath cp" by auto
  have exists: "fs1 (imagePath cp) \<noteq> None"
    by (rule patchImage_keeps_image_dir [OF run img fresh])
  show ?thesis
  proof (cases "patchCriu x (fs(tmpdir \<mapsto> [])) (patchImageArgs cp tmpdir)")
    case None
    with run tmp show ?thesis by (simp add: patchImage_def)
  next
    case (Some result)
    obtain fsr r where result: "result = (fsr, r)" by (cases result)
    with Some have pc: "patchCriu x (fs(tmpdir \<mapsto> [])) (patchImageArgs cp tmpdir) = Some (fsr, r)"
      by simp
    have "patchImageArgs cp tmpdir ! 1 = tmpdir"
      by (simp add: patchImageArgs_def)
    with sameOutside_patchCriu [OF pc]
    have outside: "dir \<noteq> tmpdir \<Longrightarrow> fsr dir = fs dir" for dir
      by (simp add: sameOutside_def)
    show ?thesis
    proof (cases r)
      case (Some e)
      with pc run tmp have res: "fs1 = removeDir fsr tmpdir" "e1 = e"
        by (simp_all add: patchImage_def)
      have same: "dir \<noteq> tmpdir \<Longrightarrow> fs1 dir = fs dir" for dir
        by (simp add: res removeDir_outside outside)
      from same [of "imagePath cp"] ne
      have "readFile fs1 (imagePath cp) name = readFile fs (imagePath cp) name" for name
        by (simp add: readFile_def)
      with exists same res pc Some tmp show ?thesis
        by auto
    next
      case None
      note ok = None
      show ?thesis
      proof (cases "fsr tmpdir")
        case None
        with pc ok run tmp have res: "fs1 = fsr"
          by (simp add: patchImage_def)
        have same: "dir \<noteq> tmpdir \<Longrightarrow> fs1 dir = fs dir" for dir
          by (simp add: res outside)
        from same [of "imagePath cp"] ne
        have "readFile fs1 (imagePath cp) name = readFile fs (imagePath cp) name" for name
          by (simp add: readFile_def)
        with exists same pc ok tmp show ?thesis
          by auto
      next
        case (Some entries)
        obtain fs3 r3 where
          ra: "renameAll fsr tmpdir (imagePath cp) (map fst entries) = (fs3, r3)"
          by (cases "renameAll fsr tmpdir (imagePath cp) (map fst entries)")
        with Some pc ok run tmp have res: "fs1 = removeDir fs3 tmpdir"
          by (simp add: patchImage_def)
        from renameAll_effect [OF ra] have
          other: "\<And>dir. dir \<noteq> tmpdir \<Longrightarrow> dir \<noteq> imagePath cp \<Longrightarrow> fs3 dir = fsr dir"
          and kept: "\<And>m. readFile fsr (imagePath cp) m \<noteq> None
              \<Longrightarrow> readFile fs3 (imagePath cp) m \<noteq> None"
          by blast+
        have same: "fs1 dir = fs dir" if "dir \<noteq> imagePath cp" "dir \<noteq> tmpdir" for dir
          using that by (simp add: res removeDir_outside other outside)
        have "readFile fs1 (imagePath cp) m \<noteq> None" if "readFile fs (imagePath cp) m \<noteq> None"
          for m
        proof -
          from that outside [of "imagePath cp"] ne
          have "readFile fsr (imagePath cp) m \<noteq> None"
            by (simp add: readFile_def)
          from kept [OF this] ne show ?thesis
            by (simp add: res readFile_def removeDir_outside)
        qed
        with exists same pc ok tmp show ?thesis
          by auto
      qed
    qed
  qed
qed

lemma clone_failure_keeps:
  assumes "clone fs cp T = (fs', Inl e)"
  shows "(\<forall>dir. fs dir \<noteq> None \<longrightarrow> fs' dir \<noteq> None)
     \<and> (\<forall>dir name data. readFile fs dir name = Some data \<longrightarrow> readFile fs' dir name = Some data)"
proof -
  from clone_failure [OF assms] have dirs: "\<forall>dir. fs dir \<noteq> None \<longrightarrow> fs' dir \<noteq> None"
    by (rule conjunct1)
  have "readFile fs' dir name = Some data" if r: "readFile fs dir name = Some data"
    for dir name data
    using clone_failure_exact [OF assms]
  proof (elim disjE conjE exE)
    assume "fs' = fs"
    with r show ?thesis by simp
  next
    assume "\<forall>dir name. readFile fs' dir name = readFile fs dir name"
    with r show ?thesis by simp
  next
    fix entries pre bad post
    assume linked: "\<forall>name \<in> set pre. name \<noteq> ''restore.pid''
          \<longrightarrow> readFile fs (imagePath (cp\<lparr>container := T\<rparr>)) name = None
            \<and> readFile fs (imagePath cp) name \<noteq> None"
      and reads: "\<forall>dir name. readFile fs' dir name =
          (if dir = imagePath (cp\<lparr>container := T\<rparr>) \<and> name \<in> set pre
              \<and> name \<noteq> ''restore.pid''
           then readFile fs (imagePath cp) name else readFile fs dir name)"
    show ?thesis
    proof (cases "dir = imagePath (cp\<lparr>container := T\<rparr>) \<and> name \<in> set pre
        \<and> name \<noteq> ''restore.pid''")
      case True
      with linked have "readFile fs dir name = None"
        by simp
      with r show ?thesis by simp
    next
      case False
      with reads [rule_format, of dir name] have "readFile fs' dir name = readFile fs dir name"
        by (simp only: if_False)
      with r show ?thesis by simp
    qed
  qed
  then have "\<forall>dir name data. readFile fs dir name = Some data
      \<longrightarrow> readFile fs' dir name = Some data"
    by (intro allI impI)
  with dirs show ?thesis
    by (rule conjI)
qed

lemma example_paths:
  "root containerT = ''/c/ef01''" "checkpointID checkpoint1 = ''cp1''"
  "imagePath checkpoint1 = ''/c/abcd/checkpoints/cp1''"
  "imagePath (checkpoint1\<lparr>container := containerT\<rparr>) = ''/c/ef01/checkpoints/cp1''"
  by (simp_all add: containerT_def checkpoint1_def imagePath_def joinPath_def containerS_def)

lemma mkdirAll_fsStale:
  "mkdirAll fsStale ''/c/ef01'' [''checkpoints'', ''cp1''] = Some fsStale"
  by (simp add: fsStale_def joinPath_def readFile_def ensureDir_def)

lemma link_fsStale:
  "link fsStale ''/c/abcd/checkpoints/cp1'' ''/c/ef01/checkpoints/cp1'' ''pages-1.img''
     = Some fsStale1"
  by (simp add: link_def readFile_def fsStale_def fsStale1_def)

lemma link_fsStale1:
  "link fsStale1 ''/c/abcd/checkpoints/cp1'' ''/c/ef01/checkpoints/cp1'' ''core-1.img'' = None"
  by (simp add: link_def readFile_def fsStale1_def)

lemma clone_fsStale:
  "clone fsStale checkpoint1 containerT
     = (fsStale1, Inl (FileError ''/c/ef01/checkpoints/cp1/core-1.img''))"
proof -
  have listed: "fsStale ''/c/abcd/checkpoints/cp1''
      = Some [(''pages-1.img'', [1]), (''restore.pid'', [52, 50]), (''core-1.img'', [2])]"
    by (simp add: fsStale_def)
  have links: "linkAll fsStale ''/c/abcd/checkpoints/cp1'' ''/c/ef01/checkpoints/cp1''
        [''pages-1.img'', ''restore.pid'', ''core-1.img'']
      = (fsStale1, Some (FileError ''/c/ef01/checkpoints/cp1/core-1.img''))"
    by (simp add: link_fsStale link_fsStale1 joinPath_def)
  show ?thesis
    unfolding clone_def Let_def example_paths
    by (simp add: mkdirAll_fsStale listed links del: mkdirAll.simps linkAll.simps)
qed

lemma mkdirAll_fsFresh:
  "mkdirAll fsFresh ''/c/ef01'' [''checkpoints'', ''cp1'']
     = Some (fsFresh(''/c/ef01/checkpoints'' \<mapsto> [], ''/c/ef01/checkpoints/cp1'' \<mapsto> []))"
  by (simp add: fsFresh_def joinPath_def readFile_def ensureDir_def)

lemma link_fsFresh:
  "link (fsFresh(''/c/ef01/checkpoints'' \<mapsto> [], ''/c/ef01/checkpoints/cp1'' \<mapsto> []))
      ''/c/abcd/checkpoints/cp1'' ''/c/ef01/checkpoints/cp1'' ''pages-1.img''
     = Some fsFresh1"
  by (simp add: link_def readFile_def fsFresh_def fsFresh1_def)

lemma clone_fsFresh:
  "clone fsFresh checkpoint1 containerT = (fsFresh1, Inr (checkpoint1\<lparr>container := containerT\<rparr>))"
proof -
  have listed: "(fsFresh(''/c/ef01/checkpoints'' \<mapsto> [], ''/c/ef01/checkpoints/cp1'' \<mapsto> []))
        ''/c/abcd/checkpoints/cp1''
      = Some [(''pages-1.img'', [1]), (''restore.pid'', [52, 50])]"
    by (simp add: fsFresh_def)
  have links: "linkAll (fsFresh(''/c/ef01/checkpoints'' \<mapsto> [], ''/c/ef01/checkpoints/cp1'' \<mapsto> []))
        ''/c/abcd/checkpoints/cp1'' ''/c/ef01/checkpoints/cp1'' [''pages-1.img'', ''restore.pid'']
      = (fsFresh1, None)"
    by (simp add: link_fsFresh)
  show ?thesis
    unfolding clone_def Let_def example_paths
    by (simp add: mkdirAll_fsFresh listed links del: mkdirAll.simps linkAll.simps fun_upd_apply)
qed

lemma patchCriu_fsLinked:
  "patchCriu extA (fsLinked(''/tmp/p1'' \<mapsto> []))
      (patchImageArgs (checkpoint1\<lparr>container := containerT\<rparr>) ''/tmp/p1'')
     = Some (fsLinked(''/tmp/p1'' \<mapsto> []),
             Some (FileError ''/c/ef01/checkpoints/cp1/ifaddr-8.img''))"
proof -
  have args: "patchImageArgs (checkpoint1\<lparr>container := containerT\<rparr>) ''/tmp/p1''
      = [''/c/ef01/checkpoints/cp1'', ''/tmp/p1'', ''ip=172.17.0.3'', ''mac=0242ac110003'']"
    by (simp add: patchImageArgs_def stringsReplace_colon checkpoint1_def containerT_def
        imagePath_def joinPath_def)
  have kv: "splitN2 ''ip=172.17.0.3'' ''='' = [''ip'', ''172.17.0.3'']"
    by (simp add: splitN2_def)
  have missing: "readFile (fsLinked(''/tmp/p1'' \<mapsto> [])) ''/c/ef01/checkpoints/cp1''
        ''ifaddr-8.img'' = None"
    by (simp add: readFile_def fsLinked_def)
  have ip: "applyDirective extA (fsLinked(''/tmp/p1'' \<mapsto> [])) ''/c/ef01/checkpoints/cp1''
        ''/tmp/p1'' ''ip=172.17.0.3''
      = Some (fsLinked(''/tmp/p1'' \<mapsto> []),
              Some (FileError ''/c/ef01/checkpoints/cp1/ifaddr-8.img''))"
    by (simp add: applyDirective_def kv rewriteIPAddress_def missing joinPath_def)
  show ?thesis
    by (simp add: patchCriu_def args ip)
qed

lemma patchImage_fsLinked:
  "patchImage extA (Some ''/tmp/p1'') fsLinked (checkpoint1\<lparr>container := containerT\<rparr>)
     = Some (fsLinked, Some (FileError ''/c/ef01/checkpoints/cp1/ifaddr-8.img''))"
proof -
  have gone: "removeDir (fsLinked(''/tmp/p1'' \<mapsto> [])) ''/tmp/p1'' = fsLinked"
    by (simp add: removeDir_def fsLinked_def)
  show ?thesis
    by (simp add: patchImage_def patchCriu_fsLinked gone)
qed

text \<open>
  Claim C6, as stated: when a step of the clone fails, the partially created target image
  directory is removed.  When the image directory of the source checkpoint cannot be
  opened, the clone fails after the target directory was created; the handler reports the
  error, and the target directory is still there.
\<close>

theorem clone_failure_counterexample:
  "ContainerRestore restoreEnv fsLost \<lparr>Name = ''restore'', Args = [''abcd'', ''cp1'']\<rparr> True
     = (fsLost1, StatusErr ''open /c/abcd/checkpoints/cp1'')
   \<and> \<not> targetImageDirRemoved fsLost1 checkpoint1 containerT"
proof -
  have "ContainerRestore restoreEnv fsLost \<lparr>Name = ''restore'', Args = [''abcd'', ''cp1'']\<rparr> True
     = (fsLost1, StatusErr ''open /c/abcd/checkpoints/cp1'')"
    by (simp add: ContainerRestore_def restoreEnv_def cloneContainer_def clone_fsLost Let_def)
  moreover have "\<not> targetImageDirRemoved fsLost1 checkpoint1 containerT"
    by (simp add: targetImageDirRemoved_def imagePath_def joinPath_def containerT_def
        checkpoint1_def fsLost1_def)
  ultimately show ?thesis
    by simp
qed

text \<open>
  Claim C6, amended: when the clone of a checkpoint fails, the restore job returns the
  error to its caller with the file system as the clone left it, and nothing is removed:
  every directory that existed still exists and every file that existed holds what it
  held.  If the creation of the target image directory fails, the file system is as it
  was.  Otherwise the directories are those that existed, the root of the target
  container, its \<open>checkpoints\<close> directory and the target image directory; if the source
  image directory cannot be opened, every file reads as before; if a hard link fails, on
  an entry \<open>bad\<close> of the listing of the source image directory, then for every entry
  listed before \<open>bad\<close> other than \<open>restore.pid\<close> the target image directory holds, under
  a name that was free, the contents of the source file, and every other file reads as
  before.  When the clone succeeds and the restore of the cloned container fails, the job
  returns that error with the file system as the restore left it.  When \<open>patchImage\<close>
  fails, the image directory it was run on still exists and still holds every file name it
  held, and every directory other than the image directory and the temporary directory is
  as it was; when it is the rewriter that fails, every directory other than the temporary
  directory is as it was.
\<close>

theorem clone_failure_leaves_target_dir:
  "(length (Args job) = 2 \<and> getContainer d (Args job ! 0) = Some c
      \<and> checkpointsOf d c (Args job ! 1) = Some cp \<and> daemonCreate d c = Inr T
      \<and> clone fs cp T = (fs', Inl e)
    \<longrightarrow> ContainerRestore d fs job True = (fs', StatusErr (errorText d e))
        \<and> (\<forall>dir. fs dir \<noteq> None \<longrightarrow> fs' dir \<noteq> None)
        \<and> (\<forall>dir name data. readFile fs dir name = Some data
              \<longrightarrow> readFile fs' dir name = Some data)
        \<and> ((mkdirAll fs (root T) [''checkpoints'', checkpointID cp] = None \<and> fs' = fs
              \<and> e = FileError (imagePath (cp\<lparr>container := T\<rparr>)))
           \<or> (mkdirAll fs (root T) [''checkpoints'', checkpointID cp] \<noteq> None
              \<and> (\<forall>dir. (fs' dir \<noteq> None) =
                    (fs dir \<noteq> None \<or> dir = root T \<or> dir = joinPath (root T) ''checkpoints''
                     \<or> dir = imagePath (cp\<lparr>container := T\<rparr>)))
              \<and> ((fs (imagePath cp) = None \<and> fs' (imagePath cp) = None
                    \<and> e = FileError (imagePath cp)
                    \<and> (\<forall>dir name. readFile fs' dir name = readFile fs dir name))
                 \<or> (\<exists>entries pre bad post.
                       fs (imagePath cp) = Some entries \<and> map fst entries = pre @ bad # post
                     \<and> bad \<noteq> ''restore.pid''
                     \<and> e = FileError (joinPath (imagePath (cp\<lparr>container := T\<rparr>)) bad)
                     \<and> link fs' (imagePath cp) (imagePath (cp\<lparr>container := T\<rparr>)) bad = None
                     \<and> (\<forall>name \<in> set pre. name \<noteq> ''restore.pid''
                           \<longrightarrow> readFile fs (imagePath (cp\<lparr>container := T\<rparr>)) name = None
                             \<and> readFile fs (imagePath cp) name \<noteq> None)
                     \<and> (\<forall>dir name. readFile fs' dir name =
                           (if dir = imagePath (cp\<lparr>container := T\<rparr>) \<and> name \<in> set pre
                               \<and> name \<noteq> ''restore.pid''
                            then readFile fs (imagePath cp) name
                            else readFile fs dir name)))))))
   \<and> (length (Args job) = 2 \<and> getContainer d (Args job ! 0) = Some c
        \<and> checkpointsOf d c (Args job ! 1) = Some cp \<and> daemonCreate d c = Inr T
        \<and> clone fs cp T = (fs', Inr cloned)
        \<and> containerRestore d fs' T cloned True = (fs'', Some err)
      \<longrightarrow> ContainerRestore d fs job True
            = (fs'', StatusErr (''Cannot restore container '' @ Args job ! 0 @ '': '' @ err)))
   \<and> (patchImage x tempDir fs0 cp0 = Some (fs1, Some e1) \<and> fs0 (imagePath cp0) \<noteq> None
        \<and> (\<forall>tmpdir. tempDir = Some tmpdir \<longrightarrow> fs0 tmpdir = None)
      \<longrightarrow> fs1 (imagePath cp0) \<noteq> None
        \<and> (\<forall>name. readFile fs0 (imagePath cp0) name \<noteq> None
              \<longrightarrow> readFile fs1 (imagePath cp0) name \<noteq> None)
        \<and> (\<forall>dir. dir \<noteq> imagePath cp0 \<and> tempDir \<noteq> Some dir \<longrightarrow> fs1 dir = fs0 dir)
        \<and> (tempDir = None \<longrightarrow> fs1 = fs0)
        \<and> (\<forall>tmpdir fsr e2. tempDir = Some tmpdir
              \<and> patchCriu x (fs0(tmpdir \<mapsto> [])) (patchImageArgs cp0 tmpdir)
                  = Some (fsr, Some e2)
            \<longrightarrow> e1 = e2 \<and> fs1 = removeDir fsr tmpdir
              \<and> (\<forall>dir. dir \<noteq> tmpdir \<longrightarrow> fs1 dir = fs0 dir)))"
proof -
  have first: "ContainerRestore d fs job True = (fs', StatusErr (errorText d e))
        \<and> (\<forall>dir. fs dir \<noteq> None \<longrightarrow> fs' dir \<noteq> None)
        \<and> (\<forall>dir name data. readFile fs dir name = Some data
              \<longrightarrow> readFile fs' dir name = Some data)
        \<and> ((mkdirAll fs (root T) [''checkpoints'', checkpointID cp] = None \<and> fs' = fs
              \<and> e = FileError (imagePath (cp\<lparr>container := T\<rparr>)))
           \<or> (mkdirAll fs (root T) [''checkpoints'', checkpointID cp] \<noteq> None
              \<and> (\<forall>dir. (fs' dir \<noteq> None) =
                    (fs dir \<noteq> None \<or> dir = root T \<or> dir = joinPath (root T) ''checkpoints''
                     \<or> dir = imagePath (cp\<lparr>container := T\<rparr>)))
              \<and> ((fs (imagePath cp) = None \<and> fs' (imagePath cp) = None
                    \<and> e = FileError (imagePath cp)
                    \<and> (\<forall>dir name. readFile fs' dir name = readFile fs dir name))
                 \<or> (\<exists>entries pre bad post.
                       fs (imagePath cp) = Some entries \<and> map fst entries = pre @ bad # post
                     \<and> bad \<noteq> ''restore.pid''
                     \<and> e = FileError (joinPath (imagePath (cp\<lparr>container := T\<rparr>)) bad)
                     \<and> link fs' (imagePath cp) (imagePath (cp\<lparr>container := T\<rparr>)) bad = None
                     \<and> (\<forall>name \<in> set pre. name \<noteq> ''restore.pid''
                           \<longrightarrow> readFile fs (imagePath (cp\<lparr>container := T\<rparr>)) name = None
                             \<and> readFile fs (imagePath cp) name \<noteq> None)
                     \<and> (\<forall>dir name. readFile fs' dir name =
                           (if dir = imagePath (cp\<lparr>container := T\<rparr>) \<and> name \<in> set pre
                               \<and> name \<noteq> ''restore.pid''
                            then readFile fs (imagePath cp) name
                            else readFile fs dir name))))))"
    if a: "length (Args job) = 2 \<and> getContainer d (Args job ! 0) = Some c
      \<and> checkpointsOf d c (Args job ! 1) = Some cp \<and> daemonCreate d c = Inr T
      \<and> clone fs cp T = (fs', Inl e)"
  proof -
    from a have status: "ContainerRestore d fs job True = (fs', StatusErr (errorText d e))"
      by (simp add: ContainerRestore_def cloneContainer_def Let_def)
    from a have failed: "clone fs cp T = (fs', Inl e)"
      by simp
    note kept = clone_failure_keeps [OF failed]
    from status kept [THEN conjunct1] kept [THEN conjunct2] clone_failure_exact [OF failed]
    show ?thesis
      by (intro conjI)
  qed
  have second: "ContainerRestore d fs job True
            = (fs'', StatusErr (''Cannot restore container '' @ Args job ! 0 @ '': '' @ err))"
    if "length (Args job) = 2 \<and> getContainer d (Args job ! 0) = Some c
        \<and> checkpointsOf d c (Args job ! 1) = Some cp \<and> daemonCreate d c = Inr T
        \<and> clone fs cp T = (fs', Inr cloned)
        \<and> containerRestore d fs' T cloned True = (fs'', Some err)"
    using that
    by (simp add: ContainerRestore_def cloneContainer_def finishRestore_def Let_def)
  have third: "fs1 (imagePath cp0) \<noteq> None
        \<and> (\<forall>name. readFile fs0 (imagePath cp0) name \<noteq> None
              \<longrightarrow> readFile fs1 (imagePath cp0) name \<noteq> None)
        \<and> (\<forall>dir. dir \<noteq> imagePath cp0 \<and> tempDir \<noteq> Some dir \<longrightarrow> fs1 dir = fs0 dir)
        \<and> (tempDir = None \<longrightarrow> fs1 = fs0)
        \<and> (\<forall>tmpdir fsr e2. tempDir = Some tmpdir
              \<and> patchCriu x (fs0(tmpdir \<mapsto> [])) (patchImageArgs cp0 tmpdir)
                  = Some (fsr, Some e2)
            \<longrightarrow> e1 = e2 \<and> fs1 = removeDir fsr tmpdir
              \<and> (\<forall>dir. dir \<noteq> tmpdir \<longrightarrow> fs1 dir = fs0 dir))"
    if b: "patchImage x tempDir fs0 cp0 = Some (fs1, Some e1) \<and> fs0 (imagePath cp0) \<noteq> None
        \<and> (\<forall>tmpdir. tempDir = Some tmpdir \<longrightarrow> fs0 tmpdir = None)"
  proof (rule patchImage_failure)
    from b show "patchImage x tempDir fs0 cp0 = Some (fs1, Some e1)"
      by (rule conjunct1)
    from b show "fs0 (imagePath cp0) \<noteq> None"
      by simp
    from b show "\<forall>tmpdir. tempDir = Some tmpdir \<longrightarrow> fs0 tmpdir = None"
      by simp
  qed
  show ?thesis
    apply (rule conjI)
     apply (rule impI)
     apply (erule first)
    apply (rule conjI)
     apply (rule impI)
     apply (erule second)
    apply (rule impI)
    apply (erule third)
    done
qed

theorem clone_failure_leaves_target_dir_witness:
  "ContainerRestore restoreEnvF fsStale \<lparr>Name = ''restore'', Args = [''abcd'', ''cp1'']\<rparr> True
     = (fsStale1, StatusErr ''link /c/ef01/checkpoints/cp1/core-1.img'')
   \<and> readFile fsStale1 ''/c/ef01/checkpoints/cp1'' ''pages-1.img'' = Some [1]
   \<and> readFile fsStale1 ''/c/ef01/checkpoints/cp1'' ''core-1.img'' = Some [9]
   \<and> readFile fsStale1 ''/c/ef01/checkpoints/cp1'' ''restore.pid'' = None
   \<and> ContainerRestore restoreEnvF fsFresh \<lparr>Name = ''restore'', Args = [''abcd'', ''cp1'']\<rparr> True
       = (fsFresh1, StatusErr ''Cannot restore container abcd: exit status 1'')
   \<and> patchImage extA (Some ''/tmp/p1'') fsLinked (checkpoint1\<lparr>container := containerT\<rparr>)
       = Some (fsLinked, Some (FileError ''/c/ef01/checkpoints/cp1/ifaddr-8.img''))
   \<and> fsLinked ''/c/ef01/checkpoints/cp1'' \<noteq> None
   \<and> readFile fsLinked ''/c/ef01/checkpoints/cp1'' ''pages-1.img'' = Some [1]"
proof -
  note failing = clone_failure_leaves_target_dir
    [where job = "\<lparr>Name = ''restore'', Args = [''abcd'', ''cp1'']\<rparr>" and d = restoreEnvF
       and c = containerS and cp = checkpoint1 and T = containerT and fs = fsStale
       and fs' = fsStale1 and e = "FileError ''/c/ef01/checkpoints/cp1/core-1.img''"
       and cloned = "checkpoint1\<lparr>container := containerT\<rparr>" and fs'' = fsStale1
       and err = "''exit status 1''"
       and x = extA and tempDir = "Some ''/tmp/p1''" and ?fs0.0 = fsLinked
       and ?cp0.0 = "checkpoint1\<lparr>container := containerT\<rparr>" and ?fs1.0 = fsLinked
       and ?e1.0 = "FileError ''/c/ef01/checkpoints/cp1/ifaddr-8.img''"]
  note restoring = clone_failure_leaves_target_dir
    [where job = "\<lparr>Name = ''restore'', Args = [''abcd'', ''cp1'']\<rparr>" and d = restoreEnvF
       and c = containerS and cp = checkpoint1 and T = containerT and fs = fsFresh
       and fs' = fsFresh1 and e = "FileError ''/c/ef01/checkpoints/cp1/core-1.img''"
       and cloned = "checkpoint1\<lparr>container := containerT\<rparr>" and fs'' = fsFresh1
       and err = "''exit status 1''"
       and x = extA and tempDir = "Some ''/tmp/p1''" and ?fs0.0 = fsLinked
       and ?cp0.0 = "checkpoint1\<lparr>container := containerT\<rparr>" and ?fs1.0 = fsLinked
       and ?e1.0 = "FileError ''/c/ef01/checkpoints/cp1/ifaddr-8.img''"]
  have job1: "length (Args \<lparr>Name = ''restore'', Args = [''abcd'', ''cp1'']\<rparr>) = 2
      \<and> getContainer restoreEnvF (Args \<lparr>Name = ''restore'', Args = [''abcd'', ''cp1'']\<rparr> ! 0)
          = Some containerS
      \<and> checkpointsOf restoreEnvF containerS
          (Args \<lparr>Name = ''restore'', Args = [''abcd'', ''cp1'']\<rparr> ! 1) = Some checkpoint1
      \<and> daemonCreate restoreEnvF containerS = Inr containerT
      \<and> clone fsStale checkpoint1 containerT
          = (fsStale1, Inl (FileError ''/c/ef01/checkpoints/cp1/core-1.img''))"
    by (simp add: restoreEnvF_def restoreEnv_def clone_fsStale)
  have job2: "length (Args \<lparr>Name = ''restore'', Args = [''abcd'', ''cp1'']\<rparr>) = 2
      \<and> getContainer restoreEnvF (Args \<lparr>Name = ''restore'', Args = [''abcd'', ''cp1'']\<rparr> ! 0)
          = Some containerS
      \<and> checkpointsOf restoreEnvF containerS
          (Args \<lparr>Name = ''restore'', Args = [''abcd'', ''cp1'']\<rparr> ! 1) = Some checkpoint1
      \<and> daemonCreate restoreEnvF containerS = Inr containerT
      \<and> clone fsFresh checkpoint1 containerT
          = (fsFresh1, Inr (checkpoint1\<lparr>container := containerT\<rparr>))
      \<and> containerRestore restoreEnvF fsFresh1 containerT
            (checkpoint1\<lparr>container := containerT\<rparr>) True
          = (fsFresh1, Some ''exit status 1'')"
    by (simp add: restoreEnvF_def restoreEnv_def clone_fsFresh)
  have rewrite: "patchImage extA (Some ''/tmp/p1'') fsLinked (checkpoint1\<lparr>container := containerT\<rparr>)
        = Some (fsLinked, Some (FileError ''/c/ef01/checkpoints/cp1/ifaddr-8.img''))
      \<and> fsLinked (imagePath (checkpoint1\<lparr>container := containerT\<rparr>)) \<noteq> None
      \<and> (\<forall>tmpdir. Some ''/tmp/p1'' = Some tmpdir \<longrightarrow> fsLinked tmpdir = None)"
    by (simp add: patchImage_fsLinked example_paths) (simp add: fsLinked_def)
  note failed = failing [THEN conjunct1, THEN mp, OF job1]
  note status = failed [THEN conjunct1]
  note kept = failed [THEN conjunct2, THEN conjunct2, THEN conjunct1]
  note shape = failed [THEN conjunct2, THEN conjunct2, THEN conjunct2]
  have text1: "errorText restoreEnvF (FileError ''/c/ef01/checkpoints/cp1/core-1.img'')
      = ''link /c/ef01/checkpoints/cp1/core-1.img''"
    by (simp add: restoreEnvF_def)
  from status have first: "ContainerRestore restoreEnvF fsStale
        \<lparr>Name = ''restore'', Args = [''abcd'', ''cp1'']\<rparr> True
      = (fsStale1, StatusErr ''link /c/ef01/checkpoints/cp1/core-1.img'')"
    by (simp only: text1)
  have stale: "readFile fsStale ''/c/ef01/checkpoints/cp1'' ''core-1.img'' = Some [9]"
    by (simp add: readFile_def fsStale_def)
  from kept [rule_format, OF stale]
  have core: "readFile fsStale1 ''/c/ef01/checkpoints/cp1'' ''core-1.img'' = Some [9]" .
  have made: "mkdirAll fsStale (root containerT) [''checkpoints'', checkpointID checkpoint1]
      \<noteq> None"
    by (simp add: example_paths mkdirAll_fsStale del: mkdirAll.simps)
  have opened: "fsStale (imagePath checkpoint1) \<noteq> None"
    by (simp add: example_paths fsStale_def)
  have links: "readFile fsStale1 ''/c/ef01/checkpoints/cp1'' ''pages-1.img'' = Some [1]
      \<and> readFile fsStale1 ''/c/ef01/checkpoints/cp1'' ''restore.pid'' = None"
    using shape
  proof (elim disjE conjE exE)
    assume "mkdirAll fsStale (root containerT) [''checkpoints'', checkpointID checkpoint1] = None"
    with made show ?thesis by contradiction
  next
    assume "fsStale (imagePath checkpoint1) = None"
    with opened show ?thesis by contradiction
  next
    fix entries pre bad post
    assume listed: "fsStale (imagePath checkpoint1) = Some entries"
      and parts: "map fst entries = pre @ bad # post"
      and failure: "FileError ''/c/ef01/checkpoints/cp1/core-1.img''
          = FileError (joinPath (imagePath (checkpoint1\<lparr>container := containerT\<rparr>)) bad)"
      and reads: "\<forall>dir name. readFile fsStale1 dir name =
          (if dir = imagePath (checkpoint1\<lparr>container := containerT\<rparr>) \<and> name \<in> set pre
              \<and> name \<noteq> ''restore.pid''
           then readFile fsStale (imagePath checkpoint1) name else readFile fsStale dir name)"
    from listed have entries: "entries
        = [(''pages-1.img'', [1]), (''restore.pid'', [52, 50]), (''core-1.img'', [2])]"
      by (simp add: example_paths fsStale_def)
    from failure have bad: "bad = ''core-1.img''"
      by (simp add: example_paths joinPath_def)
    from parts have pre: "pre = [''pages-1.img'', ''restore.pid'']"
      unfolding entries bad by (auto simp: Cons_eq_append_conv)
    have source: "readFile fsStale ''/c/abcd/checkpoints/cp1'' ''pages-1.img'' = Some [1]"
      "readFile fsStale ''/c/ef01/checkpoints/cp1'' ''restore.pid'' = None"
      by (simp_all add: readFile_def fsStale_def)
    from reads [rule_format, of "''/c/ef01/checkpoints/cp1''" "''pages-1.img''"]
    have one: "readFile fsStale1 ''/c/ef01/checkpoints/cp1'' ''pages-1.img'' = Some [1]"
      by (simp add: example_paths pre source)
    from reads [rule_format, of "''/c/ef01/checkpoints/cp1''" "''restore.pid''"]
    have two: "readFile fsStale1 ''/c/ef01/checkpoints/cp1'' ''restore.pid'' = None"
      by (simp add: example_paths pre source)
    from one two show ?thesis
      by (rule conjI)
  qed
  note second = restoring [THEN conjunct2, THEN conjunct1, THEN mp, OF job2]
  have third: "ContainerRestore restoreEnvF fsFresh
        \<lparr>Name = ''restore'', Args = [''abcd'', ''cp1'']\<rparr> True
      = (fsFresh1, StatusErr ''Cannot restore container abcd: exit status 1'')"
    using second by simp
  note patched = failing [THEN conjunct2, THEN conjunct2, THEN mp, OF rewrite]
  from patched [THEN conjunct1]
  have fourth: "fsLinked ''/c/ef01/checkpoints/cp1'' \<noteq> None"
    by (simp add: example_paths)
  have linked: "readFile fsLinked ''/c/ef01/checkpoints/cp1'' ''pages-1.img'' \<noteq> None"
    by (simp add: readFile_def fsLinked_def)
  from patched [THEN conjunct2, THEN conjunct1, rule_format, of "''pages-1.img''"] linked
  have fifth: "readFile fsLinked ''/c/ef01/checkpoints/cp1'' ''pages-1.img'' = Some [1]"
    by (simp add: example_paths readFile_def fsLinked_def)
  from first links [THEN conjunct1] core links [THEN conjunct2] third rewrite [THEN conjunct1]
    fourth fifth
  show ?thesis
    by (intro conjI)
qed


subsection \<open>The rewriter: substituting an address by itself\<close>

lemma bytesIndex_Some:
  "bytesIndex data sep = Some pos \<Longrightarrow>
   take (length sep) (drop pos data) = sep \<and> pos + length sep \<le> length data"
proof (induction data arbitrary: pos)
  case Nil
  then show ?case by (simp split: if_splits)
next
  case (Cons b bs)
  show ?case
  proof (cases "take (length sep) (b # bs) = sep")
    case True
    then have "pos = 0" using Cons.prems by simp
    moreover have "length sep \<le> length (b # bs)"
      using arg_cong [OF True, of length] by simp
    ultimately show ?thesis using True by simp
  next
    case False
    then obtain p where "bytesIndex bs sep = Some p" "pos = Suc p"
      using Cons.prems by auto
    then show ?thesis using Cons.IH [of p] by simp
  qed
qed

lemma copyAt_same:
  assumes "bytesIndex data sep = Some pos"
  shows "copyAt data pos sep = data"
proof -
  from bytesIndex_Some [OF assms]
  have t: "take (length sep) (drop pos data) = sep" and l: "pos + length sep \<le> length data"
    by auto
  have "take (length data - pos) sep = sep"
    using l by simp
  moreover have "take pos data @ take (length sep) (drop pos data) @ drop (pos + length sep) data
      = data"
    by (metis append_take_drop_id drop_drop add.commute)
  ultimately show ?thesis
    unfolding copyAt_def using t by simp
qed

lemma rewriteBytesLoop_same_diverges:
  assumes "bytesIndex data a = Some pos" and "length data \<le> cp"
  shows "rewriteBytesLoop cp data a a n = None"
proof (cases "rewriteBytesLoop cp data a a n")
  case None
  then show ?thesis .
next
  case (Some r)
  have fits: "\<not> cp < pos + length a"
    using bytesIndex_Some [OF assms(1)] assms(2) by simp
  have "\<not> (cp = cp \<and> data = data \<and> a = a \<and> a = a)"
  proof (rule rewriteBytesLoop.raw_induct
      [where P = "\<lambda>c d f t m r. \<not> (c = cp \<and> d = data \<and> f = a \<and> t = a)", OF _ Some])
    fix rw c d f t m y
    assume IH: "\<And>c d f t m y. rw c d f t m = Some y
        \<Longrightarrow> \<not> (c = cp \<and> d = data \<and> f = a \<and> t = a)"
      and body: "(case bytesIndex d f of
                    None \<Rightarrow> Some (Inr (d, m))
                  | Some pos \<Rightarrow>
                      if c < pos + length t then Some (Inl GoPanic)
                      else rw c (copyAt d pos t) f t (m + 1)) = Some y"
    show "\<not> (c = cp \<and> d = data \<and> f = a \<and> t = a)"
    proof
      assume eq: "c = cp \<and> d = data \<and> f = a \<and> t = a"
      with body assms(1) fits have "rw cp (copyAt data pos a) a a (m + 1) = Some y"
        by simp
      then have "rw cp data a a (m + 1) = Some y"
        by (simp add: copyAt_same [OF assms(1)])
      from IH [OF this] show False
        by simp
    qed
  qed
  then show ?thesis
    by simp
qed

lemma rewriteBytes_error:
  assumes "rewriteBytes cp data from to = Some (Inl e)"
  shows "e = GoPanic"
proof -
  from assms have run: "rewriteBytesLoop cp data from to 0 = Some (Inl e)"
    by (simp add: rewriteBytes_def)
  have "Inl e = (Inl e' :: rw_error + byte list \<times> int) \<longrightarrow> e' = GoPanic" for e'
  proof (rule rewriteBytesLoop.raw_induct
      [where P = "\<lambda>c d f t m r. r = Inl e' \<longrightarrow> e' = GoPanic", OF _ run])
    fix rw c d f t m y
    assume IH: "\<And>c d f t m y. rw c d f t m = Some y \<Longrightarrow> y = Inl e' \<longrightarrow> e' = GoPanic"
      and body: "(case bytesIndex d f of
                    None \<Rightarrow> Some (Inr (d, m))
                  | Some pos \<Rightarrow>
                      if c < pos + length t then Some (Inl GoPanic)
                      else rw c (copyAt d pos t) f t (m + 1)) = Some y"
    show "y = Inl e' \<longrightarrow> e' = GoPanic"
    proof (cases "bytesIndex d f")
      case None
      with body show ?thesis by auto
    next
      case (Some pos)
      show ?thesis
      proof (cases "c < pos + length t")
        case True
        with Some body show ?thesis by auto
      next
        case False
        with Some body have "rw c (copyAt d pos t) f t (m + 1) = Some y"
          by simp
        from IH [OF this] show ?thesis .
      qed
    qed
  qed
  then show ?thesis
    by simp
qed

subsection \<open>The rewriter: what a failed directive leaves behind\<close>

lemma extA_fields:
  "bigEndian extA = False"
  "ipAddrShowdump extA ifaddrOld = Some ''    inet 172.17.0.2/16 scope global eth0''"
  "ipAddrShowdump extA ifaddrNew = Some ''    inet 10.0.0.5/16 scope global eth0''"
  "findInet extA ''    inet 172.17.0.2/16 scope global eth0'' = Some ''172.17.0.2''"
  "findInet extA ''    inet 10.0.0.5/16 scope global eth0'' = Some ''10.0.0.5''"
  "netParseIP extA ''172.17.0.2'' = Some [172, 17, 0, 2]"
  "netParseIP extA ''10.0.0.5'' = Some [10, 0, 0, 5]"
  "readCap extA = length"
  by (simp_all add: extA_def ifaddrOld_def ifaddrNew_def)

lemma To4_four: "To4 [a, b, c, d] = [a, b, c, d]"
  by (simp add: To4_def)

lemma rewriteBytes_ifaddrOld:
  "rewriteBytes (length ifaddrOld) ifaddrOld [172, 17, 0, 2] [10, 0, 0, 5]
     = Some (Inr (ifaddrNew, 1))"
  by (simp add: rewriteBytes_def rewriteBytesLoop.simps ifaddrOld_def ifaddrNew_def copyAt_def)

lemma rewriteBytes_routeOld:
  "rewriteBytes (length routeOld) routeOld [172, 17, 0, 2] [10, 0, 0, 5]
     = Some (Inr (routeNew, 1))"
  by (simp add: rewriteBytes_def rewriteBytesLoop.simps routeOld_def routeNew_def copyAt_def)

lemma rewriteBytes_routeNoAddr:
  "rewriteBytes (length routeNoAddr) routeNoAddr [172, 17, 0, 2] [10, 0, 0, 5]
     = Some (Inr (routeNoAddr, 0))"
  by (simp add: rewriteBytes_def rewriteBytesLoop.simps routeNoAddr_def copyAt_def)

lemma rewriteBytes_ifaddrOld_absent:
  "rewriteBytes (length ifaddrOld) ifaddrOld [10, 0, 0, 5] [172, 17, 0, 2]
     = Some (Inr (ifaddrOld, 0))"
  by (simp add: rewriteBytes_def rewriteBytesLoop.simps ifaddrOld_def copyAt_def)

lemma fsA_files:
  "readFile fsA ''/img'' ''ifaddr-8.img'' = Some ifaddrOld"
  "readFile fsA ''/img'' ''netdev-8.img'' = Some netdevOld"
  "readFile fsA1 ''/img'' ''route-8.img'' = Some routeNoAddr"
  by (simp_all add: readFile_def fsA_def fsA1_def)

lemma replaceWrite_fsA:
  "replaceWrite fsA ''/out'' ''ifaddr-8.img'' ifaddrNew = (fsA1, None)"
  by (simp add: replaceWrite_def removeFile_def writeFile_def fsA_def fsA1_def Let_def
      fun_upd_twist)

lemma rewriteIPAddress_fsA:
  "rewriteIPAddress extA fsA ''/img'' ''/out'' ''10.0.0.5''
     = Some (fsA1, Some OldAddressNotInRoute)"
  by (simp add: rewriteIPAddress_def fsA_files extA_fields To4_four rewriteBytes_ifaddrOld
      replaceWrite_fsA rewriteBytes_routeNoAddr)

lemma copyRecords_bad_hex:
  "copyRecords (macStep extA ''zz'') False (drop 4 netdevOld) (take 4 netdevOld)
     = ([0x54, 0x4d, 0x49, 0x00], Some HexError)"
  by (simp add: copyRecords.simps netdevOld_def decodeU32_def macStep_def extA_def
      fromHexChar_def)

lemma rewriteMacAddress_fsA:
  "rewriteMacAddress extA fsA ''/img'' ''/out'' ''zz'' = (fsA2, Some HexError)"
proof -
  have created: "writeFile (removeFile fsA ''/out'' ''netdev-8.img'') ''/out'' ''netdev-8.img'' []
      = Some (fsA(''/out'' \<mapsto> [(''ifaddr-8.img'', [1]), (''route-8.img'', [2]),
                                    (''netdev-8.img'', [])]))"
    by (simp add: removeFile_def writeFile_def fsA_def)
  have written: "putFile (fsA(''/out'' \<mapsto> [(''ifaddr-8.img'', [1]), (''route-8.img'', [2]),
                                              (''netdev-8.img'', [])]))
        ''/out'' ''netdev-8.img'' [0x54, 0x4d, 0x49, 0x00] = fsA2"
    by (simp add: putFile_def fsA_def fsA2_def)
  have long: "\<not> length netdevOld < 4"
    by (simp add: netdevOld_def)
  show ?thesis
    by (simp add: rewriteMacAddress_def rewriteRecords_def fsA_files extA_fields created
        long copyRecords_bad_hex written Let_def)
qed

lemma length_copyAt:
  "bytesIndex d f = Some pos \<Longrightarrow> length (copyAt d pos t) = length d"
  using bytesIndex_Some [of d f pos] by (auto simp: copyAt_def min_def)

lemma rewriteBytes_result:
  assumes "rewriteBytes cp src from to = Some (Inr (data, n))"
  shows "bytesIndex data from = None \<and> length data = length src"
proof -
  from assms have run: "rewriteBytesLoop cp src from to 0 = Some (Inr (data, n))"
    by (simp add: rewriteBytes_def)
  have "Inr (data, n) = (Inr (data', n') :: rw_error + byte list \<times> int)
      \<longrightarrow> bytesIndex data' from = None \<and> length data' = length src" for data' n'
  proof (rule rewriteBytesLoop.raw_induct
      [where P = "\<lambda>c d f t m r. r = Inr (data', n')
                     \<longrightarrow> bytesIndex data' f = None \<and> length data' = length d", OF _ run])
    fix rw c d f t m y
    assume IH: "\<And>c d f t m y. rw c d f t m = Some y \<Longrightarrow>
        y = Inr (data', n') \<longrightarrow> bytesIndex data' f = None \<and> length data' = length d"
      and body: "(case bytesIndex d f of
                    None \<Rightarrow> Some (Inr (d, m))
                  | Some pos \<Rightarrow>
                      if c < pos + length t then Some (Inl GoPanic)
                      else rw c (copyAt d pos t) f t (m + 1)) = Some y"
    show "y = Inr (data', n') \<longrightarrow> bytesIndex data' f = None \<and> length data' = length d"
    proof (cases "bytesIndex d f")
      case None
      with body show ?thesis by auto
    next
      case (Some pos)
      show ?thesis
      proof (cases "c < pos + length t")
        case True
        with Some body show ?thesis by auto
      next
        case False
        with Some body have "rw c (copyAt d pos t) f t (m + 1) = Some y"
          by simp
        from IH [OF this] show ?thesis
          by (simp add: length_copyAt [OF Some])
      qed
    qed
  qed
  then show ?thesis
    by simp
qed

lemma copyRecords_records:
  assumes "\<forall>(sz, body) \<in> set recs. length sz = 4 \<and> decodeU32 be sz = length body
             \<and> step body = Inr (re body)"
  shows "copyRecords step be (concat (map (\<lambda>(sz, body). sz @ body) recs) @ rest) out =
         copyRecords step be rest
           (out @ concat (map (\<lambda>(sz, body). encodeU32 be (length (re body)) @ re body) recs))"
  using assms
proof (induction recs arbitrary: out)
  case Nil
  then show ?case by simp
next
  case (Cons r recs)
  obtain sz body where r: "r = (sz, body)" by (cases r)
  with Cons.prems have sz: "length sz = 4" and dec: "decodeU32 be sz = length body"
    and st: "step body = Inr (re body)"
    and others: "\<forall>(sz, body) \<in> set recs. length sz = 4 \<and> decodeU32 be sz = length body
             \<and> step body = Inr (re body)"
    by auto
  let ?input = "concat (map (\<lambda>(sz, body). sz @ body) (r # recs)) @ rest"
  let ?tail = "concat (map (\<lambda>(sz, body). sz @ body) recs) @ rest"
  have input: "?input = sz @ body @ ?tail"
    by (simp add: r)
  have parts: "sz @ body @ ?tail \<noteq> []" "\<not> length (sz @ body @ ?tail) < 4"
    "take 4 (sz @ body @ ?tail) = sz" "drop 4 (sz @ body @ ?tail) = body @ ?tail"
    using sz by auto
  have "copyRecords step be ?input out =
        copyRecords step be ?tail (out @ encodeU32 be (length (re body)) @ re body)"
    unfolding input
    by (subst copyRecords.simps) (simp only: parts Let_def if_False dec, simp add: st)
  also have "\<dots> = copyRecords step be rest
      ((out @ encodeU32 be (length (re body)) @ re body)
       @ concat (map (\<lambda>(sz, body). encodeU32 be (length (re body)) @ re body) recs))"
    by (rule Cons.IH [OF others])
  finally show ?case
    by (simp add: r)
qed

lemma copyRecords_fails:
  assumes "length sz = 4" and "decodeU32 be sz = length body" and "step body = Inl e"
  shows "copyRecords step be (sz @ body @ rest) out = (out, Some e)"
proof -
  have parts: "sz @ body @ rest \<noteq> []" "\<not> length (sz @ body @ rest) < 4"
    "take 4 (sz @ body @ rest) = sz" "drop 4 (sz @ body @ rest) = body @ rest"
    using assms(1) by auto
  show ?thesis
    by (subst copyRecords.simps) (simp only: parts Let_def if_False assms(2), simp add: assms(3))
qed

lemma rewriteRecords_reads:
  assumes "readFile fs srcPath name = Some src" and "fs destPath \<noteq> None"
    and "\<not> length src < 4"
    and "copyRecords step be (drop 4 src) (take 4 src) = (out, err)"
  shows "\<exists>fs3. rewriteRecords step be fs srcPath destPath name = (fs3, err)
     \<and> (\<forall>dir name'. readFile fs3 dir name' =
           (if dir = destPath \<and> name' = name then Some out else readFile fs dir name'))"
proof -
  obtain entries where entries: "fs destPath = Some entries"
    using assms(2) by auto
  have created: "writeFile (removeFile fs destPath name) destPath name []
      = Some (fs(destPath \<mapsto> AList.update name [] (AList.delete name entries)))"
    by (simp add: writeFile_def removeFile_def entries)
  let ?fs2 = "fs(destPath \<mapsto> AList.update name [] (AList.delete name entries))"
  have result: "rewriteRecords step be fs srcPath destPath name
      = (putFile ?fs2 destPath name out, err)"
    by (simp add: rewriteRecords_def assms(1,3,4) created Let_def)
  have reads: "readFile (putFile ?fs2 destPath name out) dir name' =
      (if dir = destPath \<and> name' = name then Some out else readFile fs dir name')" for dir name'
    by (simp add: readFile_putFile_all) (auto simp: readFile_def entries update_conv delete_conv)
  from result reads show ?thesis
    by blast
qed

lemma rewriteIPAddress_route_failure:
  assumes a: "rewriteIPAddress x fs srcPath destPath ip = Some (fs2, Some OldAddressNotInRoute)"
  shows "\<exists>src dump found parsed data replaced.
          readFile fs srcPath ''ifaddr-8.img'' = Some src
        \<and> ipAddrShowdump x src = Some dump \<and> findInet x dump = Some found
        \<and> netParseIP x ip = Some parsed
        \<and> rewriteBytes (readCap x src) src
              (To4 (case netParseIP x found of None \<Rightarrow> [] | Some a \<Rightarrow> a)) (To4 parsed)
            = Some (Inr (data, replaced))
        \<and> 1 \<le> replaced \<and> length data = length src
        \<and> bytesIndex data (To4 (case netParseIP x found of None \<Rightarrow> [] | Some a \<Rightarrow> a)) = None
        \<and> (\<forall>dir name. readFile fs2 dir name =
              (if dir = destPath \<and> name = ''ifaddr-8.img'' then Some data
               else readFile fs dir name))"
proof -
  from a obtain src where src: "readFile fs srcPath ''ifaddr-8.img'' = Some src"
    by (cases "readFile fs srcPath ''ifaddr-8.img''") (auto simp: rewriteIPAddress_def)
  from a src obtain dump where dump: "ipAddrShowdump x src = Some dump"
    by (cases "ipAddrShowdump x src") (auto simp: rewriteIPAddress_def)
  from a src dump obtain found where found: "findInet x dump = Some found"
    by (cases "findInet x dump") (auto simp: rewriteIPAddress_def)
  from a src dump found obtain parsed where parsed: "netParseIP x ip = Some parsed"
    by (cases "netParseIP x ip") (auto simp: rewriteIPAddress_def Let_def)
  let ?old = "To4 (case netParseIP x found of None \<Rightarrow> [] | Some a \<Rightarrow> a)"
  from a src dump found parsed obtain rb where
    rb: "rewriteBytes (readCap x src) src ?old (To4 parsed) = Some rb"
    by (cases "rewriteBytes (readCap x src) src ?old (To4 parsed)")
      (auto simp: rewriteIPAddress_def Let_def)
  from a src dump found parsed rb obtain data replaced where
    ok: "rb = Inr (data, replaced)"
    by (cases rb) (auto simp: rewriteIPAddress_def Let_def dest: rewriteBytes_error)
  from a src dump found parsed rb ok have count: "1 \<le> replaced"
    by (auto simp: rewriteIPAddress_def Let_def split: if_splits)
  obtain fsw rw where w: "replaceWrite fs destPath ''ifaddr-8.img'' data = (fsw, rw)"
    by (cases "replaceWrite fs destPath ''ifaddr-8.img'' data")
  from a src dump found parsed rb ok count w have "rw = None \<and> fsw = fs2"
    by (auto simp: rewriteIPAddress_def Let_def
        split: option.splits sum.splits prod.splits if_splits
        dest: rewriteBytes_error replaceWrite_error)
  with w have w2: "replaceWrite fs destPath ''ifaddr-8.img'' data = (fs2, None)"
    by simp
  from rewriteBytes_result [OF rb [unfolded ok]]
  have pinned: "bytesIndex data ?old = None" "length data = length src"
    by auto
  from src dump found parsed rb [unfolded ok] count pinned replaceWrite_ok [OF w2]
  show ?thesis
    by blast
qed

lemma macStep_other:
  assumes "unmarshalNetDev x body = Some device" and "devName device \<noteq> Some ''eth0''"
    and "marshalNetDev x device = Some data"
  shows "macStep x mac body = Inr data"
  using assms by (simp add: macStep_def)

lemma macStep_bad_hex:
  assumes "unmarshalNetDev x body = Some device" and "devName device = Some ''eth0''"
    and "hexDecodeString mac = None"
  shows "macStep x mac body = Inl HexError"
  using assms by (simp add: macStep_def)

lemma rewriteMacAddress_bad_hex:
  assumes src: "readFile fs srcPath ''netdev-8.img''
        = Some (header @ concat (map (\<lambda>(sz, body). sz @ body) before) @ szBad @ bad @ rest)"
    and header: "length header = 4" and dest: "fs destPath \<noteq> None"
    and before: "\<forall>(sz, body) \<in> set before. length sz = 4
          \<and> decodeU32 (bigEndian x) sz = length body
          \<and> (\<exists>device. unmarshalNetDev x body = Some device
                \<and> devName device \<noteq> Some ''eth0'' \<and> marshalNetDev x device = Some (re body))"
    and szBad: "length szBad = 4" "decodeU32 (bigEndian x) szBad = length bad"
    and bad: "\<exists>device. unmarshalNetDev x bad = Some device \<and> devName device = Some ''eth0''"
    and hex: "hexDecodeString mac = None"
  shows "\<exists>fs3. rewriteMacAddress x fs srcPath destPath mac = (fs3, Some HexError)
     \<and> (\<forall>dir name. readFile fs3 dir name =
           (if dir = destPath \<and> name = ''netdev-8.img''
            then Some (header @ concat (map (\<lambda>(sz, body).
                          encodeU32 (bigEndian x) (length (re body)) @ re body) before))
            else readFile fs dir name))"
proof -
  let ?src = "header @ concat (map (\<lambda>(sz, body). sz @ body) before) @ szBad @ bad @ rest"
  have steps: "\<forall>(sz, body) \<in> set before. length sz = 4
      \<and> decodeU32 (bigEndian x) sz = length body \<and> macStep x mac body = Inr (re body)"
    using before by (auto intro: macStep_other)
  have fails: "macStep x mac bad = Inl HexError"
    using bad hex by (auto intro: macStep_bad_hex)
  have long: "\<not> length ?src < 4" and parts: "take 4 ?src = header"
    "drop 4 ?src = concat (map (\<lambda>(sz, body). sz @ body) before) @ szBad @ bad @ rest"
    using header by auto
  have run: "copyRecords (macStep x mac) (bigEndian x) (drop 4 ?src) (take 4 ?src)
      = (header @ concat (map (\<lambda>(sz, body).
            encodeU32 (bigEndian x) (length (re body)) @ re body) before), Some HexError)"
    unfolding parts
    by (simp only: copyRecords_records [OF steps]
        copyRecords_fails [where step = "macStep x mac" and be = "bigEndian x" and sz = szBad
          and body = bad and e = HexError, OF szBad fails])
  from rewriteRecords_reads [OF src dest long run] show ?thesis
    by (simp add: rewriteMacAddress_def)
qed

text \<open>
  Claim C1, as stated: a directive that fails leaves every destination file it targets
  untouched.  An \<open>ip=\<close> directive whose old address occurs in \<open>ifaddr-8.img\<close> but not in
  \<open>route-8.img\<close> fails after it has replaced the destination's \<open>ifaddr-8.img\<close>; a
  \<open>mac=\<close> directive with invalid hex fails after it has removed the destination's
  \<open>netdev-8.img\<close> and written the header of a new one.
\<close>

theorem failed_directive_counterexample:
  "rewriteIPAddress extA fsA ''/img'' ''/out'' ''10.0.0.5''
     = Some (fsA1, Some OldAddressNotInRoute)
   \<and> \<not> destinationUntouched fsA fsA1 ''/out'' [''ifaddr-8.img'', ''route-8.img'']
   \<and> rewriteMacAddress extA fsA ''/img'' ''/out'' ''zz'' = (fsA2, Some HexError)
   \<and> \<not> destinationUntouched fsA fsA2 ''/out'' [''netdev-8.img'']"
proof -
  have "\<not> destinationUntouched fsA fsA1 ''/out'' [''ifaddr-8.img'', ''route-8.img'']"
    by (simp add: destinationUntouched_def readFile_def fsA_def fsA1_def ifaddrNew_def)
  moreover have "\<not> destinationUntouched fsA fsA2 ''/out'' [''netdev-8.img'']"
    by (simp add: destinationUntouched_def readFile_def fsA_def fsA2_def)
  ultimately show ?thesis
    using rewriteIPAddress_fsA rewriteMacAddress_fsA by simp
qed

text \<open>
  Claim C1, amended: a failed directive may have written to the destination.  When
  \<open>ip=\<close> fails because the old address yields no substitution in \<open>ifaddr-8.img\<close>,
  nothing has been changed.  When it fails because the old address yields no substitution
  in \<open>route-8.img\<close>, the destination's \<open>ifaddr-8.img\<close> has already been replaced: it
  holds the result of substituting the new address for the discovered old address in the
  source's \<open>ifaddr-8.img\<close>, which has the length of the source file, no occurrence of
  the old address and at least one substitution; every other file, the destination's
  \<open>route-8.img\<close> included, reads as before.  When the source's \<open>netdev-8.img\<close> is a
  4-byte header, records for devices other than \<open>eth0\<close> and then a record for \<open>eth0\<close>,
  a \<open>mac=\<close> directive with invalid hex fails on that record after the destination's
  \<open>netdev-8.img\<close> has been removed and created anew: the file holds exactly the header
  followed by the re-encoded records that precede the \<open>eth0\<close> record, and every other
  file reads as before.
\<close>

theorem failed_directive_effects:
  "(rewriteIPAddress x fs srcPath destPath ip = Some (fs1, Some OldAddressNotInIfaddr)
      \<longrightarrow> fs1 = fs)
   \<and> (rewriteIPAddress x fs srcPath destPath ip = Some (fs2, Some OldAddressNotInRoute)
      \<longrightarrow> (\<exists>src dump found parsed data replaced.
              readFile fs srcPath ''ifaddr-8.img'' = Some src
            \<and> ipAddrShowdump x src = Some dump \<and> findInet x dump = Some found
            \<and> netParseIP x ip = Some parsed
            \<and> rewriteBytes (readCap x src) src
                  (To4 (case netParseIP x found of None \<Rightarrow> [] | Some a \<Rightarrow> a)) (To4 parsed)
                = Some (Inr (data, replaced))
            \<and> 1 \<le> replaced \<and> length data = length src
            \<and> bytesIndex data (To4 (case netParseIP x found of None \<Rightarrow> [] | Some a \<Rightarrow> a))
                = None
            \<and> (\<forall>dir name. readFile fs2 dir name =
                  (if dir = destPath \<and> name = ''ifaddr-8.img'' then Some data
                   else readFile fs dir name))))
   \<and> (readFile fs srcPath ''netdev-8.img''
          = Some (header @ concat (map (\<lambda>(sz, body). sz @ body) before) @ szBad @ bad @ rest)
        \<and> length header = 4 \<and> fs destPath \<noteq> None
        \<and> (\<forall>(sz, body) \<in> set before. length sz = 4
              \<and> decodeU32 (bigEndian x) sz = length body
              \<and> (\<exists>device. unmarshalNetDev x body = Some device
                    \<and> devName device \<noteq> Some ''eth0''
                    \<and> marshalNetDev x device = Some (re body)))
        \<and> length szBad = 4 \<and> decodeU32 (bigEndian x) szBad = length bad
        \<and> (\<exists>device. unmarshalNetDev x bad = Some device \<and> devName device = Some ''eth0'')
        \<and> hexDecodeString mac = None
      \<longrightarrow> (\<exists>fs3. rewriteMacAddress x fs srcPath destPath mac = (fs3, Some HexError)
            \<and> (\<forall>dir name. readFile fs3 dir name =
                  (if dir = destPath \<and> name = ''netdev-8.img''
                   then Some (header @ concat (map (\<lambda>(sz, body).
                                 encodeU32 (bigEndian x) (length (re body)) @ re body) before))
                   else readFile fs dir name))))"
proof -
  have first: "fs1 = fs"
    if "rewriteIPAddress x fs srcPath destPath ip = Some (fs1, Some OldAddressNotInIfaddr)"
    using that unfolding rewriteIPAddress_def Let_def
    by (auto split: option.splits sum.splits prod.splits if_splits
        dest: rewriteBytes_error replaceWrite_error)
  note second = rewriteIPAddress_route_failure [of x fs srcPath destPath ip fs2]
  have third: "\<exists>fs3. rewriteMacAddress x fs srcPath destPath mac = (fs3, Some HexError)
      \<and> (\<forall>dir name. readFile fs3 dir name =
            (if dir = destPath \<and> name = ''netdev-8.img''
             then Some (header @ concat (map (\<lambda>(sz, body).
                           encodeU32 (bigEndian x) (length (re body)) @ re body) before))
             else readFile fs dir name))"
    if a: "readFile fs srcPath ''netdev-8.img''
          = Some (header @ concat (map (\<lambda>(sz, body). sz @ body) before) @ szBad @ bad @ rest)
        \<and> length header = 4 \<and> fs destPath \<noteq> None
        \<and> (\<forall>(sz, body) \<in> set before. length sz = 4
              \<and> decodeU32 (bigEndian x) sz = length body
              \<and> (\<exists>device. unmarshalNetDev x body = Some device
                    \<and> devName device \<noteq> Some ''eth0''
                    \<and> marshalNetDev x device = Some (re body)))
        \<and> length szBad = 4 \<and> decodeU32 (bigEndian x) szBad = length bad
        \<and> (\<exists>device. unmarshalNetDev x bad = Some device \<and> devName device = Some ''eth0'')
        \<and> hexDecodeString mac = None"
  proof (rule rewriteMacAddress_bad_hex)
    from a show "readFile fs srcPath ''netdev-8.img''
          = Some (header @ concat (map (\<lambda>(sz, body). sz @ body) before) @ szBad @ bad @ rest)"
      by (rule conjunct1)
    from a show "length header = 4" "fs destPath \<noteq> None" "length szBad = 4"
      "decodeU32 (bigEndian x) szBad = length bad" "hexDecodeString mac = None"
      by simp_all
    from a show "\<forall>(sz, body) \<in> set before. length sz = 4
              \<and> decodeU32 (bigEndian x) sz = length body
              \<and> (\<exists>device. unmarshalNetDev x body = Some device
                    \<and> devName device \<noteq> Some ''eth0''
                    \<and> marshalNetDev x device = Some (re body))"
      by blast
    from a show "\<exists>device. unmarshalNetDev x bad = Some device \<and> devName device = Some ''eth0''"
      by blast
  qed
  from first second third show ?thesis
    by (intro conjI impI)
qed

theorem failed_directive_effects_witness:
  "rewriteIPAddress extA fsA ''/img'' ''/out'' ''10.0.0.5''
     = Some (fsA1, Some OldAddressNotInRoute)
   \<and> readFile fsA ''/out'' ''ifaddr-8.img'' = Some [1]
   \<and> readFile fsA1 ''/out'' ''ifaddr-8.img'' = Some ifaddrNew
   \<and> rewriteIPAddress extB fsA ''/img'' ''/out'' ''172.17.0.2''
       = Some (fsA, Some OldAddressNotInIfaddr)
   \<and> readFile fsA1 ''/out'' ''route-8.img'' = Some [2]
   \<and> (\<exists>fs3. rewriteMacAddress extA fsN ''/img'' ''/out'' ''zz'' = (fs3, Some HexError)
         \<and> readFile fsN ''/out'' ''netdev-8.img'' = Some [3]
         \<and> readFile fs3 ''/out'' ''netdev-8.img''
             = Some [0x54, 0x4d, 0x49, 0x00, 3, 0, 0, 0, 0, 0, 0]
         \<and> readFile fs3 ''/out'' ''ifaddr-8.img'' = Some [1])"
proof -
  note ip_case = failed_directive_effects
    [where x = extA and fs = fsA and srcPath = "''/img''" and destPath = "''/out''"
       and ip = "''10.0.0.5''" and ?fs1.0 = fsA1 and ?fs2.0 = fsA1 and mac = "''zz''"
       and header = "[]" and before = "[]" and szBad = "[]" and bad = "[]" and rest = "[]"
       and re = id]
  note absent_case = failed_directive_effects
    [where x = extB and fs = fsA and srcPath = "''/img''" and destPath = "''/out''"
       and ip = "''172.17.0.2''" and ?fs1.0 = fsA and ?fs2.0 = fsA and mac = "''zz''"
       and header = "[]" and before = "[]" and szBad = "[]" and bad = "[]" and rest = "[]"
       and re = id]
  note mac_case = failed_directive_effects
    [where x = extA and fs = fsN and srcPath = "''/img''" and destPath = "''/out''"
       and ip = "''10.0.0.5''" and ?fs1.0 = fsN and ?fs2.0 = fsN and mac = "''zz''"
       and header = "[0x54, 0x4d, 0x49, 0x00]" and before = "[([3, 0, 0, 0], [0, 0, 0])]"
       and szBad = "[7, 0, 0, 0]" and bad = "[1, 2, 0x42, 0xac, 0x11, 0, 1]" and rest = "[]"
       and re = id]
  have before_files: "readFile fsA ''/out'' ''ifaddr-8.img'' = Some [1]"
    "readFile fsA ''/out'' ''route-8.img'' = Some [2]"
    "readFile fsN ''/out'' ''ifaddr-8.img'' = Some [1]"
    "readFile fsN ''/out'' ''netdev-8.img'' = Some [3]"
    by (simp_all add: readFile_def fsA_def fsN_def)
  from ip_case [THEN conjunct2, THEN conjunct1, THEN mp, OF rewriteIPAddress_fsA]
  obtain src dump found parsed data replaced
    where src: "readFile fsA ''/img'' ''ifaddr-8.img'' = Some src"
      and dump: "ipAddrShowdump extA src = Some dump"
      and found: "findInet extA dump = Some found"
      and parsed: "netParseIP extA ''10.0.0.5'' = Some parsed"
      and bytes: "rewriteBytes (readCap extA src) src
            (To4 (case netParseIP extA found of None \<Rightarrow> [] | Some a \<Rightarrow> a)) (To4 parsed)
          = Some (Inr (data, replaced))"
      and reads: "\<forall>dir name. readFile fsA1 dir name =
            (if dir = ''/out'' \<and> name = ''ifaddr-8.img'' then Some data
             else readFile fsA dir name)"
    by blast
  from src have src_eq: "src = ifaddrOld"
    by (simp add: fsA_files)
  from dump have dump_eq: "dump = ''    inet 172.17.0.2/16 scope global eth0''"
    by (simp add: src_eq extA_fields)
  from found have found_eq: "found = ''172.17.0.2''"
    by (simp add: dump_eq extA_fields)
  from parsed have parsed_eq: "parsed = [10, 0, 0, 5]"
    by (simp add: extA_fields)
  from bytes have data_eq: "data = ifaddrNew"
    by (simp add: src_eq found_eq parsed_eq extA_fields To4_four rewriteBytes_ifaddrOld)
  from reads have new_ifaddr: "readFile fsA1 ''/out'' ''ifaddr-8.img'' = Some ifaddrNew"
    by (simp add: data_eq)
  from reads have "readFile fsA1 ''/out'' ''route-8.img''
      = readFile fsA ''/out'' ''route-8.img''"
    by simp
  then have old_route: "readFile fsA1 ''/out'' ''route-8.img'' = Some [2]"
    by (simp add: before_files)
  have source: "readFile fsN ''/img'' ''netdev-8.img''
      = Some ([0x54, 0x4d, 0x49, 0x00]
          @ concat (map (\<lambda>(sz, body). sz @ body) [([3, 0, 0, 0], [0, 0, 0])])
          @ [7, 0, 0, 0] @ [1, 2, 0x42, 0xac, 0x11, 0, 1] @ [])"
    by (simp add: readFile_def fsN_def netdevTwo_def)
  have dest: "fsN ''/out'' \<noteq> None"
    by (simp add: fsN_def)
  have preceding: "\<forall>(sz, body) \<in> set [([3, 0, 0, 0], [0, 0, 0 :: byte])]. length sz = 4
          \<and> decodeU32 (bigEndian extA) sz = length body
          \<and> (\<exists>device. unmarshalNetDev extA body = Some device
                \<and> devName device \<noteq> Some ''eth0'' \<and> marshalNetDev extA device = Some (id body))"
    by (simp add: extA_def decodeU32_def)
  have failing: "length [7, 0, 0, 0 :: byte] = 4"
    "decodeU32 (bigEndian extA) [7, 0, 0, 0] = length [1, 2, 0x42, 0xac, 0x11, 0, 1 :: byte]"
    "\<exists>device. unmarshalNetDev extA [1, 2, 0x42, 0xac, 0x11, 0, 1] = Some device
        \<and> devName device = Some ''eth0''"
    by (simp_all add: extA_def decodeU32_def)
  have hex: "hexDecodeString ''zz'' = None"
    by (simp add: fromHexChar_def)
  have header: "length [0x54, 0x4d, 0x49, 0x00 :: byte] = 4"
    by simp
  from source header dest preceding failing hex
  have given: "readFile fsN ''/img'' ''netdev-8.img''
        = Some ([0x54, 0x4d, 0x49, 0x00]
            @ concat (map (\<lambda>(sz, body). sz @ body) [([3, 0, 0, 0], [0, 0, 0])])
            @ [7, 0, 0, 0] @ [1, 2, 0x42, 0xac, 0x11, 0, 1] @ [])
      \<and> length [0x54, 0x4d, 0x49, 0x00 :: byte] = 4 \<and> fsN ''/out'' \<noteq> None
      \<and> (\<forall>(sz, body) \<in> set [([3, 0, 0, 0], [0, 0, 0 :: byte])]. length sz = 4
            \<and> decodeU32 (bigEndian extA) sz = length body
            \<and> (\<exists>device. unmarshalNetDev extA body = Some device
                  \<and> devName device \<noteq> Some ''eth0''
                  \<and> marshalNetDev extA device = Some (id body)))
      \<and> length [7, 0, 0, 0 :: byte] = 4
      \<and> decodeU32 (bigEndian extA) [7, 0, 0, 0] = length [1, 2, 0x42, 0xac, 0x11, 0, 1 :: byte]
      \<and> (\<exists>device. unmarshalNetDev extA [1, 2, 0x42, 0xac, 0x11, 0, 1] = Some device
            \<and> devName device = Some ''eth0'')
      \<and> hexDecodeString ''zz'' = None"
    by (intro conjI)
  from mac_case [THEN conjunct2, THEN conjunct2, THEN mp, OF given]
  obtain fs3 where failed: "rewriteMacAddress extA fsN ''/img'' ''/out'' ''zz''
        = (fs3, Some HexError)"
    and reads3: "\<forall>dir name. readFile fs3 dir name =
           (if dir = ''/out'' \<and> name = ''netdev-8.img''
            then Some ([0x54, 0x4d, 0x49, 0x00] @ concat (map (\<lambda>(sz, body).
                          encodeU32 (bigEndian extA) (length (id body)) @ id body)
                            [([3 :: byte, 0, 0, 0], [0, 0, 0])]))
            else readFile fsN dir name)"
    by blast
  have encoded: "[0x54, 0x4d, 0x49, 0x00] @ concat (map (\<lambda>(sz, body).
        encodeU32 (bigEndian extA) (length (id body)) @ id body) [([3 :: byte, 0, 0, 0], [0, 0, 0 :: byte])])
      = [0x54, 0x4d, 0x49, 0x00, 3, 0, 0, 0, 0, 0, 0 :: byte]"
    by (simp add: encodeU32_def extA_def numeral_3_eq_3 [symmetric])
  from reads3 have new_netdev: "readFile fs3 ''/out'' ''netdev-8.img''
      = Some [0x54, 0x4d, 0x49, 0x00, 3, 0, 0, 0, 0, 0, 0]"
    by (simp only: encoded simp_thms if_True)
  from reads3 have "readFile fs3 ''/out'' ''ifaddr-8.img''
      = readFile fsN ''/out'' ''ifaddr-8.img''"
    by (auto simp only: if_True if_False simp_thms list.simps char.simps)
  then have old_ifaddr: "readFile fs3 ''/out'' ''ifaddr-8.img'' = Some [1]"
    by (simp only: before_files)
  from failed new_netdev old_ifaddr before_files
  have "\<exists>fs3. rewriteMacAddress extA fsN ''/img'' ''/out'' ''zz'' = (fs3, Some HexError)
         \<and> readFile fsN ''/out'' ''netdev-8.img'' = Some [3]
         \<and> readFile fs3 ''/out'' ''netdev-8.img''
             = Some [0x54, 0x4d, 0x49, 0x00, 3, 0, 0, 0, 0, 0, 0]
         \<and> readFile fs3 ''/out'' ''ifaddr-8.img'' = Some [1]"
    by blast
  moreover have absent: "rewriteIPAddress extB fsA ''/img'' ''/out'' ''172.17.0.2''
      = Some (fsA, Some OldAddressNotInIfaddr)"
    by (simp add: rewriteIPAddress_def fsA_files extB_def extA_def To4_four
        rewriteBytes_ifaddrOld_absent)
  moreover note absent_case [THEN conjunct1, THEN mp, OF absent]
  ultimately show ?thesis
    using rewriteIPAddress_fsA before_files(1) new_ifaddr old_route
    by (intro conjI)
qed

text \<open>
  Claim C5 on the code: an image directory is rewritten in place with \<open>ip=10.0.0.5\<close>, and
  the same directive is applied again.  The first application succeeds.  In the second the
  address found in \<open>ifaddr-8.img\<close> is the new one, \<open>rewriteBytes\<close> is asked to replace
  it by itself, finds it at the same position each time round, and never returns.
\<close>

theorem rewriteIPAddress_second_application_diverges:
  "rewriteIPAddress extA fsImg ''/img'' ''/img'' ''10.0.0.5'' = Some (fsImg1, None)
   \<and> rewriteIPAddress extA fsImg1 ''/img'' ''/img'' ''10.0.0.5'' = None"
proof -
  have files: "readFile fsImg ''/img'' ''ifaddr-8.img'' = Some ifaddrOld"
    "readFile fsImg1 ''/img'' ''ifaddr-8.img'' = Some ifaddrNew"
    by (simp_all add: readFile_def fsImg_def fsImg1_def)
  have w1: "replaceWrite fsImg ''/img'' ''ifaddr-8.img'' ifaddrNew
      = ([''/img'' \<mapsto> [(''route-8.img'', routeOld), (''ifaddr-8.img'', ifaddrNew)]], None)"
    by (simp add: replaceWrite_def removeFile_def writeFile_def fsImg_def Let_def)
  have r1: "readFile [''/img'' \<mapsto> [(''route-8.img'', routeOld), (''ifaddr-8.img'', ifaddrNew)]]
      ''/img'' ''route-8.img'' = Some routeOld"
    by (simp add: readFile_def)
  have w2: "replaceWrite [''/img'' \<mapsto> [(''route-8.img'', routeOld), (''ifaddr-8.img'', ifaddrNew)]]
      ''/img'' ''route-8.img'' routeNew = (fsImg1, None)"
    by (simp add: replaceWrite_def removeFile_def writeFile_def fsImg1_def Let_def)
  have first: "rewriteIPAddress extA fsImg ''/img'' ''/img'' ''10.0.0.5'' = Some (fsImg1, None)"
    by (simp add: rewriteIPAddress_def files extA_fields To4_four rewriteBytes_ifaddrOld
        w1 r1 rewriteBytes_routeOld w2)
  have found: "bytesIndex ifaddrNew [10, 0, 0, 5] = Some 8"
    by (simp add: ifaddrNew_def)
  have loop: "rewriteBytes (length ifaddrNew) ifaddrNew [10, 0, 0, 5] [10, 0, 0, 5] = None"
    unfolding rewriteBytes_def
    by (rule rewriteBytesLoop_same_diverges [OF found]) simp
  have second: "rewriteIPAddress extA fsImg1 ''/img'' ''/img'' ''10.0.0.5'' = None"
    by (simp add: rewriteIPAddress_def files extA_fields To4_four loop)
  from first second show ?thesis
    by simp
qed


end
